theory Spec2Isabelle
  imports Complex_Main "HOL-Library.AList"
begin

section \<open>JavaScript values held by the game state\<close>

text \<open>
  Machine of Worlds keeps one mutable state object (\<^verbatim>\<open>GameState.state\<close>). Its numbers are
  JavaScript numbers; finite ones are modelled by exact reals (every amount the game
  computes is floored to an integer before it is stored, and the constants of the cost
  curve are dyadic), and the one non-finite value that plain arithmetic on a missing
  property produces is kept as \<open>NaN\<close>. A JavaScript object is an association list with
  distinct keys: \<open>map_of\<close> reads a property (\<open>None\<close> is \<^verbatim>\<open>undefined\<close>) and
  \<open>AList.update\<close> writes it, in place if the key exists and at the end otherwise.
\<close>

datatype amount = Num real | NaN

text \<open>\<^verbatim>\<open>x >= c\<close>, \<^verbatim>\<open>x < c\<close> and \<^verbatim>\<open>x > c\<close>: every comparison with \<^verbatim>\<open>undefined\<close> or NaN is false.\<close>

fun js_ge :: "amount option \<Rightarrow> real \<Rightarrow> bool" where
  "js_ge (Some (Num x)) c = (c \<le> x)"
| "js_ge _ c = False"

fun js_lt :: "amount option \<Rightarrow> real \<Rightarrow> bool" where
  "js_lt (Some (Num x)) c = (x < c)"
| "js_lt _ c = False"

fun js_gt :: "amount option \<Rightarrow> real \<Rightarrow> bool" where
  "js_gt (Some (Num x)) c = (c < x)"
| "js_gt _ c = False"

text \<open>\<^verbatim>\<open>x + d\<close> for a finite \<open>d\<close>: \<^verbatim>\<open>undefined + d\<close> and \<^verbatim>\<open>NaN + d\<close> are NaN.\<close>

fun js_plus :: "amount option \<Rightarrow> real \<Rightarrow> amount" where
  "js_plus (Some (Num x)) d = Num (x + d)"
| "js_plus _ d = NaN"

text \<open>\<^verbatim>\<open>x || 0\<close>: \<^verbatim>\<open>undefined\<close>, NaN and 0 are falsy.\<close>

fun js_or0 :: "amount option \<Rightarrow> real" where
  "js_or0 (Some (Num x)) = x"
| "js_or0 _ = 0"

text \<open>\<^verbatim>\<open>Math.floor\<close> on a finite number.\<close>

definition Math_floor :: "real \<Rightarrow> real" where
  "Math_floor x = of_int \<lfloor>x\<rfloor>"

text \<open>
  An exception that a method raises. The only one that the code modelled here can raise
  is the TypeError of reading a property of \<^verbatim>\<open>undefined\<close> or of calling a value that is not
  a function.
\<close>

datatype js_error = TypeError

subsection \<open>Upgrades, events, worlds\<close>

text \<open>
  An upgrade. Its three numbers are JavaScript numbers: the constructor sets whole ones,
  but \<^verbatim>\<open>loadGame\<close> takes the level of a save, which \<^verbatim>\<open>validateSaveData\<close> lets be any finite
  number that is not negative (9.5, or a level above the maximum), and it takes
  \<^verbatim>\<open>maxLevel\<close> and \<^verbatim>\<open>baseCost\<close> unchecked; here they are finite numbers. The \<^verbatim>\<open>unlocked\<close>
  and \<^verbatim>\<open>requires...\<close> properties of the cross-resource upgrades are read only by
  \<^verbatim>\<open>checkUpgradeUnlocks\<close>, which is not part of this development.
\<close>

record upgrade =
  level :: real
  maxLevel :: real
  baseCost :: real

record active_event =
  ev_name :: string
  effect :: string
  duration :: int
  originalDuration :: int

record permanent_bonuses =
  resourceEfficiency :: real
  upgradeCostReduction :: real

datatype all_effect = AllAbsent | AllRandom | AllNumber real

text \<open>\<^verbatim>\<open>world.specialEffects.effects\<close>; a missing per-resource factor is \<open>None\<close>.\<close>

record effects =
  e_heat :: "real option"
  e_fuel :: "real option"
  e_pressure :: "real option"
  e_energy :: "real option"
  e_stability :: "real option"
  e_all :: all_effect
  special :: string

text \<open>
  The current world. \<^verbatim>\<open>selectWorld\<close> builds it from a catalogue entry and its
  \<^verbatim>\<open>properties\<close>; it sets no \<^verbatim>\<open>weather\<close> and no \<^verbatim>\<open>specialEffects\<close>, which are modelled by
  the empty string (it matches no case of a \<^verbatim>\<open>switch\<close>, as \<^verbatim>\<open>undefined\<close> does) and by
  \<open>None\<close>.
\<close>

record world =
  w_id :: nat
  w_name :: string
  w_type :: string
  gravity :: real
  timeSpeed :: real
  temperature :: real
  atmosphere :: real
  weather :: string
  specialEffects :: "effects option"

subsection \<open>Achievements\<close>

text \<open>
  The requirement objects of \<^verbatim>\<open>achievements.definitions\<close> are duck-typed; each
  constructor below is one shape that occurs in the table, carrying the properties that
  \<^verbatim>\<open>checkRequirement\<close> reads for it. \<open>Other\<close> is any object whose \<^verbatim>\<open>type\<close> has no case in
  the \<^verbatim>\<open>switch\<close> (\<^verbatim>\<open>stat\<close>, \<^verbatim>\<open>variety\<close>, \<^verbatim>\<open>collection\<close>, \<^verbatim>\<open>secret\<close>, and
  \<^verbatim>\<open>pressure_to_heat\<close> of entry 28, whose literal writes the key \<^verbatim>\<open>type\<close> twice).
\<close>

datatype requirement =
    Resource string real
  | Worlds real
  | UpgradeCount real
  | UpgradeMaxed "string list"
  | Achievements real
  | Playtime real
  | Clicks real
  | Resets real
  | SynergyAll
  | SynergyCount real
  | Balance "string list" real
  | Total real
  | CompletionAchievements real
  | CompletionPercentage real
  | SpeedAchievement nat real
  | SpeedCategory string real real
  | Conversion string string real
  | Ratio "string list" "real list"
  | Maintain "string list" "real list" real
  | Streak string real
  | Discovery string real
  | Challenge string string real
  | Simultaneous string real
  | Caps string real
  | Usage string real
  | Navigation string real
  | Constraint string real string real
  | Tier nat real
  | TierVariety "nat list" real
  | Secret string
  | Other string

record achievement =
  a_name :: string
  requirement :: requirement
  hidden :: bool

text \<open>
  The counters that \<^verbatim>\<open>checkRequirement\<close> reads from the top level of the state. Each is
  read as \<^verbatim>\<open>state.x || 0\<close> (or \<^verbatim>\<open>|| {}\<close>, \<^verbatim>\<open>|| []\<close>), so a missing one and a zero or empty
  one behave alike; \<open>gameStartTime\<close> and \<open>secretCodes\<close> keep the missing case.
\<close>

record counters =
  playtime :: real
  totalClicks :: real
  totalResets :: real
  synergyActivations :: real
  gameStartTime :: "real option"
  recentActions :: "(string \<times> real list) list"
  conversions :: "(string \<times> real) list"
  maintenance :: "(string \<times> real) list"
  streaks :: "(string \<times> real) list"
  discoveries :: "(string \<times> string list) list"
  manualGeneration :: "(string \<times> real) list"
  capHits :: real
  featureUsage :: "(string \<times> real) list"
  pageVisits :: "(string \<times> real) list"
  tierWorldCounts :: "(nat \<times> real) list"
  secretCodes :: "string list option"

subsection \<open>The state object\<close>

record game_state =
  worldsCreated :: nat
  resources :: "(string \<times> amount) list"
  upgrades :: "(string \<times> upgrade) list"
  currentWorld :: "world option"
  unlockedWorlds :: "nat list"
  worldProgress :: nat
  activeEvents :: "active_event list option"
  eventHistory :: "(string \<times> string \<times> real) list"
  permanentBonuses :: permanent_bonuses
  unlocked :: "nat list"
  definitions :: "(nat \<times> achievement) list"
  tracking :: counters

section \<open>GameState: the initial state\<close>

text \<open>
  The table \<^verbatim>\<open>achievements.definitions\<close> of the constructor, in the order in which
  \<^verbatim>\<open>Object.entries\<close> enumerates its integer keys (ascending). The \<^verbatim>\<open>description\<close> and
  \<^verbatim>\<open>reward\<close> texts are not read by \<^verbatim>\<open>checkAchievements\<close> and are left out.
\<close>

definition achievement_definitions :: "(nat \<times> achievement) list" where
  "achievement_definitions = [
    (1, \<lparr>a_name = ''First Steps'', requirement = Resource ''heat'' 1, hidden = False\<rparr>),
    (2, \<lparr>a_name = ''Fuel Finder'', requirement = Resource ''fuel'' 1, hidden = False\<rparr>),
    (3, \<lparr>a_name = ''First Upgrade'', requirement = UpgradeCount 1, hidden = False\<rparr>),
    (4, \<lparr>a_name = ''Heat Wave'', requirement = Resource ''heat'' 100, hidden = False\<rparr>),
    (5, \<lparr>a_name = ''Fuel Tank'', requirement = Resource ''fuel'' 100, hidden = False\<rparr>),
    (6, \<lparr>a_name = ''World Builder'', requirement = Worlds 1, hidden = False\<rparr>),
    (7, \<lparr>a_name = ''Pressure Rising'', requirement = Resource ''pressure'' 50, hidden = False\<rparr>),
    (8, \<lparr>a_name = ''Energy Seeker'', requirement = Resource ''energy'' 25, hidden = False\<rparr>),
    (9, \<lparr>a_name = ''Stability Master'', requirement = Resource ''stability'' 20, hidden = False\<rparr>),
    (10, \<lparr>a_name = ''Heat Master'', requirement = Resource ''heat'' 1000, hidden = False\<rparr>),
    (11, \<lparr>a_name = ''Fuel Depot'', requirement = Resource ''fuel'' 500, hidden = False\<rparr>),
    (12, \<lparr>a_name = ''Upgrader'', requirement = UpgradeCount 5, hidden = False\<rparr>),
    (13, \<lparr>a_name = ''World Collector'', requirement = Worlds 5, hidden = False\<rparr>),
    (14, \<lparr>a_name = ''Pressure Cooker'', requirement = Resource ''pressure'' 100, hidden = False\<rparr>),
    (15, \<lparr>a_name = ''Energy Core'', requirement = Resource ''energy'' 100, hidden = False\<rparr>),
    (16, \<lparr>a_name = ''Synergy User'', requirement = SynergyCount 1, hidden = False\<rparr>),
    (17, \<lparr>a_name = ''Dimension Hopper'', requirement = Worlds 25, hidden = False\<rparr>),
    (18, \<lparr>a_name = ''Mega Heat'', requirement = Resource ''heat'' 10000, hidden = False\<rparr>),
    (19, \<lparr>a_name = ''Fuel Empire'', requirement = Resource ''fuel'' 5000, hidden = False\<rparr>),
    (20, \<lparr>a_name = ''Upgrade Master'', requirement = UpgradeCount 10, hidden = False\<rparr>),
    (21, \<lparr>a_name = ''World Factory'', requirement = Worlds 25, hidden = False\<rparr>),
    (22, \<lparr>a_name = ''Stability Fortress'', requirement = Resource ''stability'' 100, hidden = False\<rparr>),
    (23, \<lparr>a_name = ''Synergy Master'', requirement = SynergyCount 100, hidden = False\<rparr>),
    (24, \<lparr>a_name = ''Heat Titan'', requirement = Resource ''heat'' 100000, hidden = False\<rparr>),
    (25, \<lparr>a_name = ''Fuel Ocean'', requirement = Resource ''fuel'' 50000, hidden = False\<rparr>),
    (26, \<lparr>a_name = ''Upgrade Legend'', requirement = UpgradeMaxed [''heatGenerator'', ''fuelEfficiency''], hidden = False\<rparr>),
    (27, \<lparr>a_name = ''Universe Builder'', requirement = Worlds 75, hidden = False\<rparr>),
    (28, \<lparr>a_name = ''Pressure God'', requirement = Other ''pressure_to_heat'', hidden = False\<rparr>),
    (29, \<lparr>a_name = ''Energy Nexus'', requirement = Resource ''energy'' 1000, hidden = False\<rparr>),
    (30, \<lparr>a_name = ''Perfect Balance'', requirement = Balance [''heat'', ''fuel'', ''pressure'', ''energy'', ''stability''] 1000, hidden = False\<rparr>),
    (31, \<lparr>a_name = ''Speed Runner'', requirement = SpeedAchievement 17 3600, hidden = False\<rparr>),
    (32, \<lparr>a_name = ''Efficiency Expert'', requirement = Other ''stat'', hidden = False\<rparr>),
    (33, \<lparr>a_name = ''World Architect'', requirement = Other ''variety'', hidden = False\<rparr>),
    (34, \<lparr>a_name = ''Resource Hoarder'', requirement = Total 1000000, hidden = False\<rparr>),
    (35, \<lparr>a_name = ''Upgrade Collector'', requirement = Other ''collection'', hidden = False\<rparr>),
    (36, \<lparr>a_name = ''Hidden Power'', requirement = Secret ''MACHINE_POWER'', hidden = True\<rparr>),
    (37, \<lparr>a_name = ''Time Master'', requirement = Playtime 86400, hidden = False\<rparr>),
    (38, \<lparr>a_name = ''Click Master'', requirement = Clicks 1000, hidden = False\<rparr>),
    (39, \<lparr>a_name = ''Reset Veteran'', requirement = Resets 3, hidden = False\<rparr>),
    (40, \<lparr>a_name = ''Achievement Hunter'', requirement = Achievements 25, hidden = False\<rparr>),
    (41, \<lparr>a_name = ''Mega Worlds'', requirement = Worlds 150, hidden = False\<rparr>),
    (42, \<lparr>a_name = ''Heat Infinity'', requirement = Resource ''heat'' 1000000, hidden = False\<rparr>),
    (43, \<lparr>a_name = ''Fuel Cosmos'', requirement = Resource ''fuel'' 1000000, hidden = False\<rparr>),
    (44, \<lparr>a_name = ''Ultimate Builder'', requirement = Worlds 250, hidden = False\<rparr>),
    (45, \<lparr>a_name = ''Perfect Synergy'', requirement = SynergyAll, hidden = False\<rparr>),
    (46, \<lparr>a_name = ''Resource God'', requirement = Balance [''heat'', ''fuel'', ''pressure'', ''energy'', ''stability''] 100000, hidden = False\<rparr>),
    (47, \<lparr>a_name = ''Legendary Status'', requirement = CompletionPercentage 100, hidden = False\<rparr>),
    (48, \<lparr>a_name = ''Secret Keeper'', requirement = Secret ''WORLD_MACHINE'', hidden = True\<rparr>),
    (49, \<lparr>a_name = ''Time Lord'', requirement = Playtime 604800, hidden = False\<rparr>),
    (50, \<lparr>a_name = ''Master of Worlds'', requirement = CompletionAchievements 69, hidden = False\<rparr>),
    (51, \<lparr>a_name = ''Conversion Expert'', requirement = Conversion ''pressure'' ''heat'' 500, hidden = False\<rparr>),
    (52, \<lparr>a_name = ''Energy Converter'', requirement = Conversion ''energy'' ''fuel'' 200, hidden = False\<rparr>),
    (53, \<lparr>a_name = ''Efficiency Master'', requirement = Ratio [''heat'', ''fuel''] [3, 1], hidden = False\<rparr>),
    (54, \<lparr>a_name = ''Resource Optimizer'', requirement = Maintain [''heat'', ''fuel'', ''pressure''] [2, 1, 1] 300, hidden = False\<rparr>),
    (55, \<lparr>a_name = ''Daily Dedication'', requirement = Streak ''daily'' 7, hidden = False\<rparr>),
    (56, \<lparr>a_name = ''Resource Streak'', requirement = Streak ''generation'' 100, hidden = False\<rparr>),
    (57, \<lparr>a_name = ''Upgrade Spree'', requirement = SpeedCategory ''upgrades'' 5 60, hidden = False\<rparr>),
    (58, \<lparr>a_name = ''Explorer'', requirement = Discovery ''generation'' 5, hidden = False\<rparr>),
    (59, \<lparr>a_name = ''Strategist'', requirement = Challenge ''manual'' ''heat'' 1000, hidden = False\<rparr>),
    (60, \<lparr>a_name = ''Multi-tasker'', requirement = Simultaneous ''generation'' 5, hidden = False\<rparr>),
    (61, \<lparr>a_name = ''Storage Expert'', requirement = Caps ''reached'' 10, hidden = False\<rparr>),
    (62, \<lparr>a_name = ''Automation Lover'', requirement = Usage ''automation'' 3600, hidden = False\<rparr>),
    (63, \<lparr>a_name = ''Interface Master'', requirement = Navigation ''all_pages'' 20, hidden = False\<rparr>),
    (64, \<lparr>a_name = ''Minimalist'', requirement = Constraint ''upgrades'' 2 ''worlds'' 10, hidden = False\<rparr>),
    (65, \<lparr>a_name = ''Speed Builder'', requirement = SpeedCategory ''worlds'' 5 600, hidden = False\<rparr>),
    (66, \<lparr>a_name = ''Enhanced Explorer'', requirement = Tier 2 1, hidden = False\<rparr>),
    (67, \<lparr>a_name = ''Enhanced Master'', requirement = Tier 2 10, hidden = False\<rparr>),
    (68, \<lparr>a_name = ''Exotic Pioneer'', requirement = Tier 3 1, hidden = False\<rparr>),
    (69, \<lparr>a_name = ''Reality Bender'', requirement = Tier 3 5, hidden = False\<rparr>),
    (70, \<lparr>a_name = ''Tier Master'', requirement = TierVariety [1, 2, 3] 3, hidden = False\<rparr>)
  ]"

definition initial_counters :: counters where
  "initial_counters =
     \<lparr>playtime = 0, totalClicks = 0, totalResets = 0, synergyActivations = 0,
      gameStartTime = None, recentActions = [], conversions = [], maintenance = [],
      streaks = [], discoveries = [], manualGeneration = [], capHits = 0,
      featureUsage = [], pageVisits = [], tierWorldCounts = [], secretCodes = None\<rparr>"

definition initial_upgrades :: "(string \<times> upgrade) list" where
  "initial_upgrades =
     [(''heatGenerator'', \<lparr>level = 0, maxLevel = 10, baseCost = 10\<rparr>),
      (''fuelEfficiency'', \<lparr>level = 0, maxLevel = 10, baseCost = 15\<rparr>),
      (''thermalAccelerator'', \<lparr>level = 0, maxLevel = 5, baseCost = 25\<rparr>),
      (''fuelSynchronizer'', \<lparr>level = 0, maxLevel = 5, baseCost = 30\<rparr>),
      (''pressureValve'', \<lparr>level = 0, maxLevel = 5, baseCost = 35\<rparr>),
      (''energyMatrix'', \<lparr>level = 0, maxLevel = 5, baseCost = 40\<rparr>)]"

definition initial_resources :: "(string \<times> amount) list" where
  "initial_resources =
     [(''heat'', Num 0), (''fuel'', Num 0), (''pressure'', Num 0), (''energy'', Num 0),
      (''stability'', Num 0), (''water'', Num 0), (''oxygen'', Num 0), (''stone'', Num 0),
      (''magma'', Num 0), (''ice'', Num 0), (''crystal'', Num 0), (''voidEnergy'', Num 0)]"

definition initial_state :: game_state where
  "initial_state =
     \<lparr>worldsCreated = 0, resources = initial_resources, upgrades = initial_upgrades,
      currentWorld = None, unlockedWorlds = [0], worldProgress = 0,
      activeEvents = Some [], eventHistory = [],
      permanentBonuses = \<lparr>resourceEfficiency = 1, upgradeCostReduction = 1\<rparr>,
      unlocked = [], definitions = achievement_definitions,
      tracking = initial_counters\<rparr>"

section \<open>UpgradeSystem\<close>

text \<open>
  \<^verbatim>\<open>getUpgradeCost\<close>: 0 when \<^verbatim>\<open>activeEvents\<close> or the upgrade is missing; otherwise the
  floored base cost times \<^verbatim>\<open>Math.pow(1.5, level)\<close>, times the permanent reduction, halved
  once per active \<^verbatim>\<open>cheapUpgrade\<close>/\<^verbatim>\<open>cheapUpgrades\<close> event, floored again.
\<close>

definition cheap :: "active_event \<Rightarrow> real \<Rightarrow> real" where
  "cheap ev c = (if effect ev = ''cheapUpgrade'' \<or> effect ev = ''cheapUpgrades''
                 then c * (1/2) else c)"

definition getUpgradeCost :: "game_state \<Rightarrow> string \<Rightarrow> real" where
  "getUpgradeCost s upgradeType =
     (case activeEvents s of
        None \<Rightarrow> 0
      | Some evs \<Rightarrow>
         (case map_of (upgrades s) upgradeType of
            None \<Rightarrow> 0
          | Some u \<Rightarrow>
              Math_floor
                (fold cheap evs
                   (Math_floor (baseCost u * (3/2) powr level u)
                      * upgradeCostReduction (permanentBonuses s)))))"

text \<open>
  \<^verbatim>\<open>upgradeResource\<close> returns its boolean together with the state it leaves. The
  subtraction runs only after \<^verbatim>\<open>resources[resourceType] >= cost\<close> held, so the amount is
  a number there. A name that is not an own property of \<^verbatim>\<open>state.upgrades\<close> reads as
  \<^verbatim>\<open>undefined\<close> or as a member of \<^verbatim>\<open>Object.prototype\<close>, whose cost is NaN and fails the
  comparison: either way the call returns false and changes nothing.
\<close>

definition upgradeResource :: "game_state \<Rightarrow> string \<Rightarrow> string \<Rightarrow> bool \<times> game_state" where
  "upgradeResource s upgradeType resourceType =
     (case map_of (upgrades s) upgradeType of
        None \<Rightarrow> (False, s)
      | Some u \<Rightarrow>
          (let cost = getUpgradeCost s upgradeType in
           if js_ge (map_of (resources s) resourceType) cost \<and> level u < maxLevel u
           then (True,
                 s\<lparr>resources := AList.update resourceType
                                   (js_plus (map_of (resources s) resourceType) (- cost))
                                   (resources s),
                   upgrades := AList.update upgradeType (u\<lparr>level := level u + 1\<rparr>)
                                  (upgrades s)\<rparr>)
           else (False, s)))"

section \<open>WorldSystem: the catalogue of worlds\<close>

text \<open>
  A catalogue entry of \<^verbatim>\<open>initializeWorldDefinitions\<close>: its id, name, type, unlock
  requirements (resource and threshold, in the order of the literal) and its
  \<^verbatim>\<open>properties\<close>. The description, \<^verbatim>\<open>introducesResources\<close> and
  \<^verbatim>\<open>resourceGeneration\<close> are read by no function modelled here.
\<close>

record world_def =
  wd_id :: nat
  wd_name :: string
  wd_type :: string
  unlockRequirements :: "(string \<times> real) list"
  wd_temperature :: real
  wd_atmosphere :: real
  wd_gravity :: real
  wd_timeSpeed :: real

definition worldDefinitions :: "world_def list" where
  "worldDefinitions =
    [\<lparr>wd_id = 0, wd_name = ''Desert Planet'', wd_type = ''Desert'',
      unlockRequirements = [],
      wd_temperature = 45, wd_atmosphere = 20, wd_gravity = 1, wd_timeSpeed = 1\<rparr>,
     \<lparr>wd_id = 1, wd_name = ''Ocean Planet'', wd_type = ''Ocean'',
      unlockRequirements = [(''heat'', 50), (''fuel'', 25)],
      wd_temperature = 15, wd_atmosphere = 80, wd_gravity = 9/10, wd_timeSpeed = 11/10\<rparr>,
     \<lparr>wd_id = 2, wd_name = ''Forest Planet'', wd_type = ''Forest'',
      unlockRequirements = [(''heat'', 25), (''fuel'', 25), (''water'', 30)],
      wd_temperature = 22, wd_atmosphere = 95, wd_gravity = 11/10, wd_timeSpeed = 9/10\<rparr>,
     \<lparr>wd_id = 3, wd_name = ''Mountain Planet'', wd_type = ''Mountain'',
      unlockRequirements = [(''heat'', 25), (''fuel'', 25), (''water'', 25), (''oxygen'', 20)],
      wd_temperature = 5, wd_atmosphere = 45, wd_gravity = 13/10, wd_timeSpeed = 8/10\<rparr>,
     \<lparr>wd_id = 4, wd_name = ''Volcanic Planet'', wd_type = ''Volcanic'',
      unlockRequirements = [(''heat'', 50), (''fuel'', 25), (''water'', 25), (''oxygen'', 20),
                            (''stone'', 30)],
      wd_temperature = 85, wd_atmosphere = 25, wd_gravity = 12/10, wd_timeSpeed = 13/10\<rparr>,
     \<lparr>wd_id = 5, wd_name = ''Ice Planet'', wd_type = ''Ice'',
      unlockRequirements = [(''heat'', 25), (''fuel'', 25), (''water'', 40), (''oxygen'', 20),
                            (''stone'', 25), (''magma'', 20)],
      wd_temperature = - 35, wd_atmosphere = 55, wd_gravity = 8/10, wd_timeSpeed = 7/10\<rparr>,
     \<lparr>wd_id = 6, wd_name = ''Crystal Planet'', wd_type = ''Crystal'',
      unlockRequirements = [(''heat'', 30), (''fuel'', 30), (''water'', 30), (''oxygen'', 25),
                            (''stone'', 30), (''magma'', 20), (''ice'', 25)],
      wd_temperature = 18, wd_atmosphere = 40, wd_gravity = 14/10, wd_timeSpeed = 11/10\<rparr>,
     \<lparr>wd_id = 7, wd_name = ''Void Planet'', wd_type = ''Void'',
      unlockRequirements = [(''heat'', 40), (''fuel'', 40), (''water'', 35), (''oxygen'', 30),
                            (''stone'', 35), (''magma'', 25), (''ice'', 30), (''crystal'', 20)],
      wd_temperature = 0, wd_atmosphere = 0, wd_gravity = 5/10, wd_timeSpeed = 2\<rparr>]"

text \<open>\<^verbatim>\<open>getWorldById\<close>: \<^verbatim>\<open>this.worldDefinitions[worldId] || null\<close>.\<close>

definition getWorldById :: "nat \<Rightarrow> world_def option" where
  "getWorldById worldId =
     (if worldId < length worldDefinitions then Some (worldDefinitions ! worldId) else None)"

text \<open>
  \<^verbatim>\<open>canUnlockWorld\<close>: false for an unknown id; otherwise the loop returns false at the
  first requirement with \<^verbatim>\<open>state.resources[resource] < required\<close> and true after the
  last one.
\<close>

definition canUnlockWorld :: "game_state \<Rightarrow> nat \<Rightarrow> bool" where
  "canUnlockWorld s worldId =
     (case getWorldById worldId of
        None \<Rightarrow> False
      | Some w \<Rightarrow>
          list_all (\<lambda>(resource, required). \<not> js_lt (map_of (resources s) resource) required)
            (unlockRequirements w))"

text \<open>
  \<^verbatim>\<open>checkWorldUnlocks\<close>: the first catalogue entry that is not yet unlocked and can be
  unlocked is pushed onto \<^verbatim>\<open>unlockedWorlds\<close>; its id is returned, or null.
\<close>

definition checkWorldUnlocks :: "game_state \<Rightarrow> nat option \<times> game_state" where
  "checkWorldUnlocks s =
     (case find (\<lambda>w. wd_id w \<notin> set (unlockedWorlds s) \<and> canUnlockWorld s (wd_id w))
             worldDefinitions of
        None \<Rightarrow> (None, s)
      | Some w \<Rightarrow> (Some (wd_id w), s\<lparr>unlockedWorlds := unlockedWorlds s @ [wd_id w]\<rparr>))"

text \<open>The object that \<^verbatim>\<open>selectWorld\<close> stores as \<^verbatim>\<open>state.currentWorld\<close>.\<close>

definition as_current :: "world_def \<Rightarrow> nat \<Rightarrow> world" where
  "as_current w worldId =
     \<lparr>w_id = worldId, w_name = wd_name w, w_type = wd_type w,
      gravity = wd_gravity w, timeSpeed = wd_timeSpeed w,
      temperature = wd_temperature w, atmosphere = wd_atmosphere w,
      weather = [], specialEffects = None\<rparr>"

text \<open>\<^verbatim>\<open>state.resources[resource] -= amount\<close>, for each entry of the unlock cost.\<close>

definition deduct :: "string \<times> real \<Rightarrow> (string \<times> amount) list \<Rightarrow> (string \<times> amount) list" where
  "deduct c rs = AList.update (fst c) (js_plus (map_of rs (fst c)) (- snd c)) rs"

definition selectWorld :: "game_state \<Rightarrow> nat \<Rightarrow> bool \<times> game_state" where
  "selectWorld s worldId =
     (case getWorldById worldId of
        None \<Rightarrow> (False, s)
      | Some w \<Rightarrow>
          if worldId \<notin> set (unlockedWorlds s) then (False, s)
          else
            (let s1 = (if worldProgress s < worldId
                       then s\<lparr>resources := fold deduct (unlockRequirements w) (resources s),
                              worldProgress := worldId,
                              worldsCreated := worldsCreated s + 1\<rparr>
                       else s)
             in (True, s1\<lparr>currentWorld := Some (as_current w worldId)\<rparr>)))"

section \<open>GameState: adding resources and enforcing caps\<close>

text \<open>
  \<^verbatim>\<open>enforceResourceCaps\<close>. A cap of \<^verbatim>\<open>Infinity\<close> is \<open>None\<close>. The three finite caps double
  when the current world carries \<^verbatim>\<open>specialEffects.effects.special === 'noResourceLimits'\<close>.
\<close>

definition noResourceLimits :: "game_state \<Rightarrow> bool" where
  "noResourceLimits s =
     (case currentWorld s of
        None \<Rightarrow> False
      | Some w \<Rightarrow> (case specialEffects w of
                     None \<Rightarrow> False
                   | Some e \<Rightarrow> special e = ''noResourceLimits''))"

definition caps :: "game_state \<Rightarrow> (string \<times> real option) list" where
  "caps s =
     [(''heat'', None), (''fuel'', None),
      (''pressure'', Some (if noResourceLimits s then 200 else 100)),
      (''energy'', Some (if noResourceLimits s then 400 else 200)),
      (''stability'', Some (if noResourceLimits s then 100 else 50))]"

text \<open>
  One round of the loop over \<^verbatim>\<open>Object.entries(caps)\<close>: clamp to the cap when it is
  finite and exceeded, then clamp a negative amount to 0. The flag is \<^verbatim>\<open>capsApplied\<close>.
\<close>

definition enforce_one ::
  "string \<times> real option \<Rightarrow> (string \<times> amount) list \<times> bool \<Rightarrow> (string \<times> amount) list \<times> bool" where
  "enforce_one c acc =
     (let rs = fst acc;
          above = (case snd c of None \<Rightarrow> False | Some cap \<Rightarrow> js_gt (map_of rs (fst c)) cap);
          rs1 = (if above then AList.update (fst c) (Num (the (snd c))) rs else rs);
          below = js_lt (map_of rs1 (fst c)) 0;
          rs2 = (if below then AList.update (fst c) (Num 0) rs1 else rs1)
      in (rs2, snd acc \<or> above \<or> below))"

definition enforceResourceCaps :: "game_state \<Rightarrow> bool \<times> game_state" where
  "enforceResourceCaps s =
     (let r = fold enforce_one (caps s) (resources s, False)
      in (snd r, s\<lparr>resources := fst r\<rparr>))"

text \<open>
  One round of the loop of \<^verbatim>\<open>addResources\<close>. The test is the call
  \<^verbatim>\<open>this.state.resources.hasOwnProperty(resource)\<close>: once \<^verbatim>\<open>hasOwnProperty\<close> is itself an
  own property of the resources, its value is an amount, not a function, and the call
  raises a TypeError. Otherwise an own property is incremented and any other name is
  assigned the delta, which creates it, except for \<^verbatim>\<open>__proto__\<close>: assigning a number to
  that name runs the setter of \<^verbatim>\<open>Object.prototype\<close>, which ignores it.
\<close>

definition write_delta :: "string \<times> real \<Rightarrow> (string \<times> amount) list \<Rightarrow> (string \<times> amount) list" where
  "write_delta d rs =
     (if map_of rs (fst d) \<noteq> None
      then AList.update (fst d) (js_plus (map_of rs (fst d)) (snd d)) rs
      else if fst d = ''__proto__'' then rs
      else AList.update (fst d) (Num (snd d)) rs)"

definition add_delta ::
  "string \<times> real \<Rightarrow> (string \<times> amount) list \<Rightarrow> js_error + (string \<times> amount) list" where
  "add_delta d rs =
     (if map_of rs ''hasOwnProperty'' \<noteq> None then Inl TypeError else Inr (write_delta d rs))"

text \<open>The loop over \<^verbatim>\<open>Object.entries(resourceDeltas)\<close>; an error comes with the resources as
  they are when it is raised.\<close>

fun add_deltas ::
  "(string \<times> real) list \<Rightarrow> (string \<times> amount) list
     \<Rightarrow> js_error \<times> (string \<times> amount) list + (string \<times> amount) list" where
  "add_deltas [] rs = Inr rs"
| "add_deltas (d # ds) rs =
     (case add_delta d rs of Inl e \<Rightarrow> Inl (e, rs) | Inr rs' \<Rightarrow> add_deltas ds rs')"

text \<open>
  \<^verbatim>\<open>addResources\<close>: the loop; then the caps are enforced and the world system looks for a
  world to unlock (\<^verbatim>\<open>window.game\<close> exists once the page has loaded). With \<^verbatim>\<open>shouldSave\<close>
  the state is then written to storage, which does not change it. \<open>Inl\<close>: the error raised
  in the loop and the state at that moment, before any cap is enforced.
\<close>

definition addResources ::
  "game_state \<Rightarrow> (string \<times> real) list \<Rightarrow> js_error \<times> game_state + game_state" where
  "addResources s resourceDeltas =
     (case add_deltas resourceDeltas (resources s) of
        Inl er \<Rightarrow> Inl (fst er, s\<lparr>resources := snd er\<rparr>)
      | Inr rs \<Rightarrow>
          Inr (snd (checkWorldUnlocks (snd (enforceResourceCaps (s\<lparr>resources := rs\<rparr>))))))"

section \<open>States used in the scenarios\<close>

text \<open>Scenario C: a fresh game whose heat has reached 10.\<close>

definition scenario_C :: game_state where
  "scenario_C = initial_state\<lparr>resources := AList.update ''heat'' (Num 10) initial_resources\<rparr>"



section \<open>Game: converting heat and fuel into energy\<close>

text \<open>
  \<^verbatim>\<open>Game.generateEnergy\<close> writes \<^verbatim>\<open>state.resources\<close> directly: 10 heat and 15 fuel buy
  40 energy, limited by \<^verbatim>\<open>Math.min(200, ...)\<close>. It runs only when both amounts suffice, so
  heat and fuel are numbers there; \<^verbatim>\<open>Math.min\<close> of 200 and NaN is NaN.
\<close>

definition min200 :: "amount \<Rightarrow> amount" where
  "min200 a = (case a of Num x \<Rightarrow> Num (min 200 x) | NaN \<Rightarrow> NaN)"

definition generateEnergy :: "game_state \<Rightarrow> game_state" where
  "generateEnergy s =
     (if js_ge (map_of (resources s) ''heat'') 10 \<and> js_ge (map_of (resources s) ''fuel'') 15
      then
        (let r1 = AList.update ''heat'' (js_plus (map_of (resources s) ''heat'') (- 10))
                    (resources s);
             r2 = AList.update ''fuel'' (js_plus (map_of r1 ''fuel'') (- 15)) r1;
             r3 = AList.update ''energy'' (js_plus (map_of r2 ''energy'') 40) r2;
             r4 = AList.update ''energy'' (min200 (the (map_of r3 ''energy''))) r3
         in s\<lparr>resources := r4\<rparr>)
      else s)"

section \<open>EventSystem\<close>

text \<open>
  \<^verbatim>\<open>updateActiveEvents\<close> takes the state from \<^verbatim>\<open>this.gameState.getState()\<close>. A missing
  \<^verbatim>\<open>activeEvents\<close> is initialised to the empty array. Otherwise the filter callback
  decrements the duration of each event it visits and keeps the event when the new
  duration is positive.
\<close>

definition tick :: "active_event \<Rightarrow> active_event" where
  "tick ev = ev\<lparr>duration := duration ev - 1\<rparr>"

definition updateActiveEvents :: "game_state \<Rightarrow> game_state" where
  "updateActiveEvents s =
     (case activeEvents s of
        None \<Rightarrow> s\<lparr>activeEvents := Some []\<rparr>
      | Some evs \<Rightarrow> s\<lparr>activeEvents := Some (filter (\<lambda>ev. 0 < duration ev) (map tick evs))\<rparr>)"

text \<open>
  The other methods of the event system do not call \<^verbatim>\<open>getState()\<close>: they read
  \<^verbatim>\<open>this.gameState.resources\<close>, \<^verbatim>\<open>this.gameState.permanentBonuses\<close>,
  \<^verbatim>\<open>this.gameState.activeEvents\<close> and \<^verbatim>\<open>this.gameState.eventHistory\<close>. What
  \<^verbatim>\<open>this.gameState\<close> refers to decides what these reads give. \<^verbatim>\<open>Game\<close> constructs every
  system with the \<^verbatim>\<open>GameState\<close> instance (and hands the same instance over again after a
  reset or an import); the instance has the single data property \<^verbatim>\<open>state\<close>, so any other
  property of it is \<^verbatim>\<open>undefined\<close> and reading a property of that raises a TypeError. An
  earlier \<^verbatim>\<open>Game\<close> handed the systems the plain state object instead, on which these
  reads reach the state and \<^verbatim>\<open>getState\<close> is not a function.

  A method of the event system returns \<open>Inr\<close> with the reference it leaves, or \<open>Inl\<close> with
  the error it raised and the reference as it was at that moment.
\<close>

datatype gs_ref = GameStateInstance game_state | StateObject game_state

text \<open>\<^verbatim>\<open>this.gameState.getState()\<close>.\<close>

definition getState :: "gs_ref \<Rightarrow> js_error + game_state" where
  "getState r = (case r of GameStateInstance s \<Rightarrow> Inr s | StateObject s \<Rightarrow> Inl TypeError)"

text \<open>
  The state reached by \<^verbatim>\<open>this.gameState.p.q\<close> for a section \<open>p\<close> of the state: a
  TypeError on the instance, where \<^verbatim>\<open>this.gameState.p\<close> is \<^verbatim>\<open>undefined\<close>.
\<close>

definition section_of :: "gs_ref \<Rightarrow> js_error + game_state" where
  "section_of r = (case r of GameStateInstance s \<Rightarrow> Inl TypeError | StateObject s \<Rightarrow> Inr s)"

definition put_state :: "gs_ref \<Rightarrow> game_state \<Rightarrow> gs_ref" where
  "put_state r s = (case r of GameStateInstance _ \<Rightarrow> GameStateInstance s
                            | StateObject _ \<Rightarrow> StateObject s)"

text \<open>A choice of an event definition, and the definition itself.\<close>

record choice =
  c_text :: string
  c_effect :: string
  cost :: "(string \<times> real) list option"
  c_value :: "real option"

record event_def =
  ed_name :: string
  rarity :: string
  ed_duration :: int
  choices :: "choice list"

definition plain_choice :: "string \<Rightarrow> string \<Rightarrow> choice" where
  "plain_choice t e = \<lparr>c_text = t, c_effect = e, cost = None, c_value = None\<rparr>"

definition resourceSurge :: event_def where
  "resourceSurge = \<lparr>ed_name = ''Resource Surge'', rarity = ''common'', ed_duration = 3,
     choices = [plain_choice ''Boost Heat'' ''heatBoost'', plain_choice ''Boost Fuel'' ''fuelBoost'',
                plain_choice ''Boost Pressure'' ''pressureBoost'']\<rparr>"

definition machineTune :: event_def where
  "machineTune = \<lparr>ed_name = ''Machine Tune-Up'', rarity = ''common'', ed_duration = 2,
     choices = [plain_choice ''Accept Bonus'' ''allResourceBoost'', plain_choice ''Decline'' ''none'']\<rparr>"

definition solarFlare :: event_def where
  "solarFlare = \<lparr>ed_name = ''Solar Flare'', rarity = ''uncommon'', ed_duration = 4,
     choices = [plain_choice ''Harness Energy'' ''solarHarvest'',
                plain_choice ''Shield Systems'' ''stabilityProtect'']\<rparr>"

definition quantumFluctuation :: event_def where
  "quantumFluctuation = \<lparr>ed_name = ''Quantum Fluctuation'', rarity = ''uncommon'', ed_duration = 2,
     choices = [plain_choice ''Embrace Chaos'' ''worldReroll'',
                plain_choice ''Stay Grounded'' ''stabilityGain'']\<rparr>"

definition dimensionalRift :: event_def where
  "dimensionalRift = \<lparr>ed_name = ''Dimensional Rift'', rarity = ''rare'', ed_duration = 1,
     choices = [plain_choice ''Enter Rift'' ''tierUnlock'', plain_choice ''Seal Rift'' ''energyGain'']\<rparr>"

definition ancientTechnology :: event_def where
  "ancientTechnology = \<lparr>ed_name = ''Ancient Technology'', rarity = ''rare'', ed_duration = 1,
     choices = [plain_choice ''Study Technology'' ''cheapUpgrade'',
                plain_choice ''Harvest Materials'' ''resourceChoice'']\<rparr>"

definition luckyCalibration :: event_def where
  "luckyCalibration = \<lparr>ed_name = ''Lucky Calibration'', rarity = ''ultraRare'', ed_duration = 10,
     choices = [plain_choice ''Accept Calibration'' ''cheapUpgrades'', plain_choice ''Decline'' ''none'']\<rparr>"

definition crystalResonance :: event_def where
  "crystalResonance = \<lparr>ed_name = ''Crystal Resonance'', rarity = ''ultraRare'', ed_duration = - 1,
     choices = [plain_choice ''Embrace Resonance'' ''permanentEfficiency'',
                plain_choice ''Ignore'' ''none'']\<rparr>"

definition systemGlitch :: event_def where
  "systemGlitch = \<lparr>ed_name = ''System Glitch'', rarity = ''negative'', ed_duration = 0,
     choices = [\<lparr>c_text = ''Fix with Energy'', c_effect = ''energyCost'',
                 cost = Some [(''energy'', 30)], c_value = None\<rparr>,
                \<lparr>c_text = ''Accept Loss'', c_effect = ''resourceLoss'', cost = None,
                 c_value = Some 20\<rparr>]\<rparr>"

definition pressureLeak :: event_def where
  "pressureLeak = \<lparr>ed_name = ''Pressure Leak'', rarity = ''negative'', ed_duration = 0,
     choices = [\<lparr>c_text = ''Emergency Repair'', c_effect = ''heatCost'',
                 cost = Some [(''heat'', 40)], c_value = None\<rparr>,
                \<lparr>c_text = ''Accept Leak'', c_effect = ''pressureLoss'', cost = None,
                 c_value = Some 50\<rparr>]\<rparr>"

definition eventDefinitions :: "event_def list" where
  "eventDefinitions =
     [resourceSurge, machineTune, solarFlare, quantumFluctuation, dimensionalRift,
      ancientTechnology, luckyCalibration, crystalResonance, systemGlitch, pressureLeak]"

text \<open>
  \<^verbatim>\<open>addTemporaryEffect\<close> walks \<^verbatim>\<open>this.gameState.activeEvents\<close>; the \<^verbatim>\<open>value\<close> it would
  store on a matching event is read by no other code and is not kept in the model.
\<close>

definition addTemporaryEffect :: "gs_ref \<Rightarrow> string \<Rightarrow> real \<Rightarrow> js_error \<times> gs_ref + gs_ref" where
  "addTemporaryEffect r effectType v =
     (case section_of r of
        Inl e \<Rightarrow> Inl (e, r)
      | Inr s \<Rightarrow> (case activeEvents s of None \<Rightarrow> Inl (TypeError, r) | Some _ \<Rightarrow> Inr r))"

text \<open>\<^verbatim>\<open>Math.max(0, x)\<close>, NaN for NaN.\<close>

definition max0 :: "amount \<Rightarrow> amount" where
  "max0 a = (case a of Num x \<Rightarrow> Num (max 0 x) | NaN \<Rightarrow> NaN)"

text \<open>\<^verbatim>\<open>Math.floor(x * (percentage / 100))\<close> for a stored amount \<open>x\<close>.\<close>

definition share :: "amount option \<Rightarrow> real \<Rightarrow> amount" where
  "share a percentage =
     (case a of Some (Num x) \<Rightarrow> Num (Math_floor (x * (percentage / 100))) | _ \<Rightarrow> NaN)"

text \<open>\<^verbatim>\<open>x -= l; x = Math.max(0, x)\<close> on a stored amount.\<close>

definition lose :: "amount option \<Rightarrow> amount \<Rightarrow> amount" where
  "lose a l = (case (a, l) of (Some (Num x), Num y) \<Rightarrow> Num (max 0 (x - y)) | _ \<Rightarrow> NaN)"

text \<open>\<^verbatim>\<open>a > b\<close> on two stored amounts.\<close>

definition amount_gt :: "amount option \<Rightarrow> amount option \<Rightarrow> bool" where
  "amount_gt a b = (case (a, b) of (Some (Num x), Some (Num y)) \<Rightarrow> y < x | _ \<Rightarrow> False)"

definition higher :: "(string \<times> amount) list \<Rightarrow> string \<Rightarrow> string \<Rightarrow> string" where
  "higher rs t best = (if amount_gt (map_of rs t) (map_of rs best) then t else best)"

definition loseHighestResource :: "gs_ref \<Rightarrow> real \<Rightarrow> js_error \<times> gs_ref + gs_ref" where
  "loseHighestResource r percentage =
     (case section_of r of
        Inl e \<Rightarrow> Inl (e, r)
      | Inr s \<Rightarrow>
          (let rs = resources s;
               highest = fold (higher rs) [''fuel'', ''pressure'', ''energy''] ''heat''
           in Inr (put_state r
                (s\<lparr>resources := AList.update highest
                      (lose (map_of rs highest) (share (map_of rs highest) percentage)) rs\<rparr>))))"

definition pressureLoss :: "gs_ref \<Rightarrow> real option \<Rightarrow> js_error \<times> gs_ref + gs_ref" where
  "pressureLoss r v =
     (if v = None \<or> v = Some 0 then Inr r
      else (case section_of r of
              Inl e \<Rightarrow> Inl (e, r)
            | Inr s \<Rightarrow>
                (let rs = resources s
                 in Inr (put_state r
                      (s\<lparr>resources := AList.update ''pressure''
                            (lose (map_of rs ''pressure'') (share (map_of rs ''pressure'') (the v)))
                            rs\<rparr>)))))"

definition resourceLoss :: "gs_ref \<Rightarrow> real option \<Rightarrow> js_error \<times> gs_ref + gs_ref" where
  "resourceLoss r v =
     (if v = None \<or> v = Some 0 then Inr r else loseHighestResource r (the v))"

text \<open>\<^verbatim>\<open>this.gameState.resources[name] += d\<close>.\<close>

definition bump :: "gs_ref \<Rightarrow> string \<Rightarrow> real \<Rightarrow> js_error \<times> gs_ref + gs_ref" where
  "bump r resource d =
     (case section_of r of
        Inl e \<Rightarrow> Inl (e, r)
      | Inr s \<Rightarrow> Inr (put_state r
          (s\<lparr>resources := AList.update resource (js_plus (map_of (resources s) resource) d)
                             (resources s)\<rparr>)))"

text \<open>
  \<^verbatim>\<open>applyEventEffect\<close>, case by case. For \<^verbatim>\<open>energyCost\<close> and \<^verbatim>\<open>heatCost\<close> the cost object
  of the choice is consulted; when it cannot be paid the backup loss is applied with the
  literal values 20 and 50.
\<close>

definition applyEventEffect :: "gs_ref \<Rightarrow> string \<Rightarrow> choice \<Rightarrow> js_error \<times> gs_ref + gs_ref" where
  "applyEventEffect r effectType ch =
    (if effectType = ''heatBoost'' then addTemporaryEffect r ''heat'' (5/4)
     else if effectType = ''fuelBoost'' then addTemporaryEffect r ''fuel'' (5/4)
     else if effectType = ''pressureBoost'' then addTemporaryEffect r ''pressure'' (5/4)
     else if effectType = ''allResourceBoost'' then addTemporaryEffect r ''all'' (115/100)
     else if effectType = ''solarHarvest'' then
       (case addTemporaryEffect r ''heat'' (3/2) of
          Inl e \<Rightarrow> Inl e | Inr r1 \<Rightarrow> addTemporaryEffect r1 ''stability'' (- 1))
     else if effectType = ''stabilityProtect'' then addTemporaryEffect r ''stability'' 2
     else if effectType = ''stabilityGain'' then bump r ''stability'' 10
     else if effectType = ''energyGain'' then bump r ''energy'' 25
     else if effectType = ''cheapUpgrade'' then addTemporaryEffect r ''upgradeCost'' (6/10)
     else if effectType = ''cheapUpgrades'' then addTemporaryEffect r ''upgradeCost'' (1/2)
     else if effectType = ''permanentEfficiency'' then
       (case section_of r of
          Inl e \<Rightarrow> Inl (e, r)
        | Inr s \<Rightarrow> Inr (put_state r
            (s\<lparr>permanentBonuses := (permanentBonuses s)
                  \<lparr>resourceEfficiency := resourceEfficiency (permanentBonuses s) + 5/100\<rparr>\<rparr>)))
     else if effectType = ''energyCost'' then
       (case cost ch of
          None \<Rightarrow> Inr r
        | Some cs \<Rightarrow>
            if cs = [] then
              Inr r
            else
              (case section_of r of
                 Inl e \<Rightarrow> Inl (e, r)
               | Inr s \<Rightarrow>
                   if list_all (\<lambda>c. js_ge (map_of (resources s) (fst c)) (snd c)) cs
                   then Inr (put_state r (s\<lparr>resources := fold deduct cs (resources s)\<rparr>))
                   else resourceLoss r (Some 20)))
     else if effectType = ''heatCost'' then
       (case cost ch of
          None \<Rightarrow> pressureLoss r (Some 50)
        | Some cs \<Rightarrow>
            (case section_of r of
               Inl e \<Rightarrow> Inl (e, r)
             | Inr s \<Rightarrow>
                 (case map_of cs ''heat'' of
                    None \<Rightarrow> pressureLoss r (Some 50)
                  | Some h \<Rightarrow>
                      if js_ge (map_of (resources s) ''heat'') h
                      then Inr (put_state r (s\<lparr>resources := deduct (''heat'', h) (resources s)\<rparr>))
                      else pressureLoss r (Some 50))))
     else if effectType = ''resourceLoss'' then resourceLoss r (c_value ch)
     else if effectType = ''pressureLoss'' then pressureLoss r (c_value ch)
     else if effectType = ''overclock'' then
       (case addTemporaryEffect r ''all'' 2 of
          Inl e \<Rightarrow> Inl e | Inr r1 \<Rightarrow> addTemporaryEffect r1 ''upgradeCost'' (3/2))
     else Inr r)"

text \<open>
  \<^verbatim>\<open>selectEventChoice\<close>: apply the effect of the choice, push a record onto
  \<^verbatim>\<open>this.gameState.eventHistory\<close>, and, when the duration of the event is positive, push
  a new active event onto \<^verbatim>\<open>this.gameState.activeEvents\<close>. \<open>now\<close> is \<^verbatim>\<open>Date.now()\<close>.
\<close>

definition selectEventChoice :: "gs_ref \<Rightarrow> real \<Rightarrow> event_def \<Rightarrow> choice \<Rightarrow> js_error \<times> gs_ref + gs_ref" where
  "selectEventChoice r now event ch =
     (case applyEventEffect r (c_effect ch) ch of
        Inl e \<Rightarrow> Inl e
      | Inr r1 \<Rightarrow>
          (case section_of r1 of
             Inl e \<Rightarrow> Inl (e, r1)
           | Inr s1 \<Rightarrow>
               (let s2 = s1\<lparr>eventHistory := eventHistory s1 @ [(ed_name event, c_text ch, now)]\<rparr>
                in if 0 < ed_duration event
                   then (case activeEvents s2 of
                           None \<Rightarrow> Inl (TypeError, put_state r1 s2)
                         | Some evs \<Rightarrow>
                             Inr (put_state r1
                               (s2\<lparr>activeEvents := Some (evs @
                                     [\<lparr>ev_name = ed_name event, effect = c_effect ch,
                                       duration = ed_duration event,
                                       originalDuration = ed_duration event\<rparr>])\<rparr>)))
                   else Inr (put_state r1 s2))))"

section \<open>AchievementSystem\<close>

text \<open>\<^verbatim>\<open>m[k] || 0\<close> on a table of numbers.\<close>

definition lookup0 :: "('k \<times> real) list \<Rightarrow> 'k \<Rightarrow> real" where
  "lookup0 m k = (case map_of m k of None \<Rightarrow> 0 | Some v \<Rightarrow> v)"

text \<open>\<^verbatim>\<open>upgrade && upgrade.level >= upgrade.maxLevel\<close> for a named upgrade.\<close>

definition maxed :: "game_state \<Rightarrow> string \<Rightarrow> bool" where
  "maxed s upgradeName =
     (case map_of (upgrades s) upgradeName of None \<Rightarrow> False | Some u \<Rightarrow> maxLevel u \<le> level u)"

text \<open>The number of upgrades with a positive level.\<close>

definition upgradeCount :: "game_state \<Rightarrow> nat" where
  "upgradeCount s = length (filter (\<lambda>e. 0 < level (snd e)) (upgrades s))"

text \<open>\<^verbatim>\<open>Object.values(state.resources).reduce((sum, val) => sum + val, 0)\<close>.\<close>

definition add_amount :: "amount \<Rightarrow> amount \<Rightarrow> amount" where
  "add_amount v acc = (case (acc, v) of (Num a, Num b) \<Rightarrow> Num (a + b) | _ \<Rightarrow> NaN)"

definition total :: "game_state \<Rightarrow> amount" where
  "total s = fold add_amount (map snd (resources s)) (Num 0)"

text \<open>\<^verbatim>\<open>resources.join('_')\<close>.\<close>

fun join_us :: "string list \<Rightarrow> string" where
  "join_us [] = []"
| "join_us [x] = x"
| "join_us (x # y # ys) = x @ ''_'' @ join_us (y # ys)"

text \<open>
  The test of the \<^verbatim>\<open>ratio\<close> requirement for index \<open>i\<close>:
  \<^verbatim>\<open>Math.abs(values[i] / values[0] - ratio[i] / ratio[0]) > 0.1\<close>. A missing \<^verbatim>\<open>ratio[i]\<close> and
  0/0 give NaN, for which the test is false; a non-zero \<^verbatim>\<open>ratio[i]\<close> over a zero
  \<^verbatim>\<open>ratio[0]\<close> is infinite, for which it is true. \<^verbatim>\<open>values[0]\<close> is not zero there.
\<close>

definition ratio_off :: "real list \<Rightarrow> real list \<Rightarrow> nat \<Rightarrow> bool" where
  "ratio_off ratio vals i =
     (if i < length ratio
      then (if ratio ! 0 \<noteq> 0
            then 1/10 < \<bar>vals ! i / vals ! 0 - ratio ! i / ratio ! 0\<bar>
            else ratio ! i \<noteq> 0)
      else False)"

definition pages :: "string list" where
  "pages = [''main'', ''upgrades'', ''worlds'', ''achievements'', ''settings'']"

text \<open>
  \<^verbatim>\<open>checkRequirement\<close>; \<open>now\<close> is the reading of \<^verbatim>\<open>Date.now()\<close>. A guard such as
  \<^verbatim>\<open>if (requirement.count)\<close> is false for 0, and a case whose guard fails ends in
  \<^verbatim>\<open>return false\<close>.
\<close>

fun checkRequirement :: "real \<Rightarrow> requirement \<Rightarrow> game_state \<Rightarrow> bool" where
  "checkRequirement now (Resource r a) s = (a \<le> js_or0 (map_of (resources s) r))"
| "checkRequirement now (Worlds a) s = (a \<le> real (worldsCreated s))"
| "checkRequirement now (UpgradeCount c) s = (c \<noteq> 0 \<and> c \<le> real (upgradeCount s))"
| "checkRequirement now (UpgradeMaxed ns) s = list_all (maxed s) ns"
| "checkRequirement now (Achievements a) s = (a \<le> real (length (unlocked s)))"
| "checkRequirement now (Playtime a) s = (a \<le> playtime (tracking s))"
| "checkRequirement now (Clicks a) s = (a \<le> totalClicks (tracking s))"
| "checkRequirement now (Resets a) s = (a \<le> totalResets (tracking s))"
| "checkRequirement now SynergyAll s = (40 < js_or0 (map_of (resources s) ''pressure''))"
| "checkRequirement now (SynergyCount c) s = (c \<noteq> 0 \<and> c \<le> synergyActivations (tracking s))"
| "checkRequirement now (Balance rs a) s =
     (a \<noteq> 0 \<and> list_all (\<lambda>r. a \<le> js_or0 (map_of (resources s) r)) rs)"
| "checkRequirement now (Total a) s = js_ge (Some (total s)) a"
| "checkRequirement now (CompletionAchievements n) s =
     (n \<noteq> 0 \<and> n \<le> real (length (unlocked s)))"
| "checkRequirement now (CompletionPercentage p) s =
     (p = 100 \<and> list_all (maxed s) [''heatGenerator'', ''fuelEfficiency''])"
| "checkRequirement now (SpeedAchievement a t) s =
     (a \<noteq> 0 \<and> t \<noteq> 0 \<and> a \<in> set (unlocked s) \<and>
      (now - (case gameStartTime (tracking s) of
                None \<Rightarrow> now
              | Some g \<Rightarrow> if g = 0 then now else g)) / 1000 \<le> t)"
| "checkRequirement now (SpeedCategory cat c t) s =
     (cat \<noteq> [] \<and> c \<noteq> 0 \<and> t \<noteq> 0 \<and>
      c \<le> real (length (filter (\<lambda>ts. now - ts \<le> t * 1000)
                    (case map_of (recentActions (tracking s)) cat of
                       None \<Rightarrow> [] | Some xs \<Rightarrow> xs))))"
| "checkRequirement now (Conversion f t a) s =
     (f \<noteq> [] \<and> t \<noteq> [] \<and> a \<noteq> 0 \<and> a \<le> lookup0 (conversions (tracking s)) (f @ ''_to_'' @ t))"
| "checkRequirement now (Ratio rs ratio) s =
     (let vals = map (\<lambda>r. js_or0 (map_of (resources s) r)) rs
      in \<not> list_ex (\<lambda>v. v = 0) vals \<and>
         list_all (\<lambda>i. \<not> ratio_off ratio vals i) [1 ..< length vals])"
| "checkRequirement now (Maintain rs ratio d) s =
     (d \<noteq> 0 \<and>
      (case map_of (maintenance (tracking s)) (join_us rs @ ''_ratio'') of
         None \<Rightarrow> False | Some dur \<Rightarrow> d \<le> dur))"
| "checkRequirement now (Streak cat c) s =
     (cat \<noteq> [] \<and> c \<noteq> 0 \<and> c \<le> lookup0 (streaks (tracking s)) cat)"
| "checkRequirement now (Discovery cat c) s =
     (cat \<noteq> [] \<and> c \<noteq> 0 \<and>
      c \<le> real (length (case map_of (discoveries (tracking s)) cat of
                          None \<Rightarrow> [] | Some xs \<Rightarrow> xs)))"
| "checkRequirement now (Challenge m r a) s =
     (m = ''manual'' \<and> r \<noteq> [] \<and> a \<noteq> 0 \<and> a \<le> lookup0 (manualGeneration (tracking s)) r)"
| "checkRequirement now (Simultaneous cat c) s =
     (cat = ''generation'' \<and> c \<noteq> 0 \<and>
      c \<le> real (length (filter (\<lambda>e. js_gt (Some (snd e)) 0) (resources s))))"
| "checkRequirement now (Caps cat c) s = (cat = ''reached'' \<and> c \<noteq> 0 \<and> c \<le> capHits (tracking s))"
| "checkRequirement now (Usage cat d) s =
     (cat \<noteq> [] \<and> d \<noteq> 0 \<and> d \<le> lookup0 (featureUsage (tracking s)) cat)"
| "checkRequirement now (Navigation cat c) s =
     (cat = ''all_pages'' \<and> c \<noteq> 0 \<and>
      list_all (\<lambda>p. c \<le> lookup0 (pageVisits (tracking s)) p) pages)"
| "checkRequirement now (Constraint cat mx gtype gamount) s =
     (cat = ''upgrades'' \<and> mx \<noteq> 0 \<and> \<not> mx < real (upgradeCount s) \<and>
      gtype = ''worlds'' \<and> gamount \<le> real (worldsCreated s))"
| "checkRequirement now (Tier t n) s =
     (t \<noteq> 0 \<and> n \<noteq> 0 \<and> n \<le> lookup0 (tierWorldCounts (tracking s)) t)"
| "checkRequirement now (TierVariety ts m) s =
     (m \<noteq> 0 \<and> list_all (\<lambda>t. m \<le> lookup0 (tierWorldCounts (tracking s)) t) ts)"
| "checkRequirement now (Secret c) s = False"
| "checkRequirement now (Other t) s = False"

text \<open>\<^verbatim>\<open>checkHiddenRequirement\<close>: only a secret code that the state lists counts.\<close>

definition checkHiddenRequirement :: "requirement \<Rightarrow> game_state \<Rightarrow> bool" where
  "checkHiddenRequirement req s =
     (case req of
        Secret c \<Rightarrow> c \<noteq> [] \<and> (case secretCodes (tracking s) of
                                    None \<Rightarrow> False | Some cs \<Rightarrow> c \<in> set cs)
      | _ \<Rightarrow> False)"

text \<open>
  \<^verbatim>\<open>checkAchievements\<close>: one pass over the definitions in key order. The accumulator is
  the state, whose \<^verbatim>\<open>unlocked\<close> list grows during the pass, and \<^verbatim>\<open>newAchievements\<close>.
\<close>

definition check_one ::
  "real \<Rightarrow> nat \<times> achievement \<Rightarrow> game_state \<times> (nat \<times> achievement) list
     \<Rightarrow> game_state \<times> (nat \<times> achievement) list" where
  "check_one now d acc =
     (if fst d \<in> set (unlocked (fst acc)) then acc
      else if hidden (snd d) \<and> \<not> checkHiddenRequirement (requirement (snd d)) (fst acc) then acc
      else if checkRequirement now (requirement (snd d)) (fst acc)
      then ((fst acc)\<lparr>unlocked := unlocked (fst acc) @ [fst d]\<rparr>, snd acc @ [d])
      else acc)"

definition checkAchievements :: "real \<Rightarrow> game_state \<Rightarrow> game_state \<times> (nat \<times> achievement) list" where
  "checkAchievements now s = fold (check_one now) (definitions s) (s, [])"

text \<open>The requirement kinds whose test reads the list of unlocked achievements.\<close>

fun reads_unlocked :: "requirement \<Rightarrow> bool" where
  "reads_unlocked (Achievements a) = True"
| "reads_unlocked (CompletionAchievements n) = True"
| "reads_unlocked (SpeedAchievement a t) = True"
| "reads_unlocked _ = False"

section \<open>ResourceSystem: the gains of a world-creation generation\<close>

text \<open>
  \<^verbatim>\<open>Math.random()\<close> is an infinite sequence of draws; a call takes the head and leaves
  the rest.
\<close>

type_synonym rng = "nat \<Rightarrow> real"

definition shift :: "nat \<Rightarrow> rng \<Rightarrow> rng" where
  "shift k g = (\<lambda>n. g (n + k))"

text \<open>\<^verbatim>\<open>if (effects.x) gain *= effects.x\<close>: a missing factor and 0 are falsy.\<close>

definition apply_factor :: "real option \<Rightarrow> real \<Rightarrow> real" where
  "apply_factor f g = (case f of None \<Rightarrow> g | Some x \<Rightarrow> if x = 0 then g else g * x)"

text \<open>\<^verbatim>\<open>getWorldBonuses\<close>: the pair \<^verbatim>\<open>{heatMultiplier, fuelMultiplier}\<close>.\<close>

definition getWorldBonuses :: "game_state \<Rightarrow> real \<times> real" where
  "getWorldBonuses s =
     (if worldsCreated s = 0 then (1, 1)
      else
        (let worldBonus = 1 + real (worldsCreated s) * (15/100)
         in (worldBonus + (case map_of (upgrades s) ''heatGenerator'' of
                             None \<Rightarrow> 0 | Some u \<Rightarrow> level u * (8/100)),
             worldBonus + (case map_of (upgrades s) ''fuelEfficiency'' of
                             None \<Rightarrow> 0 | Some u \<Rightarrow> level u * (8/100)))))"

text \<open>
  The stages of \<^verbatim>\<open>generateResources\<close>, each on the pair \<^verbatim>\<open>(heatGain, fuelGain)\<close>, in the
  order of the source: base amounts with the gravity and time-speed extremes; the
  special effects of the world; upgrade and world bonuses; temperature and atmosphere;
  weather; the heat and pressure synergy and the permanent efficiency.
\<close>

definition baseGains :: "world \<Rightarrow> real \<times> real" where
  "baseGains w =
     (let h0 = 5 * gravity w; f0 = 5 * timeSpeed w;
          h1 = (if 2 < gravity w then h0 * (115/100) else h0);
          f1 = (if 2 < gravity w then f0 * (9/10)
                else if gravity w < 7/10 then f0 * (11/10) else f0);
          f2 = (if 18/10 < timeSpeed w then f1 * (115/100) else f1);
          h2 = (if 18/10 < timeSpeed w then h1
                else if timeSpeed w < 1/2 then h1 * (11/10) else h1)
      in (h2, f2))"

definition specialGains :: "world \<Rightarrow> rng \<Rightarrow> real \<times> real \<Rightarrow> (real \<times> real) \<times> rng" where
  "specialGains w g hf =
     (case specialEffects w of
        None \<Rightarrow> (hf, g)
      | Some e \<Rightarrow>
          (let h = apply_factor (e_heat e) (fst hf); f = apply_factor (e_fuel e) (snd hf)
           in case e_all e of
                AllRandom \<Rightarrow>
                  (let randomBonus = 1/2 + g 0 * (3/2)
                   in ((h * randomBonus, f * randomBonus), shift 1 g))
              | AllNumber a \<Rightarrow> ((h * a, f * a), g)
              | AllAbsent \<Rightarrow> ((h, f), g)))"

definition upgradeGains :: "game_state \<Rightarrow> real \<times> real \<Rightarrow> js_error + real \<times> real" where
  "upgradeGains s hf =
     (case (map_of (upgrades s) ''heatGenerator'', map_of (upgrades s) ''fuelEfficiency'') of
        (Some hg, Some fe) \<Rightarrow>
          Inr (fst hf * (1 + level hg * (1/10)) * fst (getWorldBonuses s),
               snd hf * (1 + level fe * (1/10)) * snd (getWorldBonuses s))
      | _ \<Rightarrow> Inl TypeError)"

definition climateGains :: "world \<Rightarrow> real \<times> real \<Rightarrow> real \<times> real" where
  "climateGains w hf =
     (let h1 = (if 75 < temperature w then fst hf * (125/100) else fst hf);
          f1 = (if 75 < temperature w then snd hf
                else if temperature w < 0 then snd hf * (12/10) else snd hf);
          h2 = (if 70 < atmosphere w then h1 * (115/100) else h1);
          f2 = (if 70 < atmosphere w then f1
                else if atmosphere w < 30 then f1 * (13/10) else f1)
      in (h2, f2))"

text \<open>
  The \<^verbatim>\<open>switch (world.weather)\<close>. The Chaotic case draws \<^verbatim>\<open>variance\<close> from the next random
  number and \<^verbatim>\<open>direction\<close> from the one after it, and multiplies both gains by
  \<^verbatim>\<open>1 + variance * direction\<close>.
\<close>

definition weatherGains :: "string \<Rightarrow> rng \<Rightarrow> real \<times> real \<Rightarrow> (real \<times> real) \<times> rng" where
  "weatherGains wth g hf =
     (if wth = ''Stormy'' then ((fst hf * (125/100), snd hf * (15/10)), g)
      else if wth = ''Calm'' then ((fst hf * (115/100), snd hf * (115/100)), g)
      else if wth = ''Chaotic'' then
        (let variance = 1/4 + g 0 * (1/2);
             direction = (if g 1 < 1/2 then - 1 else 1)
         in ((fst hf * (1 + variance * direction), snd hf * (1 + variance * direction)),
             shift 2 g))
      else if wth = ''Serene'' then ((fst hf, snd hf * (13/10)), g)
      else if wth = ''Turbulent'' then ((fst hf * (8/10), snd hf), g)
      else (hf, g))"

definition finalGains :: "game_state \<Rightarrow> real \<times> real \<Rightarrow> real \<times> real" where
  "finalGains s hf =
     (let h1 = (if js_gt (map_of (resources s) ''pressure'') 40 then fst hf * (13/10) else fst hf)
      in (h1 * resourceEfficiency (permanentBonuses s),
          snd hf * resourceEfficiency (permanentBonuses s)))"

text \<open>
  The values of \<^verbatim>\<open>heatGain\<close> and \<^verbatim>\<open>fuelGain\<close> that \<^verbatim>\<open>generateResources(world)\<close> floors and
  hands to \<^verbatim>\<open>addResources\<close>, with the random draws that are left.
\<close>

definition resourceGains ::
  "game_state \<Rightarrow> world \<Rightarrow> rng \<Rightarrow> js_error + (real \<times> real) \<times> rng" where
  "resourceGains s w g =
     (let sp = specialGains w g (baseGains w)
      in case upgradeGains s (fst sp) of
           Inl e \<Rightarrow> Inl e
         | Inr hf \<Rightarrow>
             (let wg = weatherGains (weather w) (snd sp) (climateGains w hf)
              in Inr (finalGains s (fst wg), snd wg)))"

section \<open>Sequences of player actions\<close>

text \<open>
  The actions that \<^verbatim>\<open>Game\<close> offers, on the state that \<^verbatim>\<open>getState()\<close> returns. The event
  system is wired as \<^verbatim>\<open>Game\<close> constructs it, with the \<^verbatim>\<open>GameState\<close> instance; an action that
  raises leaves the state as it was at that moment.
\<close>

definition state_of :: "gs_ref \<Rightarrow> game_state" where
  "state_of r = (case r of GameStateInstance s \<Rightarrow> s | StateObject s \<Rightarrow> s)"

datatype action =
    SelectWorld nat
  | CheckWorldUnlocks
  | AddResources "(string \<times> real) list"
  | UpgradeResource string string
  | GenerateEnergy
  | UpdateActiveEvents
  | CheckAchievements real
  | SelectEventChoice real event_def choice

fun step :: "action \<Rightarrow> game_state \<Rightarrow> game_state" where
  "step (SelectWorld worldId) s = snd (selectWorld s worldId)"
| "step CheckWorldUnlocks s = snd (checkWorldUnlocks s)"
| "step (AddResources ds) s =
     (case addResources s ds of Inl er \<Rightarrow> snd er | Inr s' \<Rightarrow> s')"
| "step (UpgradeResource u r) s = snd (upgradeResource s u r)"
| "step GenerateEnergy s = generateEnergy s"
| "step UpdateActiveEvents s = updateActiveEvents s"
| "step (CheckAchievements now) s = fst (checkAchievements now s)"
| "step (SelectEventChoice now ev ch) s =
     (case selectEventChoice (GameStateInstance s) now ev ch of
        Inl er \<Rightarrow> state_of (snd er)
      | Inr r \<Rightarrow> state_of r)"

definition run :: "action list \<Rightarrow> game_state \<Rightarrow> game_state" where
  "run acts s = fold step acts s"

section \<open>States and inputs of the scenarios\<close>

text \<open>Scenario B: heat 50, fuel 25, and the Ocean Planet already unlocked.\<close>

definition scenario_B :: game_state where
  "scenario_B =
     initial_state\<lparr>resources := AList.update ''fuel'' (Num 25)
                                   (AList.update ''heat'' (Num 50) initial_resources),
                    unlockedWorlds := [0, 1]\<rparr>"

text \<open>
  Scenario F: the Desert Planet as \<^verbatim>\<open>initializeStartingWorld\<close> sets it up, with Chaotic
  weather, and draws 1/2 (variance 50%) and 1/4 (direction -1).
\<close>

definition chaotic_desert :: world where
  "chaotic_desert = (as_current (worldDefinitions ! 0) 0)\<lparr>weather := ''Chaotic''\<rparr>"

definition draws_F :: rng where
  "draws_F = (\<lambda>n. if n = 0 then 1/2 else 1/4)"

text \<open>Other draws: 0 (variance 25%) and 3/4 (direction 1).\<close>

definition draws_up :: rng where
  "draws_up = (\<lambda>n. if n = 0 then 0 else 3/4)"






text \<open>
  The test that \<^verbatim>\<open>checkAchievements\<close> applies to a definition it has not skipped as
  unlocked: not held back as hidden, and its requirement met.
\<close>

definition eligible :: "real \<Rightarrow> nat \<times> achievement \<Rightarrow> game_state \<Rightarrow> bool" where
  "eligible now d s =
     (\<not> (hidden (snd d) \<and> \<not> checkHiddenRequirement (requirement (snd d)) s)
      \<and> checkRequirement now (requirement (snd d)) s)"

text \<open>
  A player who holds 24 achievements and whose heat has just reached 1,000,000 (fuel and
  the other resources are spent).
\<close>

definition hunter_state :: game_state where
  "hunter_state =
     initial_state\<lparr>resources := AList.update ''heat'' (Num 1000000) initial_resources,
                    unlocked := [1, 2, 3, 4, 5, 6, 7, 8, 9, 10, 11, 12, 13, 14, 15, 16,
                                 18, 19, 20, 21, 22, 24, 25, 34]\<rparr>"

text \<open>
  A definition that a call of \<^verbatim>\<open>checkAchievements\<close> on the state would unlock and whose
  requirement reads the unlocked list.
\<close>

definition pending :: "real \<Rightarrow> game_state \<Rightarrow> nat \<times> achievement \<Rightarrow> bool" where
  "pending now s d =
     (reads_unlocked (requirement (snd d)) \<and> fst d \<notin> set (unlocked s) \<and> eligible now d s)"

text \<open>
  A player early in the game: heat 7, fuel 120, the heat generator at level 1, five worlds
  created and no achievement yet.
\<close>

definition player_state :: game_state where
  "player_state =
     initial_state\<lparr>worldsCreated := 5,
                    resources := AList.update ''fuel'' (Num 120)
                                   (AList.update ''heat'' (Num 7) initial_resources),
                    upgrades := AList.update ''heatGenerator''
                                  \<lparr>level = 1, maxLevel = 10, baseCost = 10\<rparr> initial_upgrades\<rparr>"

section \<open>Saved games: JavaScript values as data\<close>

text \<open>
  The save and load code of \<^verbatim>\<open>GameState\<close> treats the state as untyped data: it serialises
  it, parses it, tests the types of its parts and merges objects. For this part the state
  is a JavaScript value. A number is finite or one of the three non-finite values (a JSON
  text such as \<^verbatim>\<open>1e999\<close> parses to \<^verbatim>\<open>Infinity\<close>). An object is an association list with
  distinct keys, in the order of insertion, which is the order of enumeration except for
  names that are array indices (JavaScript lists those first). \<open>JUndefined\<close> occurs only
  in memory.
\<close>

datatype number = Finite real | PosInfinity | NegInfinity | NotANumber

datatype json =
    JUndefined | JNull | JBool bool | JNum number | JStr string
  | JArr "json list" | JObj "(string \<times> json) list"

type_synonym obj = "(string \<times> json) list"

text \<open>
  The successive readings of \<^verbatim>\<open>Date.now()\<close>, in milliseconds: \<open>c 0\<close> is the next reading and
  \<open>later c\<close> the clock after it.
\<close>

type_synonym clock = "nat \<Rightarrow> int"

definition later :: "clock \<Rightarrow> clock" where
  "later c = (\<lambda>n. c (Suc n))"

text \<open>Truthiness, as \<^verbatim>\<open>!v\<close> and \<^verbatim>\<open>a || b\<close> test it.\<close>

fun truthy :: "json \<Rightarrow> bool" where
  "truthy JUndefined = False"
| "truthy JNull = False"
| "truthy (JBool b) = b"
| "truthy (JNum (Finite x)) = (x \<noteq> 0)"
| "truthy (JNum NotANumber) = False"
| "truthy (JNum _) = True"
| "truthy (JStr s) = (s \<noteq> [])"
| "truthy (JArr _) = True"
| "truthy (JObj _) = True"

text \<open>\<^verbatim>\<open>v && typeof v === 'object'\<close>: a plain object or an array.\<close>

fun is_object :: "json \<Rightarrow> bool" where
  "is_object (JObj _) = True"
| "is_object (JArr _) = True"
| "is_object _ = False"

text \<open>
  \<^verbatim>\<open>v[name]\<close> and \<^verbatim>\<open>name in v\<close> for the property names of the state (none is an array
  index or \<^verbatim>\<open>length\<close>, so an array has none of them). The value tested is an object or
  an array wherever the code reads a property.
\<close>

fun get :: "json \<Rightarrow> string \<Rightarrow> json" where
  "get (JObj kv) name = (case map_of kv name of None \<Rightarrow> JUndefined | Some v \<Rightarrow> v)"
| "get _ name = JUndefined"

fun has :: "json \<Rightarrow> string \<Rightarrow> bool" where
  "has (JObj kv) name = (map_of kv name \<noteq> None)"
| "has _ name = False"

text \<open>\<^verbatim>\<open>obj[name] = v\<close> on a plain object.\<close>

definition put :: "string \<Rightarrow> json \<Rightarrow> obj \<Rightarrow> obj" where
  "put name v kv = AList.update name v kv"

text \<open>Decimal digits of an array index, for the keys that spreading an array gives.\<close>

fun digits :: "nat \<Rightarrow> nat \<Rightarrow> string" where
  "digits 0 n = []"
| "digits (Suc fuel) n =
     (if n < 10 then [char_of (48 + n)]
      else digits fuel (n div 10) @ [char_of (48 + n mod 10)])"

definition index_key :: "nat \<Rightarrow> string" where
  "index_key n = digits (Suc n) n"

text \<open>
  The own enumerable properties that \<^verbatim>\<open>{...v}\<close> copies: those of an object, the indexed
  elements of an array, the indexed characters of a string, none for any other value.
\<close>

fun spread :: "json \<Rightarrow> obj" where
  "spread (JObj kv) = kv"
| "spread (JArr xs) = zip (map index_key [0 ..< length xs]) xs"
| "spread (JStr s) = zip (map index_key [0 ..< length s]) (map (\<lambda>c. JStr [c]) s)"
| "spread _ = []"

text \<open>\<^verbatim>\<open>{...a, ...b}\<close>: the properties of \<open>a\<close>, overwritten and extended by those of \<open>b\<close>.\<close>

definition assign :: "obj \<Rightarrow> obj \<Rightarrow> obj" where
  "assign src dst = fold (\<lambda>e. put (fst e) (snd e)) src dst"

definition merge :: "json \<Rightarrow> json \<Rightarrow> json" where
  "merge a b = JObj (assign (spread b) (assign (spread a) []))"

text \<open>
  \<^verbatim>\<open>JSON.parse(JSON.stringify(v))\<close>: a non-finite number becomes \<^verbatim>\<open>null\<close>, a property
  whose value is \<^verbatim>\<open>undefined\<close> is dropped, an \<^verbatim>\<open>undefined\<close> array element becomes
  \<^verbatim>\<open>null\<close>.
\<close>

fun roundtrip :: "json \<Rightarrow> json" where
  "roundtrip (JNum (Finite x)) = JNum (Finite x)"
| "roundtrip (JNum _) = JNull"
| "roundtrip (JArr xs) = JArr (map (\<lambda>v. if v = JUndefined then JNull else roundtrip v) xs)"
| "roundtrip (JObj kv) =
     JObj (map (\<lambda>e. (fst e, roundtrip (snd e))) (filter (\<lambda>e. snd e \<noteq> JUndefined) kv))"
| "roundtrip v = v"

section \<open>GameState: validating saved data\<close>

text \<open>
  \<^verbatim>\<open>typeof v !== 'number' || v < 0 || !isFinite(v)\<close> is false exactly for a finite
  number that is not negative.
\<close>

fun valid_amount :: "json \<Rightarrow> bool" where
  "valid_amount (JNum (Finite x)) = (0 \<le> x)"
| "valid_amount _ = False"

text \<open>
  \<^verbatim>\<open>typeof v !== 'number' || v < 0\<close>, the test applied to \<^verbatim>\<open>worldsCreated\<close>, is false for
  every number that is not below zero: it has no \<^verbatim>\<open>isFinite\<close>, and NaN is not below zero.
\<close>

fun valid_count :: "json \<Rightarrow> bool" where
  "valid_count (JNum (Finite x)) = (0 \<le> x)"
| "valid_count (JNum PosInfinity) = True"
| "valid_count (JNum NotANumber) = True"
| "valid_count _ = False"

definition resourceTypes :: "string list" where
  "resourceTypes = [''heat'', ''fuel'', ''pressure'', ''energy'', ''stability'']"

definition requiredProperties :: "string list" where
  "requiredProperties = [''worldsCreated'', ''resources'', ''upgrades'']"

text \<open>The test on one value of \<^verbatim>\<open>Object.entries(data.upgrades)\<close>.\<close>

definition valid_upgrade :: "json \<Rightarrow> bool" where
  "valid_upgrade u =
     (if is_object u \<and> get u ''level'' \<noteq> JUndefined then valid_amount (get u ''level'') else True)"

definition validateSaveData :: "json \<Rightarrow> bool" where
  "validateSaveData data =
     (if \<not> is_object data then False
      else if \<not> list_all (has data) requiredProperties then False
      else if \<not> valid_count (get data ''worldsCreated'') then False
      else if \<not> is_object (get data ''resources'') then False
      else if \<not> list_all (\<lambda>r. get (get data ''resources'') r = JUndefined
                                \<or> valid_amount (get (get data ''resources'') r)) resourceTypes
           then False
      else if \<not> is_object (get data ''upgrades'') then False
      else if \<not> list_all (\<lambda>e. valid_upgrade (snd e)) (spread (get data ''upgrades'')) then False
      else if truthy (get data ''worldHistory'') \<and> (case get data ''worldHistory'' of
                                                      JArr _ \<Rightarrow> False | _ \<Rightarrow> True)
           then False
      else True)"

section \<open>GameState: repairing a state\<close>

text \<open>
  The placeholder history that \<^verbatim>\<open>validateAndFixState\<close> writes for an old save: its loop
  runs \<open>i\<close> from 1 while \<^verbatim>\<open>i <= worldsCreated\<close> and reads the clock once in every round.
  Arrays are unbounded in the model, so with \<^verbatim>\<open>worldsCreated\<close> infinite the loop does not
  return.
\<close>

definition createdAt :: "number \<Rightarrow> int \<Rightarrow> nat \<Rightarrow> number" where
  "createdAt wc now i =
     (case wc of
        Finite x \<Rightarrow> Finite (real_of_int now - (x - real i) * 60000)
      | PosInfinity \<Rightarrow> NegInfinity
      | NegInfinity \<Rightarrow> PosInfinity
      | NotANumber \<Rightarrow> NotANumber)"

definition placeholder :: "number \<Rightarrow> int \<Rightarrow> nat \<Rightarrow> json" where
  "placeholder wc now i =
     JObj [(''id'', JNum (Finite (real i))), (''type'', JStr ''Desert''),
           (''tier'', JNum (Finite 1)), (''gravity'', JNum (Finite 1)),
           (''timeSpeed'', JNum (Finite 1)), (''temperature'', JNum (Finite 25)),
           (''atmosphere'', JNum (Finite 50)), (''weather'', JStr ''Calm''),
           (''weatherDuration'', JNum (Finite 10)),
           (''createdAt'', JNum (createdAt wc now i))]"

text \<open>\<^verbatim>\<open>i <= worldsCreated\<close> for the loop counter.\<close>

fun count_le :: "nat \<Rightarrow> number \<Rightarrow> bool" where
  "count_le i (Finite x) = (real i \<le> x)"
| "count_le i PosInfinity = True"
| "count_le i _ = False"

partial_function (option) history_loop ::
  "number \<Rightarrow> clock \<Rightarrow> nat \<Rightarrow> json list \<Rightarrow> (json list \<times> clock) option" where
  "history_loop wc c i acc =
     (if count_le i wc then history_loop wc (later c) (i + 1) (acc @ [placeholder wc (c 0) i])
      else Some (acc, c))"

text \<open>
  \<^verbatim>\<open>worldsCreated > 0\<close> and \<^verbatim>\<open>worldHistory.length === 0\<close>. \<^verbatim>\<open>worldsCreated\<close> is a number
  wherever \<^verbatim>\<open>validateAndFixState\<close> runs (the constructor sets 0, and \<^verbatim>\<open>loadGame\<close> and
  \<^verbatim>\<open>importSave\<close> merge only data whose \<^verbatim>\<open>worldsCreated\<close> passed the type test).
\<close>

fun positive :: "json \<Rightarrow> bool" where
  "positive (JNum (Finite x)) = (0 < x)"
| "positive (JNum PosInfinity) = True"
| "positive _ = False"

fun empty_length :: "json \<Rightarrow> bool" where
  "empty_length (JArr xs) = (xs = [])"
| "empty_length (JStr s) = (s = [])"
| "empty_length (JObj kv) = (map_of kv ''length'' = Some (JNum (Finite 0)))"
| "empty_length _ = False"

fun as_number :: "json \<Rightarrow> number" where
  "as_number (JNum n) = n"
| "as_number _ = NotANumber"

definition defaultUpgrades :: obj where
  "defaultUpgrades =
     [(''heatGenerator'',
        JObj [(''level'', JNum (Finite 0)), (''maxLevel'', JNum (Finite 10)),
              (''baseCost'', JNum (Finite 10))]),
      (''fuelEfficiency'',
        JObj [(''level'', JNum (Finite 0)), (''maxLevel'', JNum (Finite 10)),
              (''baseCost'', JNum (Finite 15))]),
      (''thermalAccelerator'',
        JObj [(''level'', JNum (Finite 0)), (''maxLevel'', JNum (Finite 5)),
              (''baseCost'', JNum (Finite 25)), (''unlocked'', JBool False),
              (''requiresHeat'', JNum (Finite 3)), (''requiresPressure'', JNum (Finite 30))]),
      (''fuelSynchronizer'',
        JObj [(''level'', JNum (Finite 0)), (''maxLevel'', JNum (Finite 5)),
              (''baseCost'', JNum (Finite 30)), (''unlocked'', JBool False),
              (''requiresFuel'', JNum (Finite 5)), (''requiresEnergy'', JNum (Finite 20))]),
      (''pressureValve'',
        JObj [(''level'', JNum (Finite 0)), (''maxLevel'', JNum (Finite 5)),
              (''baseCost'', JNum (Finite 35)), (''unlocked'', JBool False),
              (''requiresStability'', JNum (Finite 15)),
              (''requiresPressure'', JNum (Finite 50))]),
      (''energyMatrix'',
        JObj [(''level'', JNum (Finite 0)), (''maxLevel'', JNum (Finite 5)),
              (''baseCost'', JNum (Finite 40)), (''unlocked'', JBool False),
              (''requiresHeat'', JNum (Finite 7)), (''requiresFuel'', JNum (Finite 8))])]"

definition defaultResources :: json where
  "defaultResources =
     JObj [(''heat'', JNum (Finite 0)), (''fuel'', JNum (Finite 0)),
           (''pressure'', JNum (Finite 0)), (''energy'', JNum (Finite 0)),
           (''stability'', JNum (Finite 0))]"

text \<open>One round of the loop over the default upgrades, on \<^verbatim>\<open>state.upgrades\<close>.\<close>

definition fix_upgrade :: "string \<times> json \<Rightarrow> obj \<Rightarrow> obj" where
  "fix_upgrade d ups =
     (if \<not> truthy (get (JObj ups) (fst d)) then put (fst d) (merge (snd d) (JObj [])) ups
      else put (fst d) (merge (snd d) (get (JObj ups) (fst d))) ups)"

text \<open>The test \<^verbatim>\<open>!h || h.length === 0\<close> on \<^verbatim>\<open>state.worldHistory\<close>.\<close>

definition no_history :: "json \<Rightarrow> bool" where
  "no_history h = (if truthy h then empty_length h else True)"

text \<open>
  \<^verbatim>\<open>validateAndFixState\<close> on a state object, with the clock it leaves. \<open>None\<close>: the call
  does not return. \<open>Inl TypeError\<close>: \<^verbatim>\<open>state.upgrades\<close> is not an object, so that reading
  or writing \<^verbatim>\<open>state.upgrades[key]\<close> raises (the class body is strict code). An array
  there, which would take the properties, does not occur: the constructor and the merges of
  \<^verbatim>\<open>loadGame\<close> and \<^verbatim>\<open>importSave\<close> build a plain object.
\<close>

definition fix_sections :: "obj \<Rightarrow> js_error + obj" where
  "fix_sections st1 =
     (let st2 = (if \<not> truthy (get (JObj st1) ''worldHistory'')
                 then put ''worldHistory'' (JArr []) st1 else st1)
      in case get (JObj st2) ''upgrades'' of
           JObj ups \<Rightarrow>
             (let st3 = put ''upgrades'' (JObj (fold fix_upgrade defaultUpgrades ups)) st2;
                  st4 = (if \<not> truthy (get (JObj st3) ''activeEvents'')
                         then put ''activeEvents'' (JArr []) st3 else st3)
              in Inr (put ''resources''
                        (merge defaultResources (get (JObj st4) ''resources'')) st4))
         | _ \<Rightarrow> Inl TypeError)"

definition validateAndFixState :: "clock \<Rightarrow> obj \<Rightarrow> ((js_error + obj) \<times> clock) option" where
  "validateAndFixState c st =
     (if no_history (get (JObj st) ''worldHistory'') \<and> positive (get (JObj st) ''worldsCreated'')
      then (case history_loop (as_number (get (JObj st) ''worldsCreated'')) c 1 [] of
              None \<Rightarrow> None
            | Some (h, c') \<Rightarrow> Some (fix_sections (put ''worldHistory'' (JArr h) st), c'))
      else Some (fix_sections st, c))"

section \<open>GameState: saving, backups and loading\<close>

text \<open>
  An item of \<^verbatim>\<open>localStorage\<close> is a string; what matters of it is whether it is empty,
  whether \<^verbatim>\<open>JSON.parse\<close> accepts it, and the value it parses to. The storage holds the
  save, the backup index (the timestamps of its entries, in stored order; the key of an
  entry is made from its timestamp) and the backup items by timestamp. The index is taken
  to be as \<^verbatim>\<open>createBackup\<close> and \<^verbatim>\<open>cleanupOldBackups\<close> write it, and writes to the storage
  are taken to succeed.
\<close>

datatype blob = Empty | Unparsable | Parses json

record storage =
  save :: "blob option"
  index :: "int list"
  slots :: "(int \<times> blob) list"

text \<open>\<^verbatim>\<open>if (savedData)\<close>: the item exists and is not the empty string.\<close>

fun present :: "blob option \<Rightarrow> bool" where
  "present None = False"
| "present (Some Empty) = False"
| "present (Some _) = True"

text \<open>\<^verbatim>\<open>createBackup\<close>: the current save is copied under the key of \<open>now\<close>.\<close>

definition createBackup :: "int \<Rightarrow> storage \<Rightarrow> storage" where
  "createBackup now sto =
     (if present (save sto)
      then sto\<lparr>slots := AList.update now (the (save sto)) (slots sto),
               index := index sto @ [now]\<rparr>
      else sto)"

text \<open>The index sorted by timestamp, newest first (the sort is stable).\<close>

definition newest_first :: "int list \<Rightarrow> int list" where
  "newest_first ts = sort_key uminus ts"

text \<open>\<^verbatim>\<open>cleanupOldBackups(3)\<close>.\<close>

definition cleanupOldBackups :: "storage \<Rightarrow> storage" where
  "cleanupOldBackups sto =
     (if 3 < length (index sto)
      then sto\<lparr>slots := fold AList.delete (drop 3 (newest_first (index sto))) (slots sto),
               index := take 3 (newest_first (index sto))\<rparr>
      else sto)"

text \<open>
  \<^verbatim>\<open>restoreFromBackup\<close>: only the newest backup is tried; it becomes the save when its item
  exists, parses and passes \<^verbatim>\<open>validateSaveData\<close>.
\<close>

definition restoreFromBackup :: "storage \<Rightarrow> bool \<times> storage" where
  "restoreFromBackup sto =
     (case newest_first (index sto) of
        [] \<Rightarrow> (False, sto)
      | latest # _ \<Rightarrow>
          (case map_of (slots sto) latest of
             Some (Parses j) \<Rightarrow>
               if validateSaveData j then (True, sto\<lparr>save := Some (Parses j)\<rparr>) else (False, sto)
           | _ \<Rightarrow> (False, sto)))"

text \<open>
  \<^verbatim>\<open>saveGame\<close>: back up the stored save, write the serialised state, prune the backups.
  The item written parses to \<open>roundtrip st\<close>.
\<close>

definition saveGame :: "clock \<Rightarrow> obj \<Rightarrow> storage \<Rightarrow> storage" where
  "saveGame c st sto =
     cleanupOldBackups ((createBackup (c 0) sto)\<lparr>save := Some (Parses (roundtrip (JObj st)))\<rparr>)"

text \<open>\<^verbatim>\<open>a || b\<close>.\<close>

definition js_or :: "json \<Rightarrow> json \<Rightarrow> json" where
  "js_or a b = (if truthy a then a else b)"

text \<open>The object literal that \<^verbatim>\<open>loadGame\<close> assigns to \<^verbatim>\<open>this.state\<close>.\<close>

definition merged_sections :: "string list" where
  "merged_sections = [''permanentBonuses'', ''worldTiers'', ''unlocks'', ''achievements'', ''settings'']"

definition merge_section :: "json \<Rightarrow> json \<Rightarrow> string \<Rightarrow> obj \<Rightarrow> obj" where
  "merge_section st parsedData name kv = put name (merge (get st name) (get parsedData name)) kv"

definition merge_saved :: "json \<Rightarrow> json \<Rightarrow> obj" where
  "merge_saved st parsedData =
     (let kv0 = assign (spread parsedData) (assign (spread st) []);
          kv1 = merge_section st parsedData ''upgrades'' kv0;
          kv2 = merge_section st parsedData ''resources'' kv1;
          kv3 = put ''currentWorld'' (js_or (get parsedData ''currentWorld'') (get st ''currentWorld'')) kv2;
          kv4 = fold (merge_section st parsedData) merged_sections kv3
      in put ''worldHistory'' (js_or (get parsedData ''worldHistory'') (JArr [])) kv4)"

text \<open>
  \<^verbatim>\<open>loadGame\<close> on the state object and the storage: the value returned, the state and the
  storage it leaves. \<open>None\<close>: the call does not return. No branch lets an exception
  leave the function: the inner handler rethrows only into the outer one.
\<close>

definition fallbackState :: "obj \<Rightarrow> obj" where
  "fallbackState st = spread (roundtrip (JObj st))"

partial_function (option) loadGame ::
  "clock \<Rightarrow> obj \<Rightarrow> storage \<Rightarrow> (bool \<times> obj \<times> storage) option" where
  "loadGame c st sto =
     (if \<not> present (save sto) then Some (False, st, sto)
      else case the (save sto) of
        Parses parsedData \<Rightarrow>
          if \<not> validateSaveData parsedData
          then (if fst (restoreFromBackup sto) then loadGame c st (snd (restoreFromBackup sto))
                else Some (False, st, snd (restoreFromBackup sto)))
          else (case validateAndFixState (later c) (merge_saved (JObj st) parsedData) of
                  None \<Rightarrow> None
                | Some (Inr st', c') \<Rightarrow> Some (True, st', createBackup (c 0) sto)
                | Some (Inl stateError, c') \<Rightarrow>
                    (let sto1 = restoreFromBackup (createBackup (c 0) sto);
                         sto2 = restoreFromBackup (snd sto1)
                     in if fst sto1 then loadGame c' (fallbackState st) (snd sto1)
                        else if fst sto2 then loadGame c' (fallbackState st) (snd sto2)
                        else Some (False, fallbackState st, snd sto2)))
      | _ \<Rightarrow>
          if fst (restoreFromBackup sto) then loadGame c st (snd (restoreFromBackup sto))
          else Some (False, st, snd (restoreFromBackup sto)))"

section \<open>Saved games of the scenarios\<close>

text \<open>The value that the save text \<^verbatim>\<open>{"worldsCreated":1e999,"resources":{},"upgrades":{}}\<close> parses to.\<close>

definition endless_save :: json where
  "endless_save =
     JObj [(''worldsCreated'', JNum PosInfinity), (''resources'', JObj []), (''upgrades'', JObj [])]"

text \<open>The value of \<^verbatim>\<open>{"worldsCreated":0,"resources":{"pressure":1000},"upgrades":{}}\<close>.\<close>

definition overfull_save :: json where
  "overfull_save =
     JObj [(''worldsCreated'', JNum (Finite 0)),
           (''resources'', JObj [(''pressure'', JNum (Finite 1000))]),
           (''upgrades'', JObj [])]"

text \<open>The save of scenario E: \<^verbatim>\<open>resources.heat = -5\<close>.\<close>

definition scenario_E :: json where
  "scenario_E =
     JObj [(''worldsCreated'', JNum (Finite 0)),
           (''resources'', JObj [(''heat'', JNum (Finite (- 5)))]),
           (''upgrades'', JObj [])]"

text \<open>The value of \<^verbatim>\<open>{"worldsCreated":0,"resources":{},"upgrades":{}}\<close>.\<close>

definition bare_save :: json where
  "bare_save =
     JObj [(''worldsCreated'', JNum (Finite 0)), (''resources'', JObj []), (''upgrades'', JObj [])]"

text \<open>
  The value of
  \<^verbatim>\<open>{"worldsCreated":0,"resources":{"heat":1000},"upgrades":{"heatGenerator":{"level":9.5}}}\<close>.
\<close>

definition fractional_save :: json where
  "fractional_save =
     JObj [(''worldsCreated'', JNum (Finite 0)),
           (''resources'', JObj [(''heat'', JNum (Finite 1000))]),
           (''upgrades'',
              JObj [(''heatGenerator'', JObj [(''level'', JNum (Finite (19/2)))])])]"

text \<open>Storing a save text.\<close>

definition stored :: "blob \<Rightarrow> storage \<Rightarrow> storage" where
  "stored b sto = sto\<lparr>save := Some b\<rparr>"

text \<open>What a successful load leaves as \<^verbatim>\<open>resources.pressure\<close>.\<close>

definition pressure_after :: "(bool \<times> obj \<times> storage) option \<Rightarrow> (bool \<times> json) option" where
  "pressure_after r =
     map_option (\<lambda>x. (fst x, get (get (JObj (fst (snd x))) ''resources'') ''pressure'')) r"

section \<open>Saving and loading again\<close>

text \<open>
  The form of a state that a successful \<^verbatim>\<open>loadGame\<close> leaves. \<open>begins_with d v\<close>: the value
  is a plain object whose first properties are those of \<open>d\<close>, in the order of \<open>d\<close>, as
  \<^verbatim>\<open>{...d, ...v}\<close> builds it. \<open>loaded_shape\<close>: the sections that \<^verbatim>\<open>loadGame\<close> merges are plain
  objects, \<^verbatim>\<open>currentWorld\<close> is a property, the six default upgrades and the five default
  resources are in place and \<^verbatim>\<open>activeEvents\<close> is set. \<open>loaded_form\<close>: moreover the world
  history is an array that \<^verbatim>\<open>validateAndFixState\<close> has no placeholder to add to.
\<close>

definition begins_with :: "obj \<Rightarrow> json \<Rightarrow> bool" where
  "begins_with d v =
     (case v of
        JObj x \<Rightarrow> distinct (map fst x) \<and> take (length d) (map fst x) = map fst d
      | _ \<Rightarrow> False)"

definition loaded_shape :: "obj \<Rightarrow> bool" where
  "loaded_shape st =
     (distinct (map fst st)
      \<and> has (JObj st) ''currentWorld''
      \<and> list_all (\<lambda>n. begins_with [] (get (JObj st) n)) (''upgrades'' # merged_sections)
      \<and> begins_with (spread defaultResources) (get (JObj st) ''resources'')
      \<and> list_all (\<lambda>d. begins_with (spread (snd d)) (get (get (JObj st) ''upgrades'') (fst d)))
           defaultUpgrades
      \<and> truthy (get (JObj st) ''activeEvents''))"

definition loaded_form :: "obj \<Rightarrow> bool" where
  "loaded_form st =
     (loaded_shape st
      \<and> (case get (JObj st) ''worldHistory'' of
           JArr h \<Rightarrow> (if h = [] then \<not> count_le 1 (as_number (get (JObj st) ''worldsCreated''))
                      else True)
         | _ \<Rightarrow> False))"

text \<open>
  The state that the constructor builds, with the achievement definitions and the settings
  left out, and the same state with the two sections that the first load adds to it.
\<close>

definition constructed_state :: obj where
  "constructed_state =
     [(''worldsCreated'', JNum (Finite 0)),
      (''machineComplexity'', JNum (Finite 0)),
      (''worldHistory'', JArr []),
      (''resources'',
         JObj [(''heat'', JNum (Finite 0)), (''fuel'', JNum (Finite 0)),
               (''pressure'', JNum (Finite 0)), (''energy'', JNum (Finite 0)),
               (''stability'', JNum (Finite 0)), (''water'', JNum (Finite 0)),
               (''oxygen'', JNum (Finite 0)), (''stone'', JNum (Finite 0)),
               (''magma'', JNum (Finite 0)), (''ice'', JNum (Finite 0)),
               (''crystal'', JNum (Finite 0)), (''voidEnergy'', JNum (Finite 0))]),
      (''upgrades'', JObj defaultUpgrades),
      (''currentWorld'', JNull),
      (''unlockedWorlds'', JArr [JNum (Finite 0)]),
      (''worldProgress'', JNum (Finite 0)),
      (''machineParts'', JArr []),
      (''activeEvents'', JArr []),
      (''eventHistory'', JArr []),
      (''permanentBonuses'',
         JObj [(''resourceEfficiency'', JNum (Finite 1)),
               (''upgradeCostReduction'', JNum (Finite 1))]),
      (''achievements'', JObj [(''unlocked'', JArr []), (''definitions'', JObj [])]),
      (''settings'', JObj [])]"

definition loaded_state :: obj where
  "loaded_state = constructed_state @ [(''worldTiers'', JObj []), (''unlocks'', JObj [])]"

text \<open>The same state with one world created and no history, as a save from before the history has it.\<close>

definition migrating_state :: obj where
  "migrating_state = put ''worldsCreated'' (JNum (Finite 1)) loaded_state"

text \<open>A clock that stands still and a storage with nothing stored.\<close>

definition still :: clock where
  "still = (\<lambda>n. 0)"

definition nothing_stored :: storage where
  "nothing_stored = \<lparr>save = None, index = [], slots = []\<rparr>"

text \<open>The value returned and the \<^verbatim>\<open>worldHistory\<close> of the state that a call of \<^verbatim>\<open>loadGame\<close> leaves.\<close>

definition history_after :: "(bool \<times> obj \<times> storage) option \<Rightarrow> (bool \<times> json) option" where
  "history_after r = map_option (\<lambda>x. (fst x, get (JObj (fst (snd x))) ''worldHistory'')) r"

section \<open>Properties of the upgrade system\<close>

lemma fold_cheap_none:
  "\<forall>ev \<in> set evs. effect ev \<noteq> ''cheapUpgrade'' \<and> effect ev \<noteq> ''cheapUpgrades''
   \<Longrightarrow> fold cheap evs c = c"
  by (induction evs arbitrary: c) (auto simp: cheap_def)



lemma scenario_C_heatGenerator:
  "map_of (upgrades scenario_C) ''heatGenerator''
     = Some \<lparr>level = 0, maxLevel = 10, baseCost = 10\<rparr>"
  by (simp add: scenario_C_def initial_state_def initial_upgrades_def)

lemma scenario_C_cost: "getUpgradeCost scenario_C ''heatGenerator'' = 10"
  by (simp add: getUpgradeCost_def scenario_C_def initial_state_def initial_upgrades_def
      Math_floor_def)








text \<open>
  Claim C5. With no cost reduction in force (the permanent multiplier is 1 and no active
  event has the effect \<^verbatim>\<open>cheapUpgrade\<close> or \<^verbatim>\<open>cheapUpgrades\<close>), the cost of an upgrade with
  base cost \<open>B\<close> at level \<open>L\<close> is \<open>floor (B * 1.5 ^ L)\<close>; for a level that is not a whole
  number the power is that of \<^verbatim>\<open>Math.pow\<close>. In scenario C the heat generator (base cost
  10, level 0) costs 10; buying it with 10 heat succeeds, leaves level 1 and heat 0, and
  the next cost is 15.
\<close>

theorem upgrade_cost_curve:
  "(\<forall>s u up evs.
      map_of (upgrades s) u = Some up \<and> activeEvents s = Some evs \<and>
      upgradeCostReduction (permanentBonuses s) = 1 \<and>
      (\<forall>ev \<in> set evs. effect ev \<noteq> ''cheapUpgrade'' \<and> effect ev \<noteq> ''cheapUpgrades'')
      \<longrightarrow> getUpgradeCost s u = of_int \<lfloor>baseCost up * (3/2) powr level up\<rfloor>
          \<and> (\<forall>n::nat. level up = real n
                \<longrightarrow> getUpgradeCost s u = of_int \<lfloor>baseCost up * (3/2) ^ n\<rfloor>))
   \<and> getUpgradeCost scenario_C ''heatGenerator'' = 10
   \<and> fst (upgradeResource scenario_C ''heatGenerator'' ''heat'')
   \<and> map_of (resources (snd (upgradeResource scenario_C ''heatGenerator'' ''heat''))) ''heat''
       = Some (Num 0)
   \<and> map_option level
        (map_of (upgrades (snd (upgradeResource scenario_C ''heatGenerator'' ''heat'')))
           ''heatGenerator'') = Some 1
   \<and> getUpgradeCost (snd (upgradeResource scenario_C ''heatGenerator'' ''heat''))
        ''heatGenerator'' = 15"
proof -
  have general: "\<forall>s u up evs.
      map_of (upgrades s) u = Some up \<and> activeEvents s = Some evs \<and>
      upgradeCostReduction (permanentBonuses s) = 1 \<and>
      (\<forall>ev \<in> set evs. effect ev \<noteq> ''cheapUpgrade'' \<and> effect ev \<noteq> ''cheapUpgrades'')
      \<longrightarrow> getUpgradeCost s u = of_int \<lfloor>baseCost up * (3/2) powr level up\<rfloor>
          \<and> (\<forall>n::nat. level up = real n
                \<longrightarrow> getUpgradeCost s u = of_int \<lfloor>baseCost up * (3/2) ^ n\<rfloor>)"
    by (auto simp: getUpgradeCost_def fold_cheap_none Math_floor_def powr_realpow)
  have concrete:
    "fst (upgradeResource scenario_C ''heatGenerator'' ''heat'')
     \<and> map_of (resources (snd (upgradeResource scenario_C ''heatGenerator'' ''heat''))) ''heat''
         = Some (Num 0)
     \<and> map_option level
          (map_of (upgrades (snd (upgradeResource scenario_C ''heatGenerator'' ''heat'')))
             ''heatGenerator'') = Some 1
     \<and> getUpgradeCost (snd (upgradeResource scenario_C ''heatGenerator'' ''heat''))
          ''heatGenerator'' = 15"
    by (simp add: upgradeResource_def getUpgradeCost_def scenario_C_def initial_state_def
        initial_upgrades_def initial_resources_def Math_floor_def Let_def)
  show ?thesis using general concrete scenario_C_cost by blast
qed

theorem upgrade_cost_curve_witness:
  "map_of (upgrades scenario_C) ''heatGenerator''
     = Some \<lparr>level = 0, maxLevel = 10, baseCost = 10\<rparr>
   \<and> activeEvents scenario_C = Some []
   \<and> upgradeCostReduction (permanentBonuses scenario_C) = 1
   \<and> getUpgradeCost scenario_C ''heatGenerator'' = of_int \<lfloor>10 * (3/2) ^ (0::nat)\<rfloor>"
proof -
  have a: "activeEvents scenario_C = Some []"
    and r: "upgradeCostReduction (permanentBonuses scenario_C) = 1"
    by (simp_all add: scenario_C_def initial_state_def)
  have "level \<lparr>level = 0, maxLevel = 10, baseCost = 10\<rparr> = real 0"
    by simp
  hence "getUpgradeCost scenario_C ''heatGenerator''
          = of_int \<lfloor>baseCost \<lparr>level = 0, maxLevel = 10, baseCost = 10\<rparr> * (3/2) ^ (0::nat)\<rfloor>"
    using upgrade_cost_curve scenario_C_heatGenerator a r
    by (metis empty_iff list.set(1))
  then show ?thesis using scenario_C_heatGenerator a r by simp
qed

section \<open>Properties of the generation pipeline\<close>

lemma baseGains_weather: "baseGains (w\<lparr>weather := x\<rparr>) = baseGains w"
  by (simp add: baseGains_def Let_def cong: if_cong)

lemma specialGains_weather: "specialGains (w\<lparr>weather := x\<rparr>) g hf = specialGains w g hf"
  by (simp add: specialGains_def Let_def cong: if_cong)

lemma climateGains_weather: "climateGains (w\<lparr>weather := x\<rparr>) hf = climateGains w hf"
  by (simp add: climateGains_def Let_def cong: if_cong)

lemma weatherGains_none: "weatherGains [] g hf = (hf, g)"
  by (simp add: weatherGains_def)

lemma weatherGains_Chaotic:
  "weatherGains ''Chaotic'' g hf =
     ((fst hf * (1 + (1/4 + g 0 * (1/2)) * (if g 1 < 1/2 then - 1 else 1)),
       snd hf * (1 + (1/4 + g 0 * (1/2)) * (if g 1 < 1/2 then - 1 else 1))), shift 2 g)"
  by (simp add: weatherGains_def Let_def)

lemma finalGains_scale:
  "finalGains s (h * k, f * k) = (fst (finalGains s (h, f)) * k, snd (finalGains s (h, f)) * k)"
  by (simp add: finalGains_def Let_def)

lemma specialGains_draws:
  "snd (specialGains w g hf) = g \<or> snd (specialGains w g hf) = shift 1 g"
  by (simp add: specialGains_def Let_def split: option.splits all_effect.splits)

text \<open>
  Claim C7. In one generation call under Chaotic weather, with \<open>a\<close> and \<open>b\<close> the next two
  random draws after those of the special effects of the world (none or one): the
  variance is \<open>1/4 + a/2\<close>, so between 25% and 75% for a draw in [0, 1); the direction is
  -1 when \<open>b < 1/2\<close> and 1 otherwise; and the heat gain and the fuel gain are both the
  gains that the same call computes without weather, times the one factor
  \<open>1 + variance * direction\<close>. The call consumes exactly these two draws for it.
\<close>

theorem chaotic_same_factor:
  assumes "weather w = ''Chaotic''"
  shows "(case resourceGains s (w\<lparr>weather := []\<rparr>) g of
       Inl e \<Rightarrow> resourceGains s w g = Inl e
     | Inr r \<Rightarrow>
         resourceGains s w g =
           Inr ((fst (fst r) * (1 + (1/4 + snd r 0 * (1/2)) * (if snd r 1 < 1/2 then - 1 else 1)),
                 snd (fst r) * (1 + (1/4 + snd r 0 * (1/2)) * (if snd r 1 < 1/2 then - 1 else 1))),
                shift 2 (snd r))
         \<and> (snd r = g \<or> snd r = shift 1 g)
         \<and> (0 \<le> snd r 0 \<and> snd r 0 < 1 \<longrightarrow>
              1/4 \<le> 1/4 + snd r 0 * (1/2) \<and> 1/4 + snd r 0 * (1/2) < 3/4))"
proof (cases "upgradeGains s (fst (specialGains w g (baseGains w)))")
  case (Inl e)
  then show ?thesis
    by (simp add: resourceGains_def Let_def baseGains_weather specialGains_weather)
next
  case (Inr hf)
  let ?g0 = "snd (specialGains w g (baseGains w))"
  let ?c = "climateGains w hf"
  let ?k = "1 + (1/4 + ?g0 0 * (1/2)) * (if ?g0 1 < 1/2 then - 1 else 1)"
  have plain: "resourceGains s (w\<lparr>weather := []\<rparr>) g = Inr (finalGains s ?c, ?g0)"
    using Inr
    by (simp add: resourceGains_def Let_def baseGains_weather specialGains_weather
        climateGains_weather weatherGains_none)
  have "resourceGains s w g = Inr (finalGains s (fst ?c * ?k, snd ?c * ?k), shift 2 ?g0)"
    using Inr assms by (simp add: resourceGains_def Let_def weatherGains_Chaotic)
  hence chaos: "resourceGains s w g =
      Inr ((fst (finalGains s ?c) * ?k, snd (finalGains s ?c) * ?k), shift 2 ?g0)"
    by (simp only: finalGains_scale prod.collapse)
  show ?thesis
    unfolding plain chaos using specialGains_draws [of w g "baseGains w"]
    by (simp only: sum.case fst_conv snd_conv) simp
qed

lemma chaotic_desert_weather: "weather chaotic_desert = ''Chaotic''"
  by (simp add: chaotic_desert_def)

lemma desert_current:
  "as_current (worldDefinitions ! 0) 0 =
     \<lparr>w_id = 0, w_name = ''Desert Planet'', w_type = ''Desert'', gravity = 1, timeSpeed = 1,
      temperature = 45, atmosphere = 20, weather = [], specialEffects = None\<rparr>"
  by (simp add: as_current_def worldDefinitions_def)

lemma desert_baseGains: "baseGains (chaotic_desert\<lparr>weather := []\<rparr>) = (5, 5)"
  by (simp add: chaotic_desert_def desert_current baseGains_def)

lemma desert_specialGains: "specialGains (chaotic_desert\<lparr>weather := []\<rparr>) g hf = (hf, g)"
  by (simp add: chaotic_desert_def desert_current specialGains_def)

lemma initial_upgradeGains: "upgradeGains initial_state hf = Inr hf"
  by (simp add: upgradeGains_def getWorldBonuses_def initial_state_def initial_upgrades_def)

lemma desert_climateGains: "climateGains (chaotic_desert\<lparr>weather := []\<rparr>) (5, 5) = (5, 13/2)"
  by (simp add: chaotic_desert_def desert_current climateGains_def)

lemma initial_finalGains: "finalGains initial_state hf = hf"
  by (simp add: finalGains_def initial_state_def initial_resources_def)

lemma desert_plain_gains:
  "resourceGains initial_state (chaotic_desert\<lparr>weather := []\<rparr>) g = Inr ((5, 13/2), g)"
  by (simp add: resourceGains_def Let_def desert_baseGains desert_specialGains
      initial_upgradeGains desert_climateGains initial_finalGains weatherGains_none)

theorem chaotic_same_factor_witness:
  "weather chaotic_desert = ''Chaotic''
   \<and> draws_F 0 = 1/2 \<and> draws_F 1 = 1/4
   \<and> resourceGains initial_state (chaotic_desert\<lparr>weather := []\<rparr>) draws_F
       = Inr ((5, 13/2), draws_F)
   \<and> resourceGains initial_state chaotic_desert draws_F = Inr ((5/2, 13/4), shift 2 draws_F)
   \<and> draws_up 0 = 0 \<and> draws_up 1 = 3/4
   \<and> resourceGains initial_state chaotic_desert draws_up = Inr ((25/4, 65/8), shift 2 draws_up)"
proof -
  have f: "draws_F 0 = 1/2" "draws_F 1 = 1/4"
    and u: "draws_up 0 = 0" "draws_up 1 = 3/4"
    by (simp_all add: draws_F_def draws_up_def)
  have "resourceGains initial_state chaotic_desert draws_F =
          Inr ((5 * (1 + (1/4 + draws_F 0 * (1/2)) * (if draws_F 1 < 1/2 then - 1 else 1)),
                13/2 * (1 + (1/4 + draws_F 0 * (1/2)) * (if draws_F 1 < 1/2 then - 1 else 1))),
               shift 2 draws_F)"
    using chaotic_same_factor [OF chaotic_desert_weather, of initial_state draws_F]
    by (simp only: desert_plain_gains sum.case fst_conv snd_conv)
  hence down: "resourceGains initial_state chaotic_desert draws_F
                 = Inr ((5/2, 13/4), shift 2 draws_F)"
    unfolding f by simp
  have "resourceGains initial_state chaotic_desert draws_up =
          Inr ((5 * (1 + (1/4 + draws_up 0 * (1/2)) * (if draws_up 1 < 1/2 then - 1 else 1)),
                13/2 * (1 + (1/4 + draws_up 0 * (1/2)) * (if draws_up 1 < 1/2 then - 1 else 1))),
               shift 2 draws_up)"
    using chaotic_same_factor [OF chaotic_desert_weather, of initial_state draws_up]
    by (simp only: desert_plain_gains sum.case fst_conv snd_conv)
  hence up: "resourceGains initial_state chaotic_desert draws_up
               = Inr ((25/4, 65/8), shift 2 draws_up)"
    unfolding u by simp
  show ?thesis
    using chaotic_desert_weather f u down up desert_plain_gains [of draws_F] by simp
qed

section \<open>Properties of the event system\<close>

text \<open>One call of \<^verbatim>\<open>updateActiveEvents\<close> on a state with an active-events list.\<close>

lemma updateActiveEvents_decrements:
  assumes "activeEvents s = Some evs"
  shows "activeEvents (updateActiveEvents s)
           = Some (map tick (filter (\<lambda>ev. 1 < duration ev) evs))"
  using assms by (simp add: updateActiveEvents_def filter_map o_def tick_def)

text \<open>On the instance every call of \<^verbatim>\<open>selectEventChoice\<close> raises before it writes.\<close>

lemma instance_raises:
  "selectEventChoice (GameStateInstance s) now ev ch = Inl (TypeError, GameStateInstance s)"
  by (simp add: selectEventChoice_def applyEventEffect_def addTemporaryEffect_def bump_def
      section_of_def resourceLoss_def pressureLoss_def loseHighestResource_def
      split: option.splits)

text \<open>
  Claim C8 (the code departs from it). The claim holds for \<^verbatim>\<open>updateActiveEvents\<close>, as
  the lemma above shows. For the choice of a permanent effect it says that the effect is
  applied once to \<^verbatim>\<open>permanentBonuses\<close>. With the event system wired as \<^verbatim>\<open>Game\<close> wires it,
  \<^verbatim>\<open>selectEventChoice\<close> raises a TypeError for every event and every choice and leaves
  the state as it was; in particular the Crystal Resonance choice
  \<^verbatim>\<open>permanentEfficiency\<close> does not change \<^verbatim>\<open>permanentBonuses\<close>.
\<close>

theorem selectEventChoice_raises:
  "selectEventChoice (GameStateInstance s) now ev ch = Inl (TypeError, GameStateInstance s)
   \<and> permanentBonuses
         (step (SelectEventChoice now crystalResonance
                  (plain_choice ''Embrace Resonance'' ''permanentEfficiency'')) s)
       = permanentBonuses s"
proof
  show "selectEventChoice (GameStateInstance s) now ev ch = Inl (TypeError, GameStateInstance s)"
    by (rule instance_raises)
  have "step (SelectEventChoice now crystalResonance
                (plain_choice ''Embrace Resonance'' ''permanentEfficiency'')) s = s"
    by (simp add: instance_raises state_of_def)
  thus "permanentBonuses
          (step (SelectEventChoice now crystalResonance
                   (plain_choice ''Embrace Resonance'' ''permanentEfficiency'')) s)
        = permanentBonuses s"
    by simp
qed

text \<open>
  What the method does on the plain state object that the earlier wiring passed: the
  permanent choice adds 0.05 to the efficiency, records the choice and adds no active
  event.
\<close>

lemma permanent_choice_on_state_object:
  "selectEventChoice (StateObject s) now crystalResonance
       (plain_choice ''Embrace Resonance'' ''permanentEfficiency'')
     = Inr (StateObject
         (s\<lparr>permanentBonuses := (permanentBonuses s)
               \<lparr>resourceEfficiency := resourceEfficiency (permanentBonuses s) + 5/100\<rparr>,
            eventHistory := eventHistory s @ [(''Crystal Resonance'', ''Embrace Resonance'', now)]\<rparr>))"
  by (simp add: selectEventChoice_def applyEventEffect_def section_of_def put_state_def
      crystalResonance_def plain_choice_def)

section \<open>Properties of the resource ledger\<close>

lemma map_of_write_delta:
  "map_of (write_delta d rs) k =
     (if k = fst d
      then (case map_of rs k of
              None \<Rightarrow> if k = ''__proto__'' then None else Some (Num (snd d))
            | Some a \<Rightarrow> Some (js_plus (Some a) (snd d)))
      else map_of rs k)"
  by (auto simp: write_delta_def update_conv')


text \<open>
  The loop raises exactly when it reaches a delta with \<^verbatim>\<open>hasOwnProperty\<close> an own property
  of the resources: it is one from the start, or an earlier delta has created it.
\<close>

lemma add_deltas_raises_iff:
  "(\<exists>er. add_deltas ds rs = Inl er)
   \<longleftrightarrow> ds \<noteq> [] \<and> (map_of rs ''hasOwnProperty'' \<noteq> None
                   \<or> ''hasOwnProperty'' \<in> fst ` set (butlast ds))"
proof (induction ds arbitrary: rs)
  case Nil
  show ?case
    by simp
next
  case (Cons d ds)
  show ?case
  proof (cases "map_of rs ''hasOwnProperty'' = None")
    case False
    thus ?thesis
      by (simp add: add_delta_def)
  next
    case True
    hence step: "add_deltas (d # ds) rs = add_deltas ds (write_delta d rs)"
      by (simp add: add_delta_def)
    have "map_of (write_delta d rs) ''hasOwnProperty'' \<noteq> None \<longleftrightarrow> fst d = ''hasOwnProperty''"
      using True by (auto simp add: map_of_write_delta)
    thus ?thesis
      unfolding step Cons.IH using True by (cases "ds = []") auto
  qed
qed









lemma addResources_raises_iff:
  "(\<exists>er. addResources s ds = Inl er)
   \<longleftrightarrow> ds \<noteq> [] \<and> (map_of (resources s) ''hasOwnProperty'' \<noteq> None
                   \<or> ''hasOwnProperty'' \<in> fst ` set (butlast ds))"
  using add_deltas_raises_iff [of ds "resources s"]
  by (auto simp add: addResources_def split: sum.splits)









section \<open>Properties of the world system\<close>

lemma canUnlock_desert: "canUnlockWorld initial_state 0"
  by (simp add: canUnlockWorld_def getWorldById_def worldDefinitions_def)

lemma cannot_unlock_ocean: "\<not> canUnlockWorld initial_state 1"
  by (simp add: canUnlockWorld_def getWorldById_def worldDefinitions_def initial_state_def
      initial_resources_def)

lemma select_ocean:
  "selectWorld scenario_B 1 =
     (True, scenario_B\<lparr>resources := AList.update ''fuel'' (Num 0)
                                   (AList.update ''heat'' (Num 0) initial_resources),
                        worldProgress := 1, worldsCreated := 1,
                        currentWorld := Some (as_current (worldDefinitions ! 1) 1)\<rparr>)"
  by (simp add: selectWorld_def getWorldById_def Let_def scenario_B_def initial_state_def
      initial_resources_def deduct_def worldDefinitions_def)

lemma select_ocean_again:
  "selectWorld (snd (selectWorld scenario_B 1)) 1 = (True, snd (selectWorld scenario_B 1))"
  unfolding select_ocean
  by (simp add: selectWorld_def getWorldById_def Let_def scenario_B_def worldDefinitions_def)

lemma check_one_unlockedWorlds:
  "unlockedWorlds (fst (check_one now d acc)) = unlockedWorlds (fst acc)"
  by (simp add: check_one_def)

lemma checkAchievements_unlockedWorlds:
  "unlockedWorlds (fst (fold (check_one now) ds acc)) = unlockedWorlds (fst acc)"
  by (induction ds arbitrary: acc) (simp_all add: check_one_unlockedWorlds)

lemma checkWorldUnlocks_grows:
  "set (unlockedWorlds s) \<subseteq> set (unlockedWorlds (snd (checkWorldUnlocks s)))"
  by (auto simp: checkWorldUnlocks_def split: option.splits)

lemma step_keeps_unlocked:
  "set (unlockedWorlds s) \<subseteq> set (unlockedWorlds (step a s))"
proof (cases a)
  case (SelectWorld n)
  then show ?thesis by (auto simp: selectWorld_def Let_def split: option.splits)
next
  case CheckWorldUnlocks
  then show ?thesis using checkWorldUnlocks_grows by simp
next
  case (AddResources ds)
  show ?thesis
  proof (cases "add_deltas ds (resources s)")
    case (Inl er)
    thus ?thesis
      using AddResources by (simp add: addResources_def)
  next
    case (Inr rs)
    thus ?thesis
      using AddResources
        checkWorldUnlocks_grows [of "snd (enforceResourceCaps (s\<lparr>resources := rs\<rparr>))"]
      by (simp add: addResources_def enforceResourceCaps_def Let_def)
  qed
next
  case (UpgradeResource u r)
  then show ?thesis by (auto simp: upgradeResource_def Let_def split: option.splits)
next
  case GenerateEnergy
  then show ?thesis by (simp add: generateEnergy_def Let_def)
next
  case UpdateActiveEvents
  then show ?thesis by (simp add: updateActiveEvents_def split: option.splits)
next
  case (CheckAchievements now)
  then show ?thesis by (simp add: checkAchievements_def checkAchievements_unlockedWorlds)
next
  case (SelectEventChoice now ev ch)
  then show ?thesis by (simp add: instance_raises state_of_def)
qed

lemma run_keeps_unlocked:
  "w \<in> set (unlockedWorlds s) \<Longrightarrow> w \<in> set (unlockedWorlds (run acts s))"
  unfolding run_def
proof (induction acts arbitrary: s)
  case Nil
  then show ?case by simp
next
  case (Cons a acts)
  then show ?case using step_keeps_unlocked [of s a] by auto
qed

text \<open>
  Claim C6. Scenario A: in the fresh state the Desert Planet (no requirements) can be
  unlocked and the Ocean Planet (heat 50, fuel 25) cannot. Scenario B: with heat 50, fuel
  25 and the Ocean Planet unlocked, selecting it succeeds, leaves heat 0 and fuel 0,
  raises \<^verbatim>\<open>worldsCreated\<close> from 0 to 1 and makes it the current world; selecting it again
  changes nothing, so the cost is paid once; and after any sequence of player actions
  the Ocean Planet is still in \<^verbatim>\<open>unlockedWorlds\<close>.
\<close>

theorem world_unlock_scenarios:
  "canUnlockWorld initial_state 0
   \<and> \<not> canUnlockWorld initial_state 1
   \<and> fst (selectWorld scenario_B 1)
   \<and> map_of (resources (snd (selectWorld scenario_B 1))) ''heat'' = Some (Num 0)
   \<and> map_of (resources (snd (selectWorld scenario_B 1))) ''fuel'' = Some (Num 0)
   \<and> worldsCreated scenario_B = 0
   \<and> worldsCreated (snd (selectWorld scenario_B 1)) = 1
   \<and> map_option w_id (currentWorld (snd (selectWorld scenario_B 1))) = Some 1
   \<and> map_option w_name (currentWorld (snd (selectWorld scenario_B 1))) = Some ''Ocean Planet''
   \<and> selectWorld (snd (selectWorld scenario_B 1)) 1 = (True, snd (selectWorld scenario_B 1))
   \<and> (\<forall>acts. 1 \<in> set (unlockedWorlds (run acts (snd (selectWorld scenario_B 1)))))"
proof -
  have u: "1 \<in> set (unlockedWorlds (snd (selectWorld scenario_B 1)))"
    unfolding select_ocean by (simp add: scenario_B_def)
  have r: "map_of (resources (snd (selectWorld scenario_B 1))) ''heat'' = Some (Num 0)"
    "map_of (resources (snd (selectWorld scenario_B 1))) ''fuel'' = Some (Num 0)"
    unfolding select_ocean by (simp_all add: initial_resources_def)
  have w: "worldsCreated scenario_B = 0" "worldsCreated (snd (selectWorld scenario_B 1)) = 1"
    unfolding select_ocean by (simp_all add: scenario_B_def initial_state_def)
  have c: "map_option w_id (currentWorld (snd (selectWorld scenario_B 1))) = Some 1"
    "map_option w_name (currentWorld (snd (selectWorld scenario_B 1))) = Some ''Ocean Planet''"
    unfolding select_ocean by (simp_all add: as_current_def worldDefinitions_def)
  have f: "fst (selectWorld scenario_B 1)"
    unfolding select_ocean by simp
  show ?thesis
    using canUnlock_desert cannot_unlock_ocean select_ocean_again run_keeps_unlocked [OF u] r w c f
    by simp
qed


section \<open>Properties of the achievement evaluator\<close>

lemma total_unlocked [simp]: "total (s\<lparr>unlocked := u\<rparr>) = total s"
  by (simp add: total_def)

lemma maxed_unlocked [simp]: "maxed (s\<lparr>unlocked := u\<rparr>) = maxed s"
  by (simp add: maxed_def fun_eq_iff)

lemma upgradeCount_unlocked [simp]: "upgradeCount (s\<lparr>unlocked := u\<rparr>) = upgradeCount s"
  by (simp add: upgradeCount_def)

lemma checkRequirement_unlocked:
  "\<not> reads_unlocked req \<Longrightarrow>
   checkRequirement now req (s\<lparr>unlocked := u\<rparr>) = checkRequirement now req s"
  by (cases req) simp_all

lemma checkHidden_unlocked:
  "checkHiddenRequirement req (s\<lparr>unlocked := u\<rparr>) = checkHiddenRequirement req s"
  by (simp add: checkHiddenRequirement_def split: requirement.splits)

lemma eligible_unlocked:
  "\<not> reads_unlocked (requirement (snd d)) \<Longrightarrow>
   eligible now d (s\<lparr>unlocked := u\<rparr>) = eligible now d s"
  by (simp add: eligible_def checkRequirement_unlocked checkHidden_unlocked)

lemma check_one_eligible:
  "check_one now d acc =
     (if fst d \<notin> set (unlocked (fst acc)) \<and> eligible now d (fst acc)
      then ((fst acc)\<lparr>unlocked := unlocked (fst acc) @ [fst d]\<rparr>, snd acc @ [d])
      else acc)"
  by (auto simp: check_one_def eligible_def)

text \<open>What a pass adds, and where each added achievement stood when it was added.\<close>

lemma pass_adds:
  "\<exists>added.
     fold (check_one now) ds acc
       = ((fst acc)\<lparr>unlocked := unlocked (fst acc) @ map fst added\<rparr>, snd acc @ added)
     \<and> set added \<subseteq> set ds
     \<and> (\<forall>d \<in> set added. \<exists>u. set (unlocked (fst acc)) \<subseteq> set u \<and> fst d \<notin> set u
                                 \<and> eligible now d ((fst acc)\<lparr>unlocked := u\<rparr>))"
proof (induction ds arbitrary: acc)
  case Nil
  have "fold (check_one now) [] acc
          = ((fst acc)\<lparr>unlocked := unlocked (fst acc) @ map fst []\<rparr>, snd acc @ [])"
    by simp
  then show ?case by force
next
  case (Cons d ds)
  show ?case
  proof (cases "fst d \<notin> set (unlocked (fst acc)) \<and> eligible now d (fst acc)")
    case False
    then have c: "check_one now d acc = acc"
      using check_one_eligible [of now d acc] by auto
    from Cons.IH [of acc] obtain added where
      a: "fold (check_one now) ds acc
           = ((fst acc)\<lparr>unlocked := unlocked (fst acc) @ map fst added\<rparr>, snd acc @ added)"
         "set added \<subseteq> set ds"
         "\<forall>d \<in> set added. \<exists>u. set (unlocked (fst acc)) \<subseteq> set u \<and> fst d \<notin> set u
                                 \<and> eligible now d ((fst acc)\<lparr>unlocked := u\<rparr>)"
      by blast
    have "set added \<subseteq> set (d # ds)" using a(2) by auto
    then show ?thesis using a(1,3) c by (intro exI [of _ added]) simp
  next
    case True
    let ?acc1 = "((fst acc)\<lparr>unlocked := unlocked (fst acc) @ [fst d]\<rparr>, snd acc @ [d])"
    have c: "check_one now d acc = ?acc1"
      using True check_one_eligible [of now d acc] by auto
    from Cons.IH [of ?acc1] obtain added where
      a: "fold (check_one now) ds ?acc1
           = ((fst ?acc1)\<lparr>unlocked := unlocked (fst ?acc1) @ map fst added\<rparr>, snd ?acc1 @ added)"
         "set added \<subseteq> set ds"
         "\<forall>d' \<in> set added. \<exists>u. set (unlocked (fst ?acc1)) \<subseteq> set u \<and> fst d' \<notin> set u
                                 \<and> eligible now d' ((fst ?acc1)\<lparr>unlocked := u\<rparr>)"
      by blast
    have 1: "fold (check_one now) (d # ds) acc
           = ((fst acc)\<lparr>unlocked := unlocked (fst acc) @ map fst (d # added)\<rparr>,
              snd acc @ (d # added))"
      using a(1) c by simp
    have 2: "set (d # added) \<subseteq> set (d # ds)" using a(2) by auto
    have 3: "\<forall>d' \<in> set (d # added). \<exists>u. set (unlocked (fst acc)) \<subseteq> set u \<and> fst d' \<notin> set u
                                 \<and> eligible now d' ((fst acc)\<lparr>unlocked := u\<rparr>)"
    proof
      fix d' assume "d' \<in> set (d # added)"
      then consider "d' = d" | "d' \<in> set added" by auto
      then show "\<exists>u. set (unlocked (fst acc)) \<subseteq> set u \<and> fst d' \<notin> set u
                                 \<and> eligible now d' ((fst acc)\<lparr>unlocked := u\<rparr>)"
      proof cases
        case 1
        then show ?thesis using True by (intro exI [of _ "unlocked (fst acc)"]) simp
      next
        case 2
        then obtain u where "set (unlocked (fst ?acc1)) \<subseteq> set u" "fst d' \<notin> set u"
          "eligible now d' ((fst ?acc1)\<lparr>unlocked := u\<rparr>)"
          using a(3) by blast
        then show ?thesis by (intro exI [of _ u]) simp
      qed
    qed
    show ?thesis using 1 2 3 by blast
  qed
qed

text \<open>After a pass, a definition is unlocked or was not eligible (unless it reads the set).\<close>

lemma pass_complete:
  "d \<in> set ds \<Longrightarrow> \<not> reads_unlocked (requirement (snd d)) \<Longrightarrow>
   fst d \<in> set (unlocked (fst (fold (check_one now) ds acc))) \<or> \<not> eligible now d (fst acc)"
proof (induction ds arbitrary: acc)
  case Nil
  then show ?case by simp
next
  case (Cons e ds)
  obtain added where
    a: "fold (check_one now) ds (check_one now e acc)
          = ((fst (check_one now e acc))
               \<lparr>unlocked := unlocked (fst (check_one now e acc)) @ map fst added\<rparr>,
             snd (check_one now e acc) @ added)"
    using pass_adds [of now ds "check_one now e acc"] by blast
  have grows: "set (unlocked (fst (check_one now e acc)))
                 \<subseteq> set (unlocked (fst (fold (check_one now) (e # ds) acc)))"
    using a by simp
  have same: "\<exists>u. fst (check_one now e acc) = (fst acc)\<lparr>unlocked := u\<rparr>"
  proof (cases "fst e \<notin> set (unlocked (fst acc)) \<and> eligible now e (fst acc)")
    case True
    then show ?thesis using check_one_eligible [of now e acc] by auto
  next
    case False
    then have "fst (check_one now e acc) = (fst acc)\<lparr>unlocked := unlocked (fst acc)\<rparr>"
      using check_one_eligible [of now e acc] by auto
    then show ?thesis by blast
  qed
  have head: "fst e \<in> set (unlocked (fst (check_one now e acc))) \<or> \<not> eligible now e (fst acc)"
    using check_one_eligible [of now e acc] by auto
  show ?case
  proof (cases "d = e")
    case True
    then show ?thesis using grows head by blast
  next
    case False
    then have "d \<in> set ds" using Cons.prems(1) by simp
    from Cons.IH [OF this Cons.prems(2), of "check_one now e acc"]
    have "fst d \<in> set (unlocked (fst (fold (check_one now) (e # ds) acc)))
          \<or> \<not> eligible now d (fst (check_one now e acc))"
      by simp
    moreover obtain u where "fst (check_one now e acc) = (fst acc)\<lparr>unlocked := u\<rparr>"
      using same by blast
    ultimately show ?thesis using eligible_unlocked [OF Cons.prems(2)] by simp
  qed
qed


text \<open>A pass changes nothing exactly when it finds no definition to unlock.\<close>

lemma pass_idle:
  "fold (check_one now) ds acc = acc
   \<longleftrightarrow> list_all (\<lambda>d. fst d \<in> set (unlocked (fst acc)) \<or> \<not> eligible now d (fst acc)) ds"
proof (induction ds arbitrary: acc)
  case Nil
  show ?case
    by simp
next
  case (Cons d ds)
  show ?case
  proof (cases "fst d \<notin> set (unlocked (fst acc)) \<and> eligible now d (fst acc)")
    case False
    hence "check_one now d acc = acc"
      using check_one_eligible [of now d acc] by auto
    thus ?thesis
      using False Cons.IH [of acc] by auto
  next
    case True
    let ?acc1 = "((fst acc)\<lparr>unlocked := unlocked (fst acc) @ [fst d]\<rparr>, snd acc @ [d])"
    have "check_one now d acc = ?acc1"
      using True check_one_eligible [of now d acc] by auto
    moreover obtain added where
      "fold (check_one now) ds ?acc1
         = ((fst ?acc1)\<lparr>unlocked := unlocked (fst ?acc1) @ map fst added\<rparr>, snd ?acc1 @ added)"
      using pass_adds [of now ds ?acc1] by blast
    ultimately have "snd (fold (check_one now) (d # ds) acc) = snd acc @ d # added"
      by simp
    hence "length (snd (fold (check_one now) (d # ds) acc)) \<noteq> length (snd acc)"
      by simp
    hence "fold (check_one now) (d # ds) acc \<noteq> acc"
      by metis
    thus ?thesis
      using True by simp
  qed
qed

lemma hunter_fields:
  "definitions hunter_state = achievement_definitions"
  "unlocked hunter_state = [1, 2, 3, 4, 5, 6, 7, 8, 9, 10, 11, 12, 13, 14, 15, 16,
                            18, 19, 20, 21, 22, 24, 25, 34]"
  "resources hunter_state = AList.update ''heat'' (Num 1000000) initial_resources"
  "upgrades hunter_state = initial_upgrades"
  "worldsCreated hunter_state = 0"
  "tracking hunter_state = initial_counters"
  by (simp_all add: hunter_state_def initial_state_def)

lemma hunter_values:
  "map_of (resources hunter_state) ''heat'' = Some (Num 1000000)"
  "map_of (resources hunter_state) ''fuel'' = Some (Num 0)"
  "map_of (resources hunter_state) ''pressure'' = Some (Num 0)"
  "map_of (resources hunter_state) ''energy'' = Some (Num 0)"
  "map_of (resources hunter_state) ''stability'' = Some (Num 0)"
  "total hunter_state = Num 1000000"
  "upgradeCount hunter_state = 0"
  "maxed hunter_state ''heatGenerator'' = False"
  "length (filter (\<lambda>e. js_gt (Some (snd e)) 0) (resources hunter_state)) = 1"
  by (simp_all add: hunter_fields initial_resources_def initial_upgrades_def total_def
      add_amount_def upgradeCount_def maxed_def)

lemmas eval_defs = checkAchievements_def achievement_definitions_def
  check_one_def checkHiddenRequirement_def initial_counters_def lookup0_def
  ratio_off_def pages_def hunter_fields(1,2,5,6) hunter_values

lemma first_call:
  "checkAchievements 0 hunter_state
     = (hunter_state\<lparr>unlocked := unlocked hunter_state @ [42]\<rparr>,
        [(42, \<lparr>a_name = ''Heat Infinity'', requirement = Resource ''heat'' 1000000,
                hidden = False\<rparr>)])"
  by (simp add: eval_defs)


lemma second_call:
  "checkAchievements 0 (hunter_state\<lparr>unlocked := unlocked hunter_state @ [42]\<rparr>)
     = (hunter_state\<lparr>unlocked := unlocked hunter_state @ [42, 40]\<rparr>,
        [(40, \<lparr>a_name = ''Achievement Hunter'', requirement = Achievements 25,
                hidden = False\<rparr>)])"
  by (simp add: eval_defs)

lemma player_fields:
  "definitions player_state = achievement_definitions"
  "unlocked player_state = []"
  "worldsCreated player_state = 5"
  "tracking player_state = initial_counters"
  by (simp_all add: player_state_def initial_state_def)

lemma player_values:
  "map_of (resources player_state) ''heat'' = Some (Num 7)"
  "map_of (resources player_state) ''fuel'' = Some (Num 120)"
  "map_of (resources player_state) ''pressure'' = Some (Num 0)"
  "map_of (resources player_state) ''energy'' = Some (Num 0)"
  "map_of (resources player_state) ''stability'' = Some (Num 0)"
  "total player_state = Num 127"
  "upgradeCount player_state = 1"
  "maxed player_state ''heatGenerator'' = False"
  "length (filter (\<lambda>e. js_gt (Some (snd e)) 0) (resources player_state)) = 2"
  by (simp_all add: player_state_def initial_state_def initial_resources_def
      initial_upgrades_def total_def add_amount_def upgradeCount_def maxed_def)

lemmas player_defs = checkAchievements_def achievement_definitions_def
  check_one_def checkHiddenRequirement_def initial_counters_def lookup0_def
  ratio_off_def pages_def player_fields player_values

lemma player_first_call:
  "checkAchievements 0 player_state
     = (player_state\<lparr>unlocked := [1, 2, 3, 5, 6, 13]\<rparr>,
        [(1, \<lparr>a_name = ''First Steps'', requirement = Resource ''heat'' 1, hidden = False\<rparr>),
         (2, \<lparr>a_name = ''Fuel Finder'', requirement = Resource ''fuel'' 1, hidden = False\<rparr>),
         (3, \<lparr>a_name = ''First Upgrade'', requirement = UpgradeCount 1, hidden = False\<rparr>),
         (5, \<lparr>a_name = ''Fuel Tank'', requirement = Resource ''fuel'' 100, hidden = False\<rparr>),
         (6, \<lparr>a_name = ''World Builder'', requirement = Worlds 1, hidden = False\<rparr>),
         (13, \<lparr>a_name = ''World Collector'', requirement = Worlds 5, hidden = False\<rparr>)])"
  by (simp add: player_defs)

lemma player_nothing_pending:
  "\<not> list_ex (pending 0 (player_state\<lparr>unlocked := [1, 2, 3, 5, 6, 13]\<rparr>))
       (definitions player_state)"
  by (simp add: pending_def eligible_def player_fields achievement_definitions_def)

text \<open>
  The claim C9 as stated fails: the player of \<open>hunter_state\<close> holds 24 achievements when
  heat reaches 1,000,000. The first call reaches entry 40 (Achievement Hunter, 25
  achievements) with 24 unlocked, and only later in the same pass unlocks entry 42 (Heat
  Infinity). The second call, with nothing changed in between, finds 25 unlocked and
  unlocks entry 40: it returns a non-empty list and the unlocked set grows again.
\<close>

theorem checkAchievements_not_idempotent:
  "map fst (snd (checkAchievements 0 hunter_state)) = [42]
   \<and> map fst (snd (checkAchievements 0 (fst (checkAchievements 0 hunter_state)))) = [40]
   \<and> unlocked (fst (checkAchievements 0 (fst (checkAchievements 0 hunter_state))))
       = unlocked (fst (checkAchievements 0 hunter_state)) @ [40]"
  by (simp add: first_call second_call)

text \<open>
  Claim C9, amended. A call of \<^verbatim>\<open>checkAchievements\<close> only appends to the unlocked list
  (nothing is removed) and returns only achievements that were not unlocked before it
  (unlocked ones are skipped). In a second call with no change in between and the same
  clock, every achievement returned has a requirement that reads the unlocked list
  itself (\<^verbatim>\<open>achievements\<close>, \<^verbatim>\<open>completion\<close> with a count, or \<^verbatim>\<open>speed\<close> after another
  achievement). The second call returns the empty list and leaves the state as the
  first call left it exactly when no such definition is pending after the first call,
  that is, still locked and with its requirement met by the list that the first call
  left. In particular it does so when no definition has such a requirement, and when
  the first call unlocked nothing.
\<close>

theorem checkAchievements_twice:
  "unlocked (fst (checkAchievements now s)) = unlocked s @ map fst (snd (checkAchievements now s))
   \<and> (\<forall>d \<in> set (snd (checkAchievements now s)). fst d \<notin> set (unlocked s))
   \<and> (\<forall>d \<in> set (snd (checkAchievements now (fst (checkAchievements now s)))).
         reads_unlocked (requirement (snd d)))
   \<and> (checkAchievements now (fst (checkAchievements now s))
           = (fst (checkAchievements now s), [])
        \<longleftrightarrow> \<not> list_ex (pending now (fst (checkAchievements now s))) (definitions s))
   \<and> (list_all (\<lambda>d. \<not> reads_unlocked (requirement (snd d))) (definitions s) \<longrightarrow>
         checkAchievements now (fst (checkAchievements now s))
           = (fst (checkAchievements now s), []))
   \<and> (snd (checkAchievements now s) = [] \<longrightarrow>
         checkAchievements now (fst (checkAchievements now s)) = (s, []))"
proof -
  let ?ds = "definitions s"
  obtain new1 where
    p1: "fold (check_one now) ?ds (s, []) = (s\<lparr>unlocked := unlocked s @ map fst new1\<rparr>, new1)"
    and in1: "\<forall>d \<in> set new1. \<exists>u. set (unlocked s) \<subseteq> set u \<and> fst d \<notin> set u
                                 \<and> eligible now d (s\<lparr>unlocked := u\<rparr>)"
    using pass_adds [of now ?ds "(s, [])"] by auto
  let ?s1 = "s\<lparr>unlocked := unlocked s @ map fst new1\<rparr>"
  have c1: "checkAchievements now s = (?s1, new1)"
    by (simp add: checkAchievements_def p1)
  obtain new2 where
    p2: "fold (check_one now) ?ds (?s1, [])
           = (?s1\<lparr>unlocked := unlocked ?s1 @ map fst new2\<rparr>, new2)"
    and sub2: "set new2 \<subseteq> set ?ds"
    and in2: "\<forall>d \<in> set new2. \<exists>u. set (unlocked ?s1) \<subseteq> set u \<and> fst d \<notin> set u
                                 \<and> eligible now d (?s1\<lparr>unlocked := u\<rparr>)"
    using pass_adds [of now ?ds "(?s1, [])"] by auto
  have c2: "checkAchievements now ?s1 = (?s1\<lparr>unlocked := unlocked ?s1 @ map fst new2\<rparr>, new2)"
    by (simp add: checkAchievements_def p2)
  have skip: "\<forall>d \<in> set new1. fst d \<notin> set (unlocked s)"
    using in1 by blast
  have reads: "\<forall>d \<in> set new2. reads_unlocked (requirement (snd d))"
  proof (rule ballI, rule ccontr)
    fix d assume d: "d \<in> set new2" and nr: "\<not> reads_unlocked (requirement (snd d))"
    obtain u where u: "set (unlocked ?s1) \<subseteq> set u" "fst d \<notin> set u"
      "eligible now d (?s1\<lparr>unlocked := u\<rparr>)"
      using in2 d by blast
    have e: "eligible now d s"
      using u(3) nr by (simp add: eligible_unlocked)
    have "fst d \<in> set (unlocked (fst (fold (check_one now) ?ds (s, [])))) \<or> \<not> eligible now d s"
      using pass_complete [of d ?ds now "(s, [])"] sub2 d nr by auto
    then have "fst d \<in> set (unlocked ?s1)" using e by (simp add: p1)
    then show False using u(1,2) by blast
  qed
  have all_plain: "list_all (\<lambda>d. \<not> reads_unlocked (requirement (snd d))) ?ds \<Longrightarrow> new2 = []"
  proof -
    assume a: "list_all (\<lambda>d. \<not> reads_unlocked (requirement (snd d))) ?ds"
    have "\<And>d. d \<in> set new2 \<Longrightarrow> False"
      using a reads sub2 by (auto simp: list_all_iff)
    then show ?thesis by (cases new2) auto
  qed
  have empty1: "new1 = [] \<Longrightarrow> checkAchievements now ?s1 = (s, [])"
  proof -
    assume "new1 = []"
    then have "?s1 = s" by simp
    then show ?thesis using c1 \<open>new1 = []\<close> by simp
  qed
  have idle: "checkAchievements now ?s1 = (?s1, [])
              \<longleftrightarrow> list_all (\<lambda>d. fst d \<in> set (unlocked ?s1) \<or> \<not> eligible now d ?s1) ?ds"
    using pass_idle [of now ?ds "(?s1, [])"] by (simp add: checkAchievements_def)
  have plain: "fst d \<in> set (unlocked ?s1) \<or> \<not> eligible now d ?s1"
    if "d \<in> set ?ds" and "\<not> reads_unlocked (requirement (snd d))" for d
    using pass_complete [OF that, of now "(s, [])"]
      eligible_unlocked [OF that(2), where now = now and s = s]
    by (simp add: p1)
  have exact: "checkAchievements now ?s1 = (?s1, []) \<longleftrightarrow> \<not> list_ex (pending now ?s1) ?ds"
    unfolding idle using plain by (auto simp add: list_all_iff list_ex_iff pending_def)
  show ?thesis
    unfolding c1 fst_conv snd_conv
    using skip reads all_plain empty1 exact by (auto simp: c2)
qed

theorem checkAchievements_twice_witness:
  "map fst (snd (checkAchievements 0 player_state)) = [1, 2, 3, 5, 6, 13]
   \<and> unlocked (fst (checkAchievements 0 player_state)) = [1, 2, 3, 5, 6, 13]
   \<and> \<not> list_ex (pending 0 (fst (checkAchievements 0 player_state))) (definitions player_state)
   \<and> checkAchievements 0 (fst (checkAchievements 0 player_state))
       = (fst (checkAchievements 0 player_state), [])
   \<and> map fst (snd (checkAchievements 0 hunter_state)) = [42]
   \<and> list_all (\<lambda>i. i \<notin> set (unlocked hunter_state))
        (map fst (snd (checkAchievements 0 hunter_state)))
   \<and> list_all (\<lambda>d. reads_unlocked (requirement (snd d)))
        (snd (checkAchievements 0 (fst (checkAchievements 0 hunter_state))))
   \<and> unlocked (fst (checkAchievements 0 hunter_state)) = unlocked hunter_state @ [42]"
proof -
  have p: "map fst (snd (checkAchievements 0 player_state)) = [1, 2, 3, 5, 6, 13]"
    "unlocked (fst (checkAchievements 0 player_state)) = [1, 2, 3, 5, 6, 13]"
    unfolding player_first_call by simp_all
  have q: "\<not> list_ex (pending 0 (fst (checkAchievements 0 player_state)))
               (definitions player_state)"
    unfolding player_first_call fst_conv by (rule player_nothing_pending)
  have r: "checkAchievements 0 (fst (checkAchievements 0 player_state))
             = (fst (checkAchievements 0 player_state), [])"
    using checkAchievements_twice [of 0 player_state] q by blast
  have a: "map fst (snd (checkAchievements 0 hunter_state)) = [42]"
    unfolding first_call by simp
  have b: "list_all (\<lambda>i. i \<notin> set (unlocked hunter_state))
        (map fst (snd (checkAchievements 0 hunter_state)))"
    using checkAchievements_twice [of 0 hunter_state] by (simp add: list_all_iff)
  have c: "list_all (\<lambda>d. reads_unlocked (requirement (snd d)))
        (snd (checkAchievements 0 (fst (checkAchievements 0 hunter_state))))"
    using checkAchievements_twice [of 0 hunter_state] by (simp add: list_all_iff)
  have d: "unlocked (fst (checkAchievements 0 hunter_state)) = unlocked hunter_state @ [42]"
    using checkAchievements_twice [of 0 hunter_state] a by simp
  show ?thesis using p q r a b c d by blast
qed


section \<open>Saved games: validation\<close>

lemma validateSaveData_not_object: "\<not> is_object data \<Longrightarrow> \<not> validateSaveData data"
  by (simp add: validateSaveData_def)

lemma validateSaveData_missing:
  assumes "p \<in> set requiredProperties" and "\<not> has data p"
  shows "\<not> validateSaveData data"
  using assms by (auto simp add: validateSaveData_def requiredProperties_def)

lemma validateSaveData_negative_count:
  assumes "get data ''worldsCreated'' = JNum (Finite x)" and "x < 0"
  shows "\<not> validateSaveData data"
  using assms by (simp add: validateSaveData_def)

lemma valid_amount_iff: "valid_amount v = (\<exists>x. v = JNum (Finite x) \<and> 0 \<le> x)"
  by (cases v rule: valid_amount.cases) auto

lemma validateSaveData_resource:
  assumes "r \<in> set resourceTypes" and "get (get data ''resources'') r \<noteq> JUndefined"
    and "\<not> valid_amount (get (get data ''resources'') r)"
  shows "\<not> validateSaveData data"
proof -
  have "\<not> list_all (\<lambda>r. get (get data ''resources'') r = JUndefined
                         \<or> valid_amount (get (get data ''resources'') r)) resourceTypes"
    using assms by (auto simp add: list_all_iff)
  thus ?thesis
    by (simp add: validateSaveData_def)
qed

lemma validateSaveData_level:
  assumes "(k, u) \<in> set (spread (get data ''upgrades''))" and "is_object u"
    and "get u ''level'' \<noteq> JUndefined" and "\<not> valid_amount (get u ''level'')"
  shows "\<not> validateSaveData data"
proof -
  have "\<not> valid_upgrade u"
    using assms(2,3,4) by (simp add: valid_upgrade_def)
  hence "\<not> list_all (\<lambda>e. valid_upgrade (snd e)) (spread (get data ''upgrades''))"
    using assms(1) by (force simp add: list_all_iff)
  thus ?thesis
    by (simp add: validateSaveData_def)
qed

lemma scenario_E_rejected: "\<not> validateSaveData scenario_E"
  by (simp add: validateSaveData_def scenario_E_def requiredProperties_def resourceTypes_def)

section \<open>Saved games: the placeholder history\<close>

lemma history_loop_returns:
  assumes "history_loop wc c i acc = Some r"
  shows "wc \<noteq> PosInfinity"
  by (rule history_loop.raw_induct [where P = "\<lambda>wc c i acc r. wc \<noteq> PosInfinity", OF _ assms])
     (auto split: if_splits)

lemma history_loop_endless: "history_loop PosInfinity c i acc = None"
proof (cases "history_loop PosInfinity c i acc")
  case None
  thus ?thesis .
next
  case (Some r)
  thus ?thesis
    using history_loop_returns by blast
qed

lemma history_loop_finite:
  assumes "1 \<le> i"
  shows "history_loop (Finite x) c i acc
         = Some (acc @ map (\<lambda>k. placeholder (Finite x) (c (k - i)) k) [i ..< Suc (nat \<lfloor>x\<rfloor>)],
                 (\<lambda>n. c (n + (Suc (nat \<lfloor>x\<rfloor>) - i))))"
  using assms
proof (induction "Suc (nat \<lfloor>x\<rfloor>) - i" arbitrary: i acc c)
  case 0
  hence "\<not> real i \<le> x"
    by linarith
  thus ?case
    using 0 by (subst history_loop.simps) simp
next
  case (Suc n)
  define N where "N = Suc (nat \<lfloor>x\<rfloor>)"
  have less: "i < N"
    using Suc.hyps(2) by (simp add: N_def)
  hence "real i \<le> x"
    using Suc.prems unfolding N_def by linarith
  hence "history_loop (Finite x) c i acc
         = history_loop (Finite x) (later c) (i + 1) (acc @ [placeholder (Finite x) (c 0) i])"
    by (subst history_loop.simps) simp
  also have "\<dots> = Some ((acc @ [placeholder (Finite x) (c 0) i])
                          @ map (\<lambda>k. placeholder (Finite x) (later c (k - (i + 1))) k) [i + 1 ..< N],
                        (\<lambda>n. later c (n + (N - (i + 1)))))"
    unfolding N_def using Suc.hyps(2) by (intro Suc.hyps(1)) simp_all
  also have "map (\<lambda>k. placeholder (Finite x) (later c (k - (i + 1))) k) [i + 1 ..< N]
             = map (\<lambda>k. placeholder (Finite x) (c (k - i)) k) [i + 1 ..< N]"
    by (rule map_cong) (simp_all add: later_def Suc_diff_Suc)
  also have "(\<lambda>n. later c (n + (N - (i + 1)))) = (\<lambda>n. c (n + (N - i)))"
  proof
    fix n
    have "Suc (n + (N - (i + 1))) = n + (N - i)"
      using less by linarith
    thus "later c (n + (N - (i + 1))) = c (n + (N - i))"
      by (simp only: later_def)
  qed
  finally show ?case
    using less by (simp add: N_def [symmetric] upt_conv_Cons del: upt_Suc)
qed

section \<open>Saved games: objects\<close>

lemma map_of_put: "map_of (put k v kv) = (map_of kv)(k \<mapsto> v)"
  by (simp add: put_def update_conv')

lemma get_put: "get (JObj (put k v kv)) n = (if n = k then v else get (JObj kv) n)"
  by (simp add: map_of_put)

lemma keys_put:
  "map fst (put k v kv) = (if k \<in> set (map fst kv) then map fst kv else map fst kv @ [k])"
  unfolding put_def by (rule update_keys)

lemma distinct_put: "distinct (map fst kv) \<Longrightarrow> distinct (map fst (put k v kv))"
  by (simp add: put_def distinct_update)

lemma put_same: "map_of kv k = Some v \<Longrightarrow> put k v kv = kv"
  by (simp add: put_def update_triv)

lemma map_of_assign: "map_of (assign src dst) = map_of dst ++ map_of (rev src)"
proof (induction src arbitrary: dst)
  case Nil
  show ?case
    by (simp add: assign_def)
next
  case (Cons e src)
  have "assign (e # src) dst = assign src (put (fst e) (snd e) dst)"
    by (simp add: assign_def)
  moreover have "map_of (rev (e # src)) = [fst e \<mapsto> snd e] ++ map_of (rev src)"
    by (simp add: map_of_append)
  moreover have "(map_of dst)(fst e \<mapsto> snd e) = map_of dst ++ [fst e \<mapsto> snd e]"
    by simp
  ultimately show ?case
    by (simp only: Cons.IH map_of_put map_add_assoc)
qed

lemma distinct_assign: "distinct (map fst dst) \<Longrightarrow> distinct (map fst (assign src dst))"
proof (induction src arbitrary: dst)
  case Nil
  thus ?case
    by (simp add: assign_def)
next
  case (Cons e src)
  have "assign (e # src) dst = assign src (put (fst e) (snd e) dst)"
    by (simp add: assign_def)
  thus ?case
    using Cons by (simp add: distinct_put)
qed

lemma keys_assign:
  assumes "distinct (map fst src)"
  shows "map fst (assign src dst)
         = map fst dst @ filter (\<lambda>k. k \<notin> set (map fst dst)) (map fst src)"
  using assms
proof (induction src arbitrary: dst)
  case Nil
  show ?case
    by (simp add: assign_def)
next
  case (Cons e src)
  have step: "assign (e # src) dst = assign src (put (fst e) (snd e) dst)"
    by (simp add: assign_def)
  have fresh: "fst e \<notin> set (map fst src)" and rest: "distinct (map fst src)"
    using Cons.prems by simp_all
  have "(k \<notin> set (map fst (put (fst e) (snd e) dst))) = (k \<notin> set (map fst dst))"
    if "k \<in> set (map fst src)" for k
  proof -
    have "k \<noteq> fst e"
      using that fresh by blast
    thus ?thesis
      by (simp add: keys_put)
  qed
  hence "filter (\<lambda>k. k \<notin> set (map fst (put (fst e) (snd e) dst))) (map fst src)
        = filter (\<lambda>k. k \<notin> set (map fst dst)) (map fst src)"
    by (intro filter_cong) simp_all
  thus ?case
    unfolding step Cons.IH [OF rest] by (simp add: keys_put)
qed

lemma alist_eqI:
  assumes "map fst xs = map fst ys" and "distinct (map fst xs)" and "map_of xs = map_of ys"
  shows "xs = ys"
  using assms
proof (induction xs arbitrary: ys)
  case Nil
  thus ?case
    by simp
next
  case (Cons x xs)
  then obtain y ys' where ys: "ys = y # ys'"
    by (cases ys) auto
  have k: "fst x = fst y" and ks: "map fst xs = map fst ys'"
    using Cons.prems(1) ys by simp_all
  have all: "map_of (x # xs) k' = map_of (y # ys') k'" for k'
    using Cons.prems(3) unfolding ys by (rule fun_cong)
  have v: "snd x = snd y"
    using all [of "fst x"] k by (cases x, cases y) simp
  have "map_of xs k' = map_of ys' k'" for k'
  proof (cases "k' = fst x")
    case True
    hence "k' \<notin> set (map fst xs)" and "k' \<notin> set (map fst ys')"
      using Cons.prems(2) ks by auto
    thus ?thesis
      by (simp add: map_of_eq_None_iff [symmetric] del: map_of_eq_None_iff)
  next
    case False
    thus ?thesis
      using all [of k'] k by (cases x, cases y) (simp split: if_splits)
  qed
  hence "xs = ys'"
    using Cons.IH [of ys'] ks Cons.prems(2) by auto
  thus ?case
    using k v ys by (simp add: prod_eq_iff)
qed

lemma map_of_rev_distinct: "distinct (map fst xs) \<Longrightarrow> map_of (rev xs) = map_of xs"
  by (subst map_of_inject_set) (simp_all add: rev_map [symmetric])

lemma get_assign:
  assumes "distinct (map fst src)"
  shows "get (JObj (assign src dst)) n
         = (if n \<in> set (map fst src) then get (JObj src) n else get (JObj dst) n)"
proof (cases "map_of src n")
  case None
  moreover from None have "n \<notin> set (map fst src)"
    by (simp add: map_of_eq_None_iff)
  ultimately show ?thesis
    using assms by (simp add: map_of_assign map_of_rev_distinct map_add_def)
next
  case (Some v)
  hence "n \<in> set (map fst src)"
    by (metis map_of_eq_None_iff option.distinct(1) set_map)
  thus ?thesis
    using assms Some by (simp add: map_of_assign map_of_rev_distinct map_add_def)
qed

section \<open>Saved games: the merge of \<^verbatim>\<open>loadGame\<close>\<close>

lemma merge_saved_get:
  "get (JObj (merge_saved s p)) n =
     (if n = ''worldHistory'' then js_or (get p ''worldHistory'') (JArr [])
      else if n \<in> set merged_sections \<or> n = ''upgrades'' \<or> n = ''resources''
        then merge (get s n) (get p n)
      else if n = ''currentWorld'' then js_or (get p ''currentWorld'') (get s ''currentWorld'')
      else get (JObj (assign (spread p) (assign (spread s) []))) n)"
  unfolding merge_saved_def Let_def merged_sections_def merge_section_def
  by (simp add: get_put del: get.simps)

lemma merge_saved_upgrades:
  "get (JObj (merge_saved s p)) ''upgrades'' = merge (get s ''upgrades'') (get p ''upgrades'')"
  by (simp add: merge_saved_get del: get.simps)

lemma merge_saved_resources:
  "get (JObj (merge_saved s p)) ''resources'' = merge (get s ''resources'') (get p ''resources'')"
  by (simp add: merge_saved_get del: get.simps)

lemma merge_saved_history:
  "get (JObj (merge_saved s p)) ''worldHistory'' = js_or (get p ''worldHistory'') (JArr [])"
  by (simp add: merge_saved_get del: get.simps)

lemma merge_saved_count:
  assumes "distinct (map fst pk)" and "has (JObj pk) ''worldsCreated''"
  shows "get (JObj (merge_saved s (JObj pk))) ''worldsCreated'' = get (JObj pk) ''worldsCreated''"
proof -
  have "''worldsCreated'' \<in> set (map fst pk)"
    using assms(2) by (simp add: map_of_eq_None_iff)
  thus ?thesis
    using assms(1) by (simp add: merge_saved_get merged_sections_def get_assign del: get.simps)
qed

section \<open>Saved games: \<^verbatim>\<open>validateAndFixState\<close>\<close>

lemma fix_sections_resources:
  assumes "get (JObj st) ''upgrades'' = JObj ups"
  shows "\<exists>st'. fix_sections st = Inr st'
           \<and> get (JObj st') ''resources'' = merge defaultResources (get (JObj st) ''resources'')"
proof -
  define st2 where
    "st2 = (if \<not> truthy (get (JObj st) ''worldHistory'') then put ''worldHistory'' (JArr []) st else st)"
  have up: "get (JObj st2) ''upgrades'' = JObj ups"
    and res: "get (JObj st2) ''resources'' = get (JObj st) ''resources''"
    using assms by (simp_all add: st2_def get_put del: get.simps)
  show ?thesis
    unfolding fix_sections_def st2_def [symmetric] Let_def up
    using res by (simp add: get_put del: get.simps)
qed

lemma validateAndFixState_returns:
  assumes "get (JObj st) ''upgrades'' = JObj ups"
    and "get (JObj st) ''worldsCreated'' \<noteq> JNum PosInfinity"
  shows "\<exists>st' c'. validateAndFixState c st = Some (Inr st', c')
           \<and> get (JObj st') ''resources'' = merge defaultResources (get (JObj st) ''resources'')"
proof (cases "no_history (get (JObj st) ''worldHistory'') \<and> positive (get (JObj st) ''worldsCreated'')")
  case False
  thus ?thesis
    using fix_sections_resources [OF assms(1)] by (auto simp add: validateAndFixState_def)
next
  case True
  then obtain x where x: "get (JObj st) ''worldsCreated'' = JNum (Finite x)"
    using assms(2) by (cases "get (JObj st) ''worldsCreated''" rule: positive.cases) auto
  obtain h c' where loop: "history_loop (Finite x) c 1 [] = Some (h, c')"
    using history_loop_finite [of 1 x c "[]"] by simp
  have "get (JObj (put ''worldHistory'' (JArr h) st)) ''upgrades'' = JObj ups"
    and "get (JObj (put ''worldHistory'' (JArr h) st)) ''resources'' = get (JObj st) ''resources''"
    using assms(1) by (simp_all add: get_put del: get.simps)
  thus ?thesis
    using fix_sections_resources [of "put ''worldHistory'' (JArr h) st" ups] True x loop
    by (auto simp add: validateAndFixState_def)
qed

lemma validateAndFixState_endless:
  assumes "get (JObj st) ''worldsCreated'' = JNum PosInfinity"
    and "no_history (get (JObj st) ''worldHistory'')"
  shows "validateAndFixState c st = None"
  using assms by (simp add: validateAndFixState_def history_loop_endless)

section \<open>Saved games: \<^verbatim>\<open>loadGame\<close>\<close>

lemma restoreFromBackup_failed: "\<not> fst (restoreFromBackup sto) \<Longrightarrow> snd (restoreFromBackup sto) = sto"
  by (auto simp add: restoreFromBackup_def split: list.splits option.splits blob.splits if_splits)

lemma restoreFromBackup_valid:
  assumes "fst (restoreFromBackup sto)"
  shows "\<exists>j. save (snd (restoreFromBackup sto)) = Some (Parses j) \<and> validateSaveData j
           \<and> snd (restoreFromBackup sto) = sto\<lparr>save := Some (Parses j)\<rparr>"
  using assms
  by (auto simp add: restoreFromBackup_def split: list.splits option.splits blob.splits if_splits)

lemma loadGame_nothing_stored: "\<not> present (save sto) \<Longrightarrow> loadGame c st sto = Some (False, st, sto)"
  by (subst loadGame.simps) simp

lemma loadGame_unparsable:
  assumes "save sto = Some Unparsable"
  shows "loadGame c st sto
         = (if fst (restoreFromBackup sto) then loadGame c st (snd (restoreFromBackup sto))
            else Some (False, st, sto))"
  using assms by (subst loadGame.simps) (simp add: restoreFromBackup_failed)

lemma loadGame_invalid:
  assumes "save sto = Some (Parses j)" and "\<not> validateSaveData j"
  shows "loadGame c st sto
         = (if fst (restoreFromBackup sto) then loadGame c st (snd (restoreFromBackup sto))
            else Some (False, st, sto))"
  using assms by (subst loadGame.simps) (simp add: restoreFromBackup_failed)

lemma loadGame_valid:
  assumes "save sto = Some (Parses (JObj pk))" and "validateSaveData (JObj pk)"
    and "distinct (map fst pk)" and "get (JObj pk) ''worldsCreated'' \<noteq> JNum PosInfinity"
  shows "\<exists>st'. loadGame c st sto = Some (True, st', createBackup (c 0) sto)
           \<and> get (JObj st') ''resources''
             = merge defaultResources (merge (get (JObj st) ''resources'') (get (JObj pk) ''resources''))"
proof -
  have "has (JObj pk) ''worldsCreated''"
    using assms(2) by (simp add: validateSaveData_def requiredProperties_def split: if_splits)
  hence "get (JObj (merge_saved (JObj st) (JObj pk))) ''worldsCreated'' \<noteq> JNum PosInfinity"
    using assms(3,4) by (simp only: merge_saved_count not_False_eq_True)
  moreover obtain ups where
    "get (JObj (merge_saved (JObj st) (JObj pk))) ''upgrades'' = JObj ups"
    by (simp add: merge_saved_upgrades merge_def del: get.simps)
  ultimately obtain st' c' where
    "validateAndFixState (later c) (merge_saved (JObj st) (JObj pk)) = Some (Inr st', c')"
    and "get (JObj st') ''resources''
         = merge defaultResources (get (JObj (merge_saved (JObj st) (JObj pk))) ''resources'')"
    using validateAndFixState_returns by blast
  thus ?thesis
    using assms(1,2) by (subst loadGame.simps) (simp add: merge_saved_resources del: get.simps)
qed

lemma loadGame_endless:
  assumes "save sto = Some (Parses endless_save)"
  shows "loadGame c st sto = None"
proof -
  have valid: "validateSaveData endless_save"
    by (simp add: validateSaveData_def endless_save_def requiredProperties_def resourceTypes_def)
  have "get (JObj (merge_saved (JObj st) endless_save)) ''worldsCreated'' = JNum PosInfinity"
    unfolding endless_save_def by (subst merge_saved_count) simp_all
  moreover have "no_history (get (JObj (merge_saved (JObj st) endless_save)) ''worldHistory'')"
    by (simp add: merge_saved_history endless_save_def js_or_def no_history_def del: get.simps)
       simp
  ultimately have "validateAndFixState (later c) (merge_saved (JObj st) endless_save) = None"
    by (rule validateAndFixState_endless)
  thus ?thesis
    using assms valid by (subst loadGame.simps) simp
qed

lemma get_merge_object:
  assumes "distinct (map fst bk)"
  shows "get (merge a (JObj bk)) n
         = (if n \<in> set (map fst bk) then get (JObj bk) n
            else get (JObj (assign (spread a) [])) n)"
  unfolding merge_def spread.simps using assms by (rule get_assign)

lemma pressure_of_overfull:
  "get (merge defaultResources (merge r (JObj [(''pressure'', JNum (Finite 1000))]))) ''pressure''
   = JNum (Finite 1000)"
proof -
  define bk where "bk = assign [(''pressure'', JNum (Finite 1000))] (assign (spread r) [])"
  have d: "distinct (map fst bk)"
    unfolding bk_def by (intro distinct_assign) simp
  have v: "get (JObj bk) ''pressure'' = JNum (Finite 1000)"
    unfolding bk_def by (subst get_assign) simp_all
  hence "map_of bk ''pressure'' \<noteq> None"
    by (auto split: option.splits)
  hence "''pressure'' \<in> set (map fst bk)"
    by (simp add: map_of_eq_None_iff)
  moreover have "merge r (JObj [(''pressure'', JNum (Finite 1000))]) = JObj bk"
    by (simp add: merge_def bk_def)
  ultimately show ?thesis
    using d v by (simp only: get_merge_object if_True)
qed

lemma loadGame_skips_older_backup:
  "validateSaveData bare_save
   \<and> loadGame c st \<lparr>save = Some Unparsable, index = [1, 2],
                       slots = [(1, Parses bare_save), (2, Unparsable)]\<rparr>
     = Some (False, st, \<lparr>save = Some Unparsable, index = [1, 2],
                          slots = [(1, Parses bare_save), (2, Unparsable)]\<rparr>)"
proof
  show "validateSaveData bare_save"
    by (simp add: validateSaveData_def bare_save_def requiredProperties_def resourceTypes_def)
  show "loadGame c st \<lparr>save = Some Unparsable, index = [1, 2],
                       slots = [(1, Parses bare_save), (2, Unparsable)]\<rparr>
        = Some (False, st, \<lparr>save = Some Unparsable, index = [1, 2],
                             slots = [(1, Parses bare_save), (2, Unparsable)]\<rparr>)"
    by (subst loadGame.simps) (simp add: restoreFromBackup_def newest_first_def)
qed

text \<open>
  Claim C3. \<^verbatim>\<open>validateSaveData\<close> is to reject a non-finite \<^verbatim>\<open>worldsCreated\<close>, and
  \<^verbatim>\<open>loadGame\<close> is to return for every stored save. The save text
  \<^verbatim>\<open>{"worldsCreated":1e999,"resources":{},"upgrades":{}}\<close> parses to an object whose
  \<^verbatim>\<open>worldsCreated\<close> is \<^verbatim>\<open>Infinity\<close>. It passes \<^verbatim>\<open>validateSaveData\<close>, whose test of
  \<^verbatim>\<open>worldsCreated\<close> has no \<^verbatim>\<open>isFinite\<close>, and with it stored \<^verbatim>\<open>loadGame\<close> does not return,
  whatever the state in memory, the clock and the backups: the placeholder loop of
  \<^verbatim>\<open>validateAndFixState\<close> has no last round.
\<close>

theorem loadGame_endless_save:
  "validateSaveData endless_save
   \<and> loadGame c st (stored (Parses endless_save) sto) = None"
proof
  show "validateSaveData endless_save"
    by (simp add: validateSaveData_def endless_save_def requiredProperties_def resourceTypes_def)
  show "loadGame c st (stored (Parses endless_save) sto) = None"
    by (rule loadGame_endless) (simp add: stored_def)
qed

section \<open>Saving and loading again\<close>

lemma assign_self: "distinct (map fst kv) \<Longrightarrow> assign kv [] = kv"
  by (rule alist_eqI)
     (simp_all add: keys_assign distinct_assign map_of_assign map_of_rev_distinct)

lemma assign_begins:
  assumes "distinct (map fst x)" and "take (length dk) (map fst x) = map fst dk"
  shows "assign x dk = x"
proof (rule alist_eqI)
  have split: "map fst x = map fst dk @ drop (length dk) (map fst x)"
    using assms(2) append_take_drop_id [of "length dk" "map fst x"] by simp
  hence "distinct (map fst dk @ drop (length dk) (map fst x))"
    using assms(1) by simp
  hence "filter (\<lambda>k. k \<notin> set (map fst dk)) (map fst dk @ drop (length dk) (map fst x))
         = drop (length dk) (map fst x)"
    by (auto simp add: filter_empty_conv filter_id_conv)
  hence "map fst dk @ filter (\<lambda>k. k \<notin> set (map fst dk)) (map fst x) = map fst x"
    using split by simp
  thus "map fst (assign x dk) = map fst x"
    using assms(1) by (simp only: keys_assign)
  have "distinct (map fst dk)"
    using assms by (metis distinct_take)
  thus "distinct (map fst (assign x dk))"
    by (rule distinct_assign)
  have "set (map fst dk) \<subseteq> set (map fst x)"
    using assms(2) by (metis set_take_subset)
  hence "(map_of dk ++ map_of x) k = map_of x k" for k
  proof (cases "map_of x k")
    case None
    hence "k \<notin> set (map fst x)"
      by (simp add: map_of_eq_None_iff)
    hence "k \<notin> set (map fst dk)"
      using \<open>set (map fst dk) \<subseteq> set (map fst x)\<close> by blast
    hence "map_of dk k = None"
      by (simp add: map_of_eq_None_iff)
    thus ?thesis
      using None by (simp add: map_add_def)
  next
    case (Some v)
    thus ?thesis
      by (simp add: map_add_def)
  qed
  thus "map_of (assign x dk) = map_of x"
    using assms(1) by (simp add: map_of_assign map_of_rev_distinct fun_eq_iff)
qed

lemma merge_begins:
  assumes "begins_with dk v"
  shows "merge (JObj dk) v = v"
proof -
  obtain x where v: "v = JObj x" and d: "distinct (map fst x)"
    and t: "take (length dk) (map fst x) = map fst dk"
    using assms by (auto simp add: begins_with_def split: json.splits)
  have "distinct (map fst dk)"
    using d t by (metis distinct_take)
  thus ?thesis
    using v d t by (simp add: merge_def assign_self assign_begins)
qed

lemma merge_self:
  assumes "begins_with [] v"
  shows "merge v v = v"
proof -
  obtain x where v: "v = JObj x" and d: "distinct (map fst x)"
    using assms by (auto simp add: begins_with_def split: json.splits)
  thus ?thesis
    by (simp add: merge_def assign_self assign_begins)
qed

lemma put_get: "has (JObj kv) n \<Longrightarrow> put n (get (JObj kv) n) kv = kv"
  by (rule put_same) auto

lemma begins_with_has: "begins_with d (get (JObj kv) n) \<Longrightarrow> has (JObj kv) n"
  by (auto simp add: begins_with_def split: option.splits json.splits)

lemma begins_with_plain: "begins_with d v \<Longrightarrow> begins_with [] v"
  by (auto simp add: begins_with_def split: json.splits)

lemma merge_section_same:
  assumes "begins_with [] (get (JObj kv) n)"
  shows "merge_section (JObj kv) (JObj kv) n kv = kv"
  unfolding merge_section_def merge_self [OF assms]
  using assms by (intro put_get begins_with_has)

lemma loaded_shape_sections:
  assumes "loaded_shape st"
  shows "distinct (map fst st)" and "has (JObj st) ''currentWorld''"
    and "begins_with [] (get (JObj st) ''upgrades'')"
    and "begins_with [] (get (JObj st) ''resources'')"
    and "begins_with [] (get (JObj st) ''permanentBonuses'')"
    and "begins_with [] (get (JObj st) ''worldTiers'')"
    and "begins_with [] (get (JObj st) ''unlocks'')"
    and "begins_with [] (get (JObj st) ''achievements'')"
    and "begins_with [] (get (JObj st) ''settings'')"
    and "begins_with (spread defaultResources) (get (JObj st) ''resources'')"
    and "truthy (get (JObj st) ''activeEvents'')"
  using assms begins_with_plain [of "spread defaultResources" "get (JObj st) ''resources''"]
  by (simp_all add: loaded_shape_def merged_sections_def del: get.simps has.simps)

lemma merge_saved_same:
  assumes "loaded_shape st" and "get (JObj st) ''worldHistory'' = JArr h"
  shows "merge_saved (JObj st) (JObj st) = st"
proof -
  note s = loaded_shape_sections [OF assms(1)]
  have base: "assign st (assign st []) = st"
    using s(1) by (simp add: assign_self assign_begins)
  have world: "put ''currentWorld'' (js_or (get (JObj st) ''currentWorld'') (get (JObj st) ''currentWorld'')) st = st"
    using s(2) by (simp only: js_or_def if_cancel put_get)
  have "has (JObj st) ''worldHistory''"
    using assms(2) by (auto split: option.splits)
  hence history: "put ''worldHistory'' (js_or (get (JObj st) ''worldHistory'') (JArr [])) st = st"
    using assms(2) put_get [of st "''worldHistory''"] by (simp add: js_or_def del: get.simps)
  show ?thesis
    unfolding merge_saved_def Let_def merged_sections_def spread.simps base fold_simps
    by (simp only: merge_section_same s world history)
qed

lemma fix_upgrade_same:
  assumes "begins_with dk (get (JObj ups) k)"
  shows "fix_upgrade (k, JObj dk) ups = ups"
proof -
  have "truthy (get (JObj ups) k)"
    using assms by (auto simp add: begins_with_def split: json.splits)
  thus ?thesis
    unfolding fix_upgrade_def fst_conv snd_conv merge_begins [OF assms]
    using put_get [OF begins_with_has [OF assms]] by (simp del: get.simps)
qed

lemma fix_upgrades_same:
  assumes "list_all (\<lambda>d. begins_with (spread (snd d)) (get (JObj ups) (fst d))) defaultUpgrades"
  shows "fold fix_upgrade defaultUpgrades ups = ups"
  using assms unfolding defaultUpgrades_def
  by (simp add: fix_upgrade_same del: get.simps)

lemma fix_sections_same:
  assumes "loaded_shape st" and "truthy (get (JObj st) ''worldHistory'')"
  shows "fix_sections st = Inr st"
proof -
  note s = loaded_shape_sections [OF assms(1)]
  obtain ups where ups: "get (JObj st) ''upgrades'' = JObj ups"
    using s(3) by (auto simp add: begins_with_def split: json.splits)
  have "list_all (\<lambda>d. begins_with (spread (snd d)) (get (JObj ups) (fst d))) defaultUpgrades"
    using assms(1) ups by (simp add: loaded_shape_def del: get.simps)
  hence "fold fix_upgrade defaultUpgrades ups = ups"
    by (rule fix_upgrades_same)
  moreover have "put ''upgrades'' (JObj ups) st = st"
    using put_get [OF begins_with_has [OF s(3)]] ups by (simp del: get.simps)
  moreover have "merge defaultResources (get (JObj st) ''resources'') = get (JObj st) ''resources''"
    using merge_begins [OF s(10)] by (simp add: defaultResources_def)
  moreover have "put ''resources'' (get (JObj st) ''resources'') st = st"
    using s(4) by (intro put_get begins_with_has)
  ultimately show ?thesis
    unfolding fix_sections_def Let_def using assms(2) s(11) ups
    by (simp del: get.simps)
qed

lemma validateAndFixState_same:
  assumes "loaded_form st"
  shows "validateAndFixState c st = Some (Inr st, c)"
proof -
  have shape: "loaded_shape st"
    using assms by (simp add: loaded_form_def)
  obtain h where h: "get (JObj st) ''worldHistory'' = JArr h"
    and none: "h = [] \<Longrightarrow> \<not> count_le 1 (as_number (get (JObj st) ''worldsCreated''))"
    using assms by (auto simp add: loaded_form_def split: json.splits if_splits)
  have fixed: "fix_sections st = Inr st"
    using shape h by (simp add: fix_sections_same)
  show ?thesis
  proof (cases "h = [] \<and> positive (get (JObj st) ''worldsCreated'')")
    case False
    thus ?thesis
      using h fixed by (auto simp add: validateAndFixState_def no_history_def)
  next
    case True
    hence "history_loop (as_number (get (JObj st) ''worldsCreated'')) c 1 [] = Some ([], c)"
      using none by (subst history_loop.simps) simp
    moreover have "put ''worldHistory'' (JArr []) st = st"
      using put_get [of st "''worldHistory''"] h True by (auto split: option.splits)
    ultimately show ?thesis
      using h True fixed by (simp add: validateAndFixState_def no_history_def del: get.simps)
  qed
qed

lemma saveGame_save: "save (saveGame c st sto) = Some (Parses (roundtrip (JObj st)))"
  by (simp add: saveGame_def cleanupOldBackups_def)

lemma loadGame_accepts:
  assumes "save sto = Some (Parses p)" and "validateSaveData p"
    and "validateAndFixState (later c) (merge_saved (JObj st) p) = Some (Inr st', c')"
  shows "loadGame c st sto = Some (True, st', createBackup (c 0) sto)"
  using assms by (subst loadGame.simps) simp

lemma has_put: "has (JObj (put k v kv)) n = (n = k \<or> has (JObj kv) n)"
  by (simp add: map_of_put)

lemma loaded_shape_put_history:
  assumes "loaded_shape st"
  shows "loaded_shape (put ''worldHistory'' v st)"
  using assms
  by (simp add: loaded_shape_def merged_sections_def get_put has_put distinct_put
           del: get.simps has.simps)

lemma load_migrates:
  assumes "loaded_shape st" and "get (JObj st) ''worldHistory'' = JArr []"
    and "get (JObj st) ''worldsCreated'' = JNum (Finite x)" and "1 \<le> x"
    and "roundtrip (JObj st) = JObj st" and "validateSaveData (JObj st)"
  shows "loadGame c2 st (saveGame c1 st sto)
         = Some (True,
                 put ''worldHistory''
                   (JArr (map (\<lambda>k. placeholder (Finite x) (c2 k) k) [1 ..< Suc (nat \<lfloor>x\<rfloor>)])) st,
                 createBackup (c2 0) (saveGame c1 st sto))"
proof -
  define h where "h = map (\<lambda>k. placeholder (Finite x) (c2 k) k) [1 ..< Suc (nat \<lfloor>x\<rfloor>)]"
  have "later c2 (k - 1) = c2 k" if "k \<in> set [1 ..< Suc (nat \<lfloor>x\<rfloor>)]" for k
  proof -
    have "Suc (k - 1) = k"
      using that by (simp del: upt_Suc)
    thus ?thesis
      by (simp only: later_def)
  qed
  hence "map (\<lambda>k. placeholder (Finite x) (later c2 (k - 1)) k) [1 ..< Suc (nat \<lfloor>x\<rfloor>)] = h"
    unfolding h_def by (intro map_cong) (simp_all only:)
  then obtain c' where loop: "history_loop (Finite x) (later c2) 1 [] = Some (h, c')"
    using history_loop_finite [of 1 x "later c2" "[]"] by simp
  have "fix_sections (put ''worldHistory'' (JArr h) st) = Inr (put ''worldHistory'' (JArr h) st)"
    using loaded_shape_put_history [OF assms(1)]
    by (rule fix_sections_same) (simp add: get_put del: get.simps)
  hence "validateAndFixState (later c2) st = Some (Inr (put ''worldHistory'' (JArr h) st), c')"
    using assms(2,3,4) loop
    by (simp add: validateAndFixState_def no_history_def del: get.simps)
  hence "validateAndFixState (later c2) (merge_saved (JObj st) (roundtrip (JObj st)))
         = Some (Inr (put ''worldHistory'' (JArr h) st), c')"
    using merge_saved_same [OF assms(1,2)] assms(5) by simp
  thus ?thesis
    unfolding h_def [symmetric] using assms(5,6)
    by (intro loadGame_accepts) (simp_all only: saveGame_save)
qed

lemma loaded_state_shape: "loaded_shape loaded_state"
  by (simp add: loaded_shape_def loaded_state_def constructed_state_def merged_sections_def defaultUpgrades_def
        defaultResources_def begins_with_def)

lemma loaded_state_valid: "validateSaveData (JObj loaded_state)"
  by (simp add: validateSaveData_def loaded_state_def constructed_state_def requiredProperties_def resourceTypes_def
        defaultUpgrades_def valid_upgrade_def)

lemma loaded_state_plain: "roundtrip (JObj loaded_state) = JObj loaded_state"
  by (simp add: loaded_state_def constructed_state_def defaultUpgrades_def)

lemma migrating_state_shape: "loaded_shape migrating_state"
  by (simp add: loaded_shape_def migrating_state_def put_def loaded_state_def constructed_state_def merged_sections_def
        defaultUpgrades_def defaultResources_def begins_with_def)

lemma migrating_state_valid: "validateSaveData (JObj migrating_state)"
  by (simp add: validateSaveData_def migrating_state_def put_def loaded_state_def constructed_state_def
        requiredProperties_def resourceTypes_def defaultUpgrades_def valid_upgrade_def)

lemma migrating_state_plain: "roundtrip (JObj migrating_state) = JObj migrating_state"
  by (simp add: migrating_state_def put_def loaded_state_def constructed_state_def defaultUpgrades_def)

lemma migrating_state_fields:
  "get (JObj migrating_state) ''worldHistory'' = JArr []"
  "get (JObj migrating_state) ''worldsCreated'' = JNum (Finite 1)"
  by (simp_all add: migrating_state_def put_def loaded_state_def constructed_state_def)

lemma loaded_state_form: "loaded_form loaded_state"
  using loaded_state_shape
  by (simp add: loaded_form_def) (simp add: loaded_state_def constructed_state_def)

text \<open>The first save and load of the constructed state adds the two sections.\<close>

lemma constructed_state_completed:
  "loadGame c2 constructed_state (saveGame c1 constructed_state sto)
   = Some (True, loaded_state, createBackup (c2 0) (saveGame c1 constructed_state sto))"
proof -
  have plain: "roundtrip (JObj constructed_state) = JObj constructed_state"
    by (simp add: constructed_state_def defaultUpgrades_def)
  have valid: "validateSaveData (JObj constructed_state)"
    by (simp add: validateSaveData_def constructed_state_def requiredProperties_def
          resourceTypes_def defaultUpgrades_def valid_upgrade_def)
  have "merge_saved (JObj constructed_state) (JObj constructed_state) = loaded_state"
    by (simp add: merge_saved_def merge_section_def merged_sections_def merge_def assign_def
          put_def js_or_def loaded_state_def constructed_state_def defaultUpgrades_def)
  hence "validateAndFixState (later c2)
           (merge_saved (JObj constructed_state) (roundtrip (JObj constructed_state)))
         = Some (Inr loaded_state, later c2)"
    using loaded_state_form by (simp only: plain validateAndFixState_same)
  thus ?thesis
    using valid by (intro loadGame_accepts) (simp_all only: saveGame_save plain)
qed

text \<open>
  Claim C4, as stated: saving a state that passes \<^verbatim>\<open>validateSaveData\<close> and loading at once
  restores the same state. It fails for a state with \<^verbatim>\<open>worldsCreated = 1\<close> and an empty
  \<^verbatim>\<open>worldHistory\<close>: the state passes the validation and is serialised exactly, and the
  load returns true with a placeholder world in \<^verbatim>\<open>worldHistory\<close>.
\<close>

theorem save_then_load_migrates:
  "validateSaveData (JObj migrating_state)
   \<and> roundtrip (JObj migrating_state) = JObj migrating_state
   \<and> get (JObj migrating_state) ''worldHistory'' = JArr []
   \<and> history_after (loadGame still migrating_state (saveGame still migrating_state nothing_stored))
     = Some (True, JArr [placeholder (Finite 1) 0 1])"
proof -
  have "loadGame still migrating_state (saveGame still migrating_state nothing_stored)
        = Some (True,
                put ''worldHistory''
                  (JArr (map (\<lambda>k. placeholder (Finite 1) (still k) k) [1 ..< Suc (nat \<lfloor>1::real\<rfloor>)]))
                  migrating_state,
                createBackup (still 0) (saveGame still migrating_state nothing_stored))"
    using migrating_state_shape migrating_state_fields _ migrating_state_plain migrating_state_valid
    by (rule load_migrates) simp
  hence "history_after (loadGame still migrating_state (saveGame still migrating_state nothing_stored))
         = Some (True, JArr [placeholder (Finite 1) 0 1])"
    by (simp add: history_after_def get_put still_def del: get.simps)
  thus ?thesis
    using migrating_state_valid migrating_state_plain migrating_state_fields(1) by simp
qed

text \<open>
  Claim C4, amended. For a state that passes \<^verbatim>\<open>validateSaveData\<close>, that JSON serialises
  exactly and that has the form a load leaves, \<^verbatim>\<open>loadGame\<close> right after \<^verbatim>\<open>saveGame\<close>
  returns true and leaves the very same state, whatever the clock and the storage before;
  the storage then holds the save and the backup that \<^verbatim>\<open>loadGame\<close> makes of it.
\<close>

theorem save_then_load:
  assumes "loaded_form st" and "roundtrip (JObj st) = JObj st" and "validateSaveData (JObj st)"
  shows "loadGame c2 st (saveGame c1 st sto)
         = Some (True, st, createBackup (c2 0) (saveGame c1 st sto))"
proof -
  obtain h where "get (JObj st) ''worldHistory'' = JArr h" and "loaded_shape st"
    using assms(1) by (auto simp add: loaded_form_def split: json.splits)
  hence "merge_saved (JObj st) (roundtrip (JObj st)) = st"
    using assms(2) by (simp only: merge_saved_same)
  hence "validateAndFixState (later c2) (merge_saved (JObj st) (roundtrip (JObj st)))
         = Some (Inr st, later c2)"
    using assms(1) by (simp only: validateAndFixState_same)
  thus ?thesis
    using assms(2,3) by (intro loadGame_accepts) (simp_all only: saveGame_save)
qed

theorem save_then_load_witness:
  "loaded_form loaded_state
   \<and> roundtrip (JObj loaded_state) = JObj loaded_state
   \<and> validateSaveData (JObj loaded_state)
   \<and> loadGame still loaded_state (saveGame still loaded_state nothing_stored)
     = Some (True, loaded_state,
             createBackup (still 0) (saveGame still loaded_state nothing_stored))"
proof -
  show ?thesis
    using save_then_load [OF loaded_state_form loaded_state_plain loaded_state_valid,
                          of still still nothing_stored]
      loaded_state_form loaded_state_plain loaded_state_valid
    by simp
qed

section \<open>The form that a load leaves\<close>

lemma assign_keys_extend: "\<exists>rest. map fst (assign src dst) = map fst dst @ rest"
proof (induction src arbitrary: dst)
  case Nil
  show ?case
    by (simp add: assign_def)
next
  case (Cons e src)
  have step: "assign (e # src) dst = assign src (put (fst e) (snd e) dst)"
    by (simp add: assign_def)
  have "\<exists>r1. map fst (put (fst e) (snd e) dst) = map fst dst @ r1"
    by (simp add: keys_put)
  then obtain r1 where "map fst (put (fst e) (snd e) dst) = map fst dst @ r1"
    by blast
  moreover obtain r2 where
    "map fst (assign src (put (fst e) (snd e) dst)) = map fst (put (fst e) (snd e) dst) @ r2"
    using Cons.IH by blast
  ultimately show ?case
    unfolding step by simp
qed

lemma begins_with_merge:
  assumes "distinct (map fst dk)"
  shows "begins_with dk (merge (JObj dk) v)"
proof -
  obtain rest where "map fst (assign (spread v) dk) = map fst dk @ rest"
    using assign_keys_extend by blast
  moreover have "length (map fst dk) = length dk"
    by simp
  ultimately have "take (length dk) (map fst (assign (spread v) dk)) = map fst dk"
    by (metis append_eq_conv_conj)
  thus ?thesis
    using assms by (simp add: begins_with_def merge_def assign_self distinct_assign)
qed

lemma begins_with_merged: "begins_with [] (merge a b)"
  by (simp add: begins_with_def merge_def distinct_assign)

lemma fix_upgrade_get:
  "get (JObj (fix_upgrade d ups)) n
   = (if n = fst d
      then merge (snd d) (if truthy (get (JObj ups) (fst d)) then get (JObj ups) (fst d) else JObj [])
      else get (JObj ups) n)"
  by (simp add: fix_upgrade_def get_put del: get.simps)

lemma fix_upgrade_distinct: "distinct (map fst ups) \<Longrightarrow> distinct (map fst (fix_upgrade d ups))"
  by (simp add: fix_upgrade_def distinct_put)

lemma fix_upgrades_shape:
  assumes "distinct (map fst ups)"
  shows "distinct (map fst (fold fix_upgrade defaultUpgrades ups))"
    and "list_all (\<lambda>d. begins_with (spread (snd d))
                          (get (JObj (fold fix_upgrade defaultUpgrades ups)) (fst d)))
           defaultUpgrades"
  using assms unfolding defaultUpgrades_def
  by (simp_all add: fix_upgrade_get fix_upgrade_distinct begins_with_merge del: get.simps)

lemma merge_saved_shape:
  "distinct (map fst (merge_saved s p))"
  "has (JObj (merge_saved s p)) ''currentWorld''"
  "list_all (\<lambda>n. begins_with [] (get (JObj (merge_saved s p)) n)) (''upgrades'' # merged_sections)"
proof -
  show "distinct (map fst (merge_saved s p))"
    unfolding merge_saved_def Let_def merge_section_def merged_sections_def
    by (simp add: distinct_put distinct_assign)
  show "has (JObj (merge_saved s p)) ''currentWorld''"
    unfolding merge_saved_def Let_def merge_section_def merged_sections_def
    by (simp add: has_put del: has.simps)
  show "list_all (\<lambda>n. begins_with [] (get (JObj (merge_saved s p)) n)) (''upgrades'' # merged_sections)"
    by (simp add: merged_sections_def merge_saved_get begins_with_merged del: get.simps)
qed

lemma fix_sections_shape:
  assumes "distinct (map fst st)" and "has (JObj st) ''currentWorld''"
    and "list_all (\<lambda>n. begins_with [] (get (JObj st) n)) (''upgrades'' # merged_sections)"
    and "get (JObj st) ''worldHistory'' = JArr h"
  shows "\<exists>st'. fix_sections st = Inr st' \<and> loaded_shape st'
           \<and> get (JObj st') ''worldHistory'' = JArr h
           \<and> get (JObj st') ''worldsCreated'' = get (JObj st) ''worldsCreated''"
proof -
  obtain ups where ups: "get (JObj st) ''upgrades'' = JObj ups" and d: "distinct (map fst ups)"
    using assms(3) by (auto simp add: begins_with_def split: json.splits simp del: get.simps)
  define st3 where "st3 = put ''upgrades'' (JObj (fold fix_upgrade defaultUpgrades ups)) st"
  define st4 where
    "st4 = (if \<not> truthy (get (JObj st3) ''activeEvents'') then put ''activeEvents'' (JArr []) st3
            else st3)"
  define st5 where
    "st5 = put ''resources'' (merge defaultResources (get (JObj st4) ''resources'')) st4"
  have fixed: "fix_sections st = Inr st5"
    unfolding fix_sections_def Let_def st5_def st4_def st3_def using assms(4) ups
    by (simp del: get.simps)
  have plain: "begins_with [] (JObj (fold fix_upgrade defaultUpgrades ups))"
    using fix_upgrades_shape(1) [OF d] by (simp add: begins_with_def)
  have res: "begins_with (spread defaultResources) (merge defaultResources v)" for v
    unfolding defaultResources_def spread.simps by (rule begins_with_merge) simp
  have active: "truthy (get (JObj st4) ''activeEvents'')"
    by (simp add: st4_def get_put del: get.simps)
  have "loaded_shape st5"
    unfolding loaded_shape_def
    using assms(1,2,3) plain res active fix_upgrades_shape(2) [OF d]
    by (simp add: st5_def st4_def st3_def merged_sections_def get_put has_put distinct_put
             del: get.simps has.simps)
  moreover have "get (JObj st5) ''worldHistory'' = JArr h"
    and "get (JObj st5) ''worldsCreated'' = get (JObj st) ''worldsCreated''"
    using assms(4) by (simp_all add: st5_def st4_def st3_def get_put del: get.simps)
  ultimately show ?thesis
    using fixed by blast
qed

lemma history_loop_grows:
  assumes "history_loop wc c i acc = Some r"
  shows "length acc \<le> length (fst r)"
  by (rule history_loop.raw_induct
        [where P = "\<lambda>wc c i acc r. length acc \<le> length (fst r)", OF _ assms])
     (fastforce split: if_splits)

lemma history_loop_nonempty:
  assumes "history_loop wc c i [] = Some (h, c')" and "count_le i wc"
  shows "h \<noteq> []"
proof -
  have "history_loop wc (later c) (i + 1) [placeholder wc (c 0) i] = Some (h, c')"
    using assms by (subst (asm) history_loop.simps) simp
  hence "length [placeholder wc (c 0) i] \<le> length (fst (h, c'))"
    by (rule history_loop_grows)
  thus ?thesis
    by auto
qed

lemma count_le_positive: "count_le 1 (as_number v) \<Longrightarrow> positive v"
  by (cases v rule: positive.cases) auto

lemma validateAndFixState_shape:
  assumes "distinct (map fst st)" and "has (JObj st) ''currentWorld''"
    and "list_all (\<lambda>n. begins_with [] (get (JObj st) n)) (''upgrades'' # merged_sections)"
    and "get (JObj st) ''worldHistory'' = JArr h"
    and "validateAndFixState c st = Some (Inr st', c')"
  shows "loaded_form st'"
proof (cases "h = [] \<and> positive (get (JObj st) ''worldsCreated'')")
  case False
  hence "fix_sections st = Inr st'"
    using assms(4,5) by (auto simp add: validateAndFixState_def no_history_def)
  hence "loaded_shape st'" and "get (JObj st') ''worldHistory'' = JArr h"
    and "get (JObj st') ''worldsCreated'' = get (JObj st) ''worldsCreated''"
    using fix_sections_shape [OF assms(1,2,3,4)] by auto
  thus ?thesis
    using False count_le_positive [of "get (JObj st) ''worldsCreated''"]
    by (auto simp add: loaded_form_def)
next
  case True
  then obtain hs c2 where
    loop: "history_loop (as_number (get (JObj st) ''worldsCreated'')) c 1 [] = Some (hs, c2)"
    and fixed: "fix_sections (put ''worldHistory'' (JArr hs) st) = Inr st'"
    using assms(4,5)
    by (auto simp add: validateAndFixState_def no_history_def split: option.splits)
  have "loaded_shape st'" and "get (JObj st') ''worldHistory'' = JArr hs"
    and "get (JObj st') ''worldsCreated'' = get (JObj st) ''worldsCreated''"
    using fix_sections_shape [of "put ''worldHistory'' (JArr hs) st" hs] assms(1,2,3) fixed
    by (simp_all add: merged_sections_def get_put has_put distinct_put del: get.simps has.simps)
  thus ?thesis
    using history_loop_nonempty [OF loop] by (auto simp add: loaded_form_def)
qed

lemma load_step_settles:
  assumes "validateSaveData p"
    and "validateAndFixState c (merge_saved (JObj st) p) = Some (Inr st', c')"
  shows "loaded_form st'"
proof -
  have "\<not> (truthy (get p ''worldHistory'')
            \<and> (case get p ''worldHistory'' of JArr _ \<Rightarrow> False | _ \<Rightarrow> True))"
    using assms(1) by (simp add: validateSaveData_def split: if_splits del: get.simps)
  then obtain h where "get (JObj (merge_saved (JObj st) p)) ''worldHistory'' = JArr h"
    by (cases "get p ''worldHistory''") (auto simp add: merge_saved_history js_or_def simp del: get.simps)
  thus ?thesis
    using merge_saved_shape [of "JObj st" p] assms(2) by (intro validateAndFixState_shape)
qed

text \<open>Every state that \<^verbatim>\<open>loadGame\<close> leaves with the value true has the loaded form.\<close>

lemma loadGame_settles:
  assumes "loadGame c st sto = Some (True, st', sto')"
  shows "loaded_form st'"
proof -
  have "fst r \<longrightarrow> loaded_form (fst (snd r))" if "loadGame c st sto = Some r" for r
    by (rule loadGame.raw_induct
          [where P = "\<lambda>c st sto r. fst r \<longrightarrow> loaded_form (fst (snd r))", OF _ that])
       (auto simp add: Let_def load_step_settles
             split: if_splits blob.splits option.splits sum.splits prod.splits)
  thus ?thesis
    using assms by fastforce
qed

section \<open>A save with a level that is not a whole number\<close>

text \<open>
  A save with the heat generator at level 9.5 passes the validation, and the load leaves
  that level, with the maximum level 10 and the base cost 10 of the default.
\<close>

lemma fractional_save_valid: "validateSaveData fractional_save"
  by (simp add: validateSaveData_def fractional_save_def requiredProperties_def
        resourceTypes_def valid_upgrade_def)

lemma fix_sections_upgrades:
  assumes "get (JObj st) ''upgrades'' = JObj ups"
  shows "\<exists>st'. fix_sections st = Inr st'
           \<and> get (JObj st') ''upgrades'' = JObj (fold fix_upgrade defaultUpgrades ups)"
proof -
  define st2 where
    "st2 = (if \<not> truthy (get (JObj st) ''worldHistory'') then put ''worldHistory'' (JArr []) st else st)"
  have up: "get (JObj st2) ''upgrades'' = JObj ups"
    using assms by (simp add: st2_def get_put del: get.simps)
  show ?thesis
    unfolding fix_sections_def st2_def [symmetric] Let_def up
    by (simp add: get_put del: get.simps)
qed

lemma fractional_save_loaded:
  "\<exists>st' sto'. loadGame c st (stored (Parses fractional_save) sto) = Some (True, st', sto')
     \<and> get (get (JObj st') ''upgrades'') ''heatGenerator''
         = JObj [(''level'', JNum (Finite (19/2))), (''maxLevel'', JNum (Finite 10)),
                 (''baseCost'', JNum (Finite 10))]"
proof -
  let ?m = "merge_saved (JObj st) fractional_save"
  let ?bk = "[(''heatGenerator'', JObj [(''level'', JNum (Finite (19/2)))])]"
  obtain ups where ups: "get (JObj ?m) ''upgrades'' = JObj ups"
    by (simp add: merge_saved_upgrades merge_def del: get.simps)
  have "get (JObj ?m) ''upgrades'' = merge (get (JObj st) ''upgrades'') (JObj ?bk)"
    by (simp add: merge_saved_upgrades fractional_save_def del: get.simps) simp
  hence "get (get (JObj ?m) ''upgrades'') ''heatGenerator''
         = JObj [(''level'', JNum (Finite (19/2)))]"
    by (simp add: get_merge_object del: get.simps) simp
  hence hg: "get (JObj ups) ''heatGenerator'' = JObj [(''level'', JNum (Finite (19/2)))]"
    by (simp only: ups)
  have "get (JObj ?m) ''worldsCreated'' = JNum (Finite 0)"
    unfolding fractional_save_def by (subst merge_saved_count) simp_all
  hence "validateAndFixState (later c) ?m = Some (fix_sections ?m, later c)"
    by (simp add: validateAndFixState_def del: get.simps)
  moreover obtain st' where "fix_sections ?m = Inr st'"
    and "get (JObj st') ''upgrades'' = JObj (fold fix_upgrade defaultUpgrades ups)"
    using fix_sections_upgrades [OF ups] by blast
  moreover have "get (JObj (fold fix_upgrade defaultUpgrades ups)) ''heatGenerator''
                 = JObj [(''level'', JNum (Finite (19/2))), (''maxLevel'', JNum (Finite 10)),
                         (''baseCost'', JNum (Finite 10))]"
    unfolding defaultUpgrades_def
    by (simp add: fix_upgrade_get hg del: get.simps)
       (simp add: merge_def assign_def put_def)
  ultimately show ?thesis
    using fractional_save_valid
    by (subst loadGame.simps) (simp add: stored_def del: get.simps)
qed


section \<open>Loading and the resource caps\<close>

lemma pressure_cap_below: "\<exists>cap. map_of (caps s) ''pressure'' = Some (Some cap) \<and> cap < 1000"
  by (simp add: caps_def)

text \<open>
  Claim C1. Every reachable state, loads included, is to keep each resource within its
  cap. With the save text \<^verbatim>\<open>{"worldsCreated":0,"resources":{"pressure":1000},"upgrades":{}}\<close>
  stored, \<^verbatim>\<open>loadGame\<close> returns true from every state in memory and leaves
  \<^verbatim>\<open>resources.pressure = 1000\<close>: the save passes \<^verbatim>\<open>validateSaveData\<close>, which bounds a
  resource only from below, and neither \<^verbatim>\<open>loadGame\<close> nor \<^verbatim>\<open>validateAndFixState\<close> calls
  \<^verbatim>\<open>enforceResourceCaps\<close>. The pressure cap of \<^verbatim>\<open>enforceResourceCaps\<close> is 100, or 200 with
  the caps doubled, in every state.
\<close>

theorem loadGame_keeps_overfull:
  "pressure_after (loadGame c st (stored (Parses overfull_save) sto)) = Some (True, JNum (Finite 1000))
   \<and> (\<exists>cap. map_of (caps s) ''pressure'' = Some (Some cap) \<and> cap < 1000)"
proof
  have "validateSaveData overfull_save"
    by (simp add: validateSaveData_def overfull_save_def requiredProperties_def resourceTypes_def)
  then obtain st' where
    "loadGame c st (stored (Parses overfull_save) sto)
     = Some (True, st', createBackup (c 0) (stored (Parses overfull_save) sto))"
    and "get (JObj st') ''resources''
         = merge defaultResources (merge (get (JObj st) ''resources'')
             (JObj [(''pressure'', JNum (Finite 1000))]))"
    using loadGame_valid [of "stored (Parses overfull_save) sto" _ c st]
    unfolding overfull_save_def stored_def by fastforce
  thus "pressure_after (loadGame c st (stored (Parses overfull_save) sto))
        = Some (True, JNum (Finite 1000))"
    by (simp add: pressure_after_def pressure_of_overfull del: get.simps)
  show "\<exists>cap. map_of (caps s) ''pressure'' = Some (Some cap) \<and> cap < 1000"
    by (rule pressure_cap_below)
qed

end
